theory Spec2Isabelle
  imports Complex_Main "HOL-Library.Product_Lexorder" "HOL-Library.List_Lexorder"
    "HOL-Library.Char_ord"
begin

section \<open>The analytics layer of the FlyTXT log dashboard\<close>

text \<open>
  The dashboard (\<^verbatim>\<open>dashboard_flytxt.py\<close>) is one script: it filters a table of log
  records and, tab by tab, computes counts, rates, trends, anomalies, patterns and
  correlations from the filtered table \<^verbatim>\<open>df_filtrado\<close>.  The definitions below follow the
  script's expressions and keep its names.

  Numbers.  Counts are natural numbers, taken to be below \<open>2 ^ 53\<close>, so that each of them is
  a binary64 floating-point value.  The script computes with such values.  Where the
  rounding of an operation decides what is reported, the operations are written one by one
  with \<open>doble\<close>, the rounding of a real to the nearest binary64 value: in the day-of-week
  patterns (the thresholds 0.85 and 1.15 times the daily mean, the consistency and the
  magnitude) and in the other thresholds that are a decimal constant times a mean or a sum
  (0.1, 0.5, 0.4 and 0.2), each of which is compared with whole counts.  Everywhere else the
  floating-point values are embedded as exact reals, which the script's values approximate
  with a relative error of \<open>1 / 2 ^ 53\<close> for each operation.  Where pandas yields NaN (the
  standard deviation of fewer than two points, a correlation with a zero denominator) the
  value is \<open>None\<close>, and a comparison with it is false, as it is with NaN.  A division whose
  divisor is zero is the fault \<open>ZeroDivisionError\<close> (numpy yields inf or nan with a warning
  where plain Python raises; both are written as the same fault here).

  Data.  Every record has a value in every column that is read (no missing cell).  Dates
  are day numbers; countries, months, statuses and days of week are strings of ASCII
  characters; hours and file sizes (byte counts) are natural numbers.  A column that a
  table lacks is absent from \<open>columnas\<close>, and the fields of its records are then not
  read.  The script reads the country and the month column without a test (lines 84, 94
  and 148); they are taken to be present.
\<close>

subsection \<open>Records and tables\<close>

datatype error = IndexError | ValueError | ZeroDivisionError

text \<open>One log record.  \<open>fecha\<close> is the calendar day as a day number.\<close>

record registro =
  fecha :: int
  pais :: string
  mes :: string
  status :: string
  hora :: nat
  dia_semana :: string
  s3_size :: nat
  local_size :: nat

text \<open>A data frame: the names of the columns it has, and its rows.\<close>

record tabla =
  columnas :: "string list"
  filas :: "registro list"

definition tiene :: "tabla \<Rightarrow> string \<Rightarrow> bool" where
  "tiene df c = (c \<in> set (columnas df))"

subsection \<open>Grouping and basic statistics\<close>

text \<open>\<^verbatim>\<open>groupby(k).size()\<close>: one row per distinct key, in ascending key order, with
  the number of records that have the key.\<close>

definition groupby_size :: "('a::linorder) list \<Rightarrow> ('a \<times> nat) list" where
  "groupby_size ks = map (\<lambda>k. (k, count_list ks k)) (sort (remdups ks))"

text \<open>\<^verbatim>\<open>Series.mean()\<close> of a column of counts.\<close>

definition media :: "nat list \<Rightarrow> real" where
  "media xs = real (sum_list xs) / real (length xs)"

text \<open>\<^verbatim>\<open>Series.std()\<close> (sample standard deviation, \<^verbatim>\<open>ddof=1\<close>): NaN for fewer
  than two points.\<close>

definition desv_std :: "nat list \<Rightarrow> real option" where
  "desv_std xs =
     (if length xs < 2 then None
      else Some (sqrt ((\<Sum>x\<leftarrow>xs. (real x - media xs)\<^sup>2) / real (length xs - 1))))"

text \<open>Division with its fault.\<close>

definition dividir :: "real \<Rightarrow> real \<Rightarrow> error + real" where
  "dividir a b = (if b = 0 then Inl ZeroDivisionError else Inr (a / b))"

definition por_cien :: "error + real \<Rightarrow> error + real" where
  "por_cien r = (case r of Inl e \<Rightarrow> Inl e | Inr q \<Rightarrow> Inr (q * 100))"

text \<open>Sequencing of computations that may fault.\<close>

definition ligar :: "error + 'a \<Rightarrow> ('a \<Rightarrow> error + 'b) \<Rightarrow> error + 'b" where
  "ligar m f = (case m of Inl e \<Rightarrow> Inl e | Inr x \<Rightarrow> f x)"

text \<open>\<^verbatim>\<open>Series.iloc[0]\<close> and \<^verbatim>\<open>Series.iloc[-1]\<close>: out of range on an empty series.\<close>

definition iloc_primero :: "'a list \<Rightarrow> error + 'a" where
  "iloc_primero xs = (case xs of [] \<Rightarrow> Inl IndexError | x # _ \<Rightarrow> Inr x)"

definition iloc_ultimo :: "'a list \<Rightarrow> error + 'a" where
  "iloc_ultimo xs = (case xs of [] \<Rightarrow> Inl IndexError | _ # _ \<Rightarrow> Inr (last xs))"

text \<open>The daily aggregate \<^verbatim>\<open>registros_dia = df_filtrado.groupby('fecha').size()\<close>.\<close>

definition registros_dia :: "registro list \<Rightarrow> (int \<times> nat) list" where
  "registros_dia fs = groupby_size (map fecha fs)"

subsection \<open>Binary floating point\<close>

text \<open>Rounding to the nearest whole number, a tie to the even one.\<close>

definition redondeo_par :: "real \<Rightarrow> int" where
  "redondeo_par y =
     (let f = \<lfloor>y\<rfloor>; d = y - of_int f
      in if d < 1 / 2 then f else if d > 1 / 2 then f + 1 else if even f then f else f + 1)"

text \<open>The number of binary digits of a natural number.\<close>

fun bits :: "nat \<Rightarrow> nat" where
  "bits n = (if n = 0 then 0 else Suc (bits (n div 2)))"

declare bits.simps [simp del]

text \<open>The binary exponent of a positive real \<open>x\<close>: the \<open>e\<close> with
  \<open>2 powi e \<le> x < 2 powi (e + 1)\<close>.\<close>

definition exponente :: "real \<Rightarrow> int" where
  "exponente x =
     (if 1 \<le> x then int (bits (nat \<lfloor>x\<rfloor>)) - 1 else - int (bits (nat (\<lceil>1 / x\<rceil> - 1))))"

text \<open>The binary64 value nearest to a real, a tie to the one with the even significand.
  The significand has 53 bits: a positive \<open>x\<close> of exponent \<open>e\<close> is rounded to a multiple of
  \<open>2 powi (e - 52)\<close>.  The exponent is not bounded here; overflow and subnormal numbers
  lie beyond \<open>10 ^ 308\<close> and below \<open>1 / 10 ^ 307\<close>, where counts of records and their
  quotients do not come.\<close>

definition doble_pos :: "real \<Rightarrow> real" where
  "doble_pos x = (let e = exponente x - 52 in of_int (redondeo_par (x / 2 powi e)) * 2 powi e)"

definition doble :: "real \<Rightarrow> real" where
  "doble x = (if x = 0 then 0 else if 0 < x then doble_pos x else - doble_pos (- x))"

text \<open>Division and the product by 100 in binary64.\<close>

definition dividir_doble :: "real \<Rightarrow> real \<Rightarrow> error + real" where
  "dividir_doble a b = (if b = 0 then Inl ZeroDivisionError else Inr (doble (a / b)))"

definition por_cien_doble :: "error + real \<Rightarrow> error + real" where
  "por_cien_doble r = (case r of Inl e \<Rightarrow> Inl e | Inr q \<Rightarrow> Inr (doble (q * 100)))"

subsection \<open>Filters (lines 101-133)\<close>

text \<open>What the user does in the sidebar: the country and the month chosen in the two
  select boxes (each offers \<^verbatim>\<open>'Todos'\<close> and the values of the loaded table), and the dates
  picked in the date widget.\<close>

record seleccion =
  pais_seleccionado :: string
  mes_seleccionado :: string
  fecha_rango :: "int list"

text \<open>Lines 102-108: the rows left by the country filter and the month filter.\<close>

definition filtro_pais_mes :: "tabla \<Rightarrow> seleccion \<Rightarrow> registro list" where
  "filtro_pais_mes df sel =
     (let f1 = (if pais_seleccionado sel \<noteq> ''Todos''
                then filter (\<lambda>r. pais r = pais_seleccionado sel) (filas df) else filas df)
      in if mes_seleccionado sel \<noteq> ''Todos''
         then filter (\<lambda>r. mes r = mes_seleccionado sel) f1 else f1)"

text \<open>Lines 112-113: \<^verbatim>\<open>min()\<close> and \<^verbatim>\<open>max()\<close> of the date column, missing (NaT) when
  there is no row.\<close>

definition fecha_min :: "registro list \<Rightarrow> int option" where
  "fecha_min fs = (case map fecha fs of [] \<Rightarrow> None | f # r \<Rightarrow> Some (fold min r f))"

definition fecha_max :: "registro list \<Rightarrow> int option" where
  "fecha_max fs = (case map fecha fs of [] \<Rightarrow> None | f # r \<Rightarrow> Some (fold max r f))"

text \<open>Lines 120-126, the date widget of the user-interface framework:
  \<^verbatim>\<open>st.sidebar.date_input(..., value=(fecha_min, fecha_max), min_value=fecha_min,
  max_value=fecha_max)\<close>.  Given missing dates (NaT) the call ends in a \<^verbatim>\<open>ValueError\<close>.
  Otherwise it returns what the user picked: none, one or
  two dates, which the widget keeps between the two bounds, at first the bounds
  themselves.\<close>

definition date_input :: "int option \<Rightarrow> int option \<Rightarrow> int list \<Rightarrow> error + int list" where
  "date_input min_value max_value pick =
     (case (min_value, max_value) of
        (Some a, Some b) \<Rightarrow> Inr pick
      | _ \<Rightarrow> Inl ValueError)"

text \<open>Lines 101-133: the filtered table \<^verbatim>\<open>df_filtrado\<close>.  The date widget is made from
  the rows that the country and the month filter leave, and only when the table has a date
  column.\<close>

definition aplicar_filtros :: "tabla \<Rightarrow> seleccion \<Rightarrow> error + tabla" where
  "aplicar_filtros df sel =
     (let f2 = filtro_pais_mes df sel
      in if tiene df ''fecha'' then
           ligar (date_input (fecha_min f2) (fecha_max f2) (fecha_rango sel)) (\<lambda>rango.
             Inr (df\<lparr>filas :=
                    (if length rango = 2
                     then filter (\<lambda>r. fecha r \<ge> rango ! 0 \<and> fecha r \<le> rango ! 1) f2
                     else f2)\<rparr>))
         else Inr (df\<lparr>filas := f2\<rparr>))"

subsection \<open>Success rate (lines 156-163)\<close>

text \<open>ASCII lower-casing, for matching that ignores case.\<close>

definition minuscula :: "char \<Rightarrow> char" where
  "minuscula c =
     (case map_of (zip ''ABCDEFGHIJKLMNOPQRSTUVWXYZ'' ''abcdefghijklmnopqrstuvwxyz'') c of
        Some l \<Rightarrow> l
      | None \<Rightarrow> c)"

text \<open>A literal pattern matched at the start of a string, ignoring case.\<close>

fun coincide_en :: "string \<Rightarrow> string \<Rightarrow> bool" where
  "coincide_en [] s = True"
| "coincide_en (p # ps) [] = False"
| "coincide_en (p # ps) (c # cs) = (minuscula p = minuscula c \<and> coincide_en ps cs)"

text \<open>The literal searched at every position of the string (\<^verbatim>\<open>re.search\<close>).\<close>

fun busca_literal :: "string \<Rightarrow> string \<Rightarrow> bool" where
  "busca_literal p [] = coincide_en p []"
| "busca_literal p (c # cs) = (coincide_en p (c # cs) \<or> busca_literal p cs)"

text \<open>\<^verbatim>\<open>str.contains(pat, case=False)\<close> for a pattern that is an alternation of
  literals.\<close>

definition str_contains :: "string list \<Rightarrow> string \<Rightarrow> bool" where
  "str_contains alternativas s = list_ex (\<lambda>p. busca_literal p s) alternativas"

text \<open>\<^verbatim>\<open>.str.contains('Success|success|SUCCESS', case=False, na=False)\<close>; the column has
  been through \<^verbatim>\<open>astype(str)\<close>, so every value is a string.\<close>

definition es_exitoso :: "string \<Rightarrow> bool" where
  "es_exitoso s = str_contains [''Success'', ''success'', ''SUCCESS''] s"

definition registros_exitosos :: "registro list \<Rightarrow> nat" where
  "registros_exitosos fs = length (filter (\<lambda>r. es_exitoso (status r)) fs)"

text \<open>What a metric card shows: a number, or the text \<^verbatim>\<open>N/A\<close>.\<close>

datatype metrica = NA | Valor real

definition tasa_exito :: "tabla \<Rightarrow> error + metrica" where
  "tasa_exito df =
     (if tiene df ''status'' \<and> length (filas df) > 0
      then (case por_cien (dividir (real (registros_exitosos (filas df))) (real (length (filas df)))) of
              Inl e \<Rightarrow> Inl e
            | Inr t \<Rightarrow> Inr (Valor t))
      else Inr NA)"

subsection \<open>Overall trend (tab 1, lines 477-502)\<close>

datatype tendencia = Crecimiento | Descenso | Estable

text \<open>\<^verbatim>\<open>cambio_porcentual = (cambio_absoluto / primer_valor * 100) if primer_valor > 0 else 0\<close>\<close>

definition cambio_porcentual :: "nat \<Rightarrow> nat \<Rightarrow> error + real" where
  "cambio_porcentual primer_valor ultimo_valor =
     (let cambio_absoluto = int ultimo_valor - int primer_valor
      in if primer_valor > 0
         then por_cien (dividir (real_of_int cambio_absoluto) (real primer_valor))
         else Inr 0)"

text \<open>The \<^verbatim>\<open>if cambio_porcentual > 10 / elif cambio_porcentual < -10 / else\<close> chain.\<close>

definition historia_principal :: "real \<Rightarrow> tendencia" where
  "historia_principal c =
     (if c > 10 then Crecimiento else if c < - 10 then Descenso else Estable)"

text \<open>The trend of a series of daily counts: percent change and its class.\<close>

definition tendencia_general :: "nat list \<Rightarrow> error + (real \<times> tendencia)" where
  "tendencia_general serie =
     (case iloc_primero serie of Inl e \<Rightarrow> Inl e
      | Inr primer_valor \<Rightarrow>
     (case iloc_ultimo serie of Inl e \<Rightarrow> Inl e
      | Inr ultimo_valor \<Rightarrow>
     (case cambio_porcentual primer_valor ultimo_valor of Inl e \<Rightarrow> Inl e
      | Inr c \<Rightarrow> Inr (c, historia_principal c))))"

subsection \<open>Day-of-week patterns (tab 1, lines 281-474)\<close>

text \<open>\<^verbatim>\<open>registros_dia_completo = df_filtrado.groupby(['fecha', 'dia_semana']).size()\<close>\<close>

definition registros_dia_completo :: "registro list \<Rightarrow> ((int \<times> string) \<times> nat) list" where
  "registros_dia_completo fs = groupby_size (map (\<lambda>r. (fecha r, dia_semana r)) fs)"

text \<open>\<^verbatim>\<open>izq.merge(der, on='fecha', how='left')\<close>: the rows of the left table in their
  order, each joined with every row of the right table that has its date; a left row with
  no partner keeps a missing day of week.\<close>

definition merge_left ::
  "(int \<times> nat) list \<Rightarrow> (int \<times> string) list \<Rightarrow> (int \<times> nat \<times> string option) list" where
  "merge_left izq der =
     concat (map (\<lambda>(f, n).
       (case filter (\<lambda>(f', d). f' = f) der of
          [] \<Rightarrow> [(f, n, None)]
        | c # cs \<Rightarrow> map (\<lambda>(f', d). (f, n, Some d)) (c # cs))) izq)"

text \<open>The distinct values of a column in the order of their first appearance.\<close>

definition unicos :: "'a list \<Rightarrow> 'a list" where
  "unicos xs = rev (remdups (rev xs))"

text \<open>\<^verbatim>\<open>Series.value_counts()\<close>: missing values dropped, one row per distinct value
  with its number of occurrences, most frequent first.  Among equally frequent values the
  one that appears first in the column comes first here; pandas promises no order among
  them, and the facts about the first row below use only that no row has a larger
  count.\<close>

definition value_counts :: "'a option list \<Rightarrow> ('a \<times> nat) list" where
  "value_counts col =
     (let vs = map the (filter (\<lambda>v. v \<noteq> None) col)
      in sort_key (\<lambda>(k, c). - int c) (map (\<lambda>k. (k, count_list vs k)) (unicos vs)))"

record patron =
  p_dia :: string
  p_cantidad :: nat
  p_total_dias_tipo :: nat
  p_consistencia :: real
  p_fechas :: "int list"
  p_promedio :: real
  p_magnitud :: real

text \<open>Line 291: \<^verbatim>\<open>promedio_temp = registros_dia['registros'].mean()\<close>, the binary64
  quotient of the sum of the counts by their number.\<close>

definition promedio_temp :: "registro list \<Rightarrow> real" where
  "promedio_temp fs = doble (media (map snd (registros_dia fs)))"

text \<open>Line 292: \<^verbatim>\<open>umbral_caida = promedio_temp * 0.85\<close>, the binary64 product; the
  literal stands for the binary64 value nearest to 0.85.\<close>

definition umbral_caida :: "registro list \<Rightarrow> real" where
  "umbral_caida fs = doble (promedio_temp fs * doble 0.85)"

text \<open>Line 293: the days whose count is below that threshold.\<close>

definition dias_con_caida :: "registro list \<Rightarrow> (int \<times> nat) list" where
  "dias_con_caida fs = filter (\<lambda>(f, n). real n < umbral_caida fs) (registros_dia fs)"

text \<open>Lines 297-301: those days joined with their day of week.\<close>

definition dias_con_caida_completo :: "registro list \<Rightarrow> (int \<times> nat \<times> string option) list" where
  "dias_con_caida_completo fs =
     merge_left (dias_con_caida fs) (map fst (registros_dia_completo fs))"

text \<open>Lines 295-345: the day of week that is most frequent among the days below the
  threshold, its consistency, and the pattern reported when the consistency reaches 50.
  \<open>p_dia\<close> is the day of week as the column has it (the text shows its Spanish name),
  \<open>p_promedio\<close> is \<^verbatim>\<open>promedio_caidas\<close> and \<open>p_magnitud\<close> is \<^verbatim>\<open>impacto\<close>; every
  operation on them is a binary64 operation.\<close>

definition patron_caidas :: "registro list \<Rightarrow> error + patron option" where
  "patron_caidas fs =
     (if length (dias_con_caida fs) > 0 then
        (let patron_caidas = value_counts (map (\<lambda>(f, n, d). d) (dias_con_caida_completo fs))
         in (case patron_caidas of
               [] \<Rightarrow> Inr None
             | (dia_mas_caidas, cantidad_caidas) # _ \<Rightarrow>
                 (let total_dias_tipo =
                        length (filter (\<lambda>((f, d), n). d = dia_mas_caidas)
                                  (registros_dia_completo fs))
                  in ligar (if total_dias_tipo > 0
                            then por_cien_doble (dividir_doble (real cantidad_caidas)
                                                   (real total_dias_tipo))
                            else Inr 0)
                     (\<lambda>consistencia.
                       if consistencia \<ge> 50 then
                         (let del_dia = filter (\<lambda>(f, n, d). d = Some dia_mas_caidas)
                                          (dias_con_caida_completo fs);
                              promedio_caidas = doble (media (map (\<lambda>(f, n, d). n) del_dia))
                          in ligar (por_cien_doble
                                      (dividir_doble (doble (promedio_temp fs - promedio_caidas))
                                         (promedio_temp fs)))
                             (\<lambda>impacto. Inr (Some
                                \<lparr>p_dia = dia_mas_caidas, p_cantidad = cantidad_caidas,
                                 p_total_dias_tipo = total_dias_tipo,
                                 p_consistencia = consistencia,
                                 p_fechas = map (\<lambda>(f, n, d). f) del_dia,
                                 p_promedio = promedio_caidas, p_magnitud = impacto\<rparr>)))
                       else Inr None))))
      else Inr None)"

text \<open>Lines 382-432: the mirror image for the days above
  \<^verbatim>\<open>umbral_pico = promedio_temp * 1.15\<close>.  \<open>p_promedio\<close> is \<^verbatim>\<open>promedio_picos\<close> and
  \<open>p_magnitud\<close> is \<^verbatim>\<open>incremento\<close>.\<close>

definition umbral_pico :: "registro list \<Rightarrow> real" where
  "umbral_pico fs = doble (promedio_temp fs * doble 1.15)"

definition patron_picos :: "registro list \<Rightarrow> error + patron option" where
  "patron_picos fs =
     (let dias_con_pico = filter (\<lambda>(f, n). real n > umbral_pico fs) (registros_dia fs)
      in if length dias_con_pico > 0 then
           (let dias_con_pico_completo =
                  merge_left dias_con_pico (map fst (registros_dia_completo fs));
                patron_picos = value_counts (map (\<lambda>(f, n, d). d) dias_con_pico_completo)
            in (case patron_picos of
                  [] \<Rightarrow> Inr None
                | (dia_mas_picos, cantidad_picos) # _ \<Rightarrow>
                    (let total_dias_tipo_pico =
                           length (filter (\<lambda>((f, d), n). d = dia_mas_picos)
                                     (registros_dia_completo fs))
                     in ligar (if total_dias_tipo_pico > 0
                               then por_cien_doble (dividir_doble (real cantidad_picos)
                                                      (real total_dias_tipo_pico))
                               else Inr 0)
                        (\<lambda>consistencia_pico.
                          if consistencia_pico \<ge> 50 then
                            (let del_dia = filter (\<lambda>(f, n, d). d = Some dia_mas_picos)
                                             dias_con_pico_completo;
                                 promedio_picos = doble (media (map (\<lambda>(f, n, d). n) del_dia))
                             in ligar (por_cien_doble
                                         (dividir_doble (doble (promedio_picos - promedio_temp fs))
                                            (promedio_temp fs)))
                                (\<lambda>incremento. Inr (Some
                                   \<lparr>p_dia = dia_mas_picos, p_cantidad = cantidad_picos,
                                    p_total_dias_tipo = total_dias_tipo_pico,
                                    p_consistencia = consistencia_pico,
                                    p_fechas = map (\<lambda>(f, n, d). f) del_dia,
                                    p_promedio = promedio_picos, p_magnitud = incremento\<rparr>)))
                          else Inr None))))
         else Inr None)"

subsection \<open>Variability, anomalies and availability (tab 1, lines 481-649)\<close>

text \<open>\<^verbatim>\<open>idxmax()\<close> and \<^verbatim>\<open>idxmin()\<close>: the first row that holds the largest (smallest) count,
  label and count; a \<^verbatim>\<open>ValueError\<close> on an empty series.\<close>

definition idxmax :: "('k \<times> nat) list \<Rightarrow> error + ('k \<times> nat)" where
  "idxmax rows =
     (case rows of
        [] \<Rightarrow> Inl ValueError
      | r # rs \<Rightarrow> Inr (fold (\<lambda>x mejor. if snd x > snd mejor then x else mejor) rs r))"

definition idxmin :: "('k \<times> nat) list \<Rightarrow> error + ('k \<times> nat)" where
  "idxmin rows =
     (case rows of
        [] \<Rightarrow> Inl ValueError
      | r # rs \<Rightarrow> Inr (fold (\<lambda>x mejor. if snd x < snd mejor then x else mejor) rs r))"

text \<open>\<^verbatim>\<open>rolling(window=7, min_periods=1).mean()\<close>: at each index, the mean of the point
  and of up to six points before it.\<close>

definition promedio_movil_7d :: "nat list \<Rightarrow> real list" where
  "promedio_movil_7d xs = map (\<lambda>i. media (drop (i + 1 - 7) (take (i + 1) xs))) [0..<length xs]"

text \<open>\<^verbatim>\<open>coef_variacion = (std_dev / promedio_registros * 100) if promedio_registros > 0 else 0\<close>;
  missing when the standard deviation is.\<close>

definition coef_variacion :: "nat list \<Rightarrow> error + real option" where
  "coef_variacion xs =
     (if media xs > 0
      then (case desv_std xs of
              None \<Rightarrow> Inr None
            | Some std_dev \<Rightarrow> ligar (por_cien (dividir std_dev (media xs))) (\<lambda>c. Inr (Some c)))
      else Inr (Some 0))"

text \<open>Lines 549-552 and 1196-1199: the days whose count is more than two standard
  deviations away from the mean.  With a missing standard deviation both comparisons are
  false.\<close>

definition anomalias :: "(int \<times> nat) list \<Rightarrow> (int \<times> nat) list" where
  "anomalias reg =
     (let promedio_registros = media (map snd reg);
          std_dev = desv_std (map snd reg)
      in filter (\<lambda>(f, n).
           (case std_dev of
              None \<Rightarrow> False
            | Some s \<Rightarrow> real n > promedio_registros + 2 * s \<or> real n < promedio_registros - 2 * s))
         reg)"

text \<open>Lines 615-616: the days below \<^verbatim>\<open>umbral_minimo = promedio_registros * 0.1\<close>, a
  binary64 product.\<close>

definition dias_problema :: "(int \<times> nat) list \<Rightarrow> (int \<times> nat) list" where
  "dias_problema reg =
     (let umbral_minimo = doble (doble (media (map snd reg)) * doble 0.1)
      in filter (\<lambda>(f, n). real n < umbral_minimo) reg)"

text \<open>Lines 631-636: the share of the days between the first and the last date that
  have records.  (Without records the two dates and their difference are missing, the test
  \<^verbatim>\<open>dias_esperados > 0\<close> is false and the value is 100.)\<close>

definition uptime :: "registro list \<Rightarrow> error + real" where
  "uptime fs =
     (case map fecha fs of
        [] \<Rightarrow> Inr 100
      | f # r \<Rightarrow>
          (let dias_con_datos = length (registros_dia fs);
               fecha_min = fold min r f;
               fecha_max = fold max r f;
               dias_esperados = fecha_max - fecha_min + 1
           in if dias_esperados > 0
              then por_cien (dividir (real dias_con_datos) (real_of_int dias_esperados))
              else Inr 100))"

record tendencias =
  t_promedio_registros :: real
  t_dia_maximo :: "int \<times> nat"
  t_dia_minimo :: "int \<times> nat"
  t_promedio_movil_7d :: "real list"
  t_patron_caidas :: "patron option"
  t_patron_picos :: "patron option"
  t_cambio_porcentual :: real
  t_historia :: tendencia
  t_coef_variacion :: "real option"
  t_anomalias :: "(int \<times> nat) list"
  t_dias_problema :: "(int \<times> nat) list"
  t_uptime :: real

text \<open>What a tab shows: the warning that no data matches the filters, nothing (a column
  the tab needs is absent), or its analysis.\<close>

datatype 'a pestana = SinDatos | SinColumna | Analisis 'a

text \<open>The body of tab 1 once the table is known to have rows and a date column.\<close>

definition analisis_tendencias :: "tabla \<Rightarrow> error + tendencias" where
  "analisis_tendencias df =
     (let reg = registros_dia (filas df); serie = map snd reg
      in ligar (idxmax reg) (\<lambda>dia_maximo.
         ligar (idxmin reg) (\<lambda>dia_minimo.
         ligar (if tiene df ''dia_semana'' then patron_caidas (filas df) else Inr None) (\<lambda>caidas.
         ligar (if tiene df ''dia_semana'' then patron_picos (filas df) else Inr None) (\<lambda>picos.
         ligar (tendencia_general serie) (\<lambda>(cambio, historia).
         ligar (coef_variacion serie) (\<lambda>cv.
         ligar (uptime (filas df)) (\<lambda>up.
           Inr \<lparr>t_promedio_registros = media serie,
                t_dia_maximo = dia_maximo, t_dia_minimo = dia_minimo,
                t_promedio_movil_7d = promedio_movil_7d serie,
                t_patron_caidas = caidas, t_patron_picos = picos,
                t_cambio_porcentual = cambio, t_historia = historia,
                t_coef_variacion = cv,
                t_anomalias = anomalias reg,
                t_dias_problema = dias_problema reg,
                t_uptime = up\<rparr>))))))))"

text \<open>Tab 1 (lines 178-180): \<^verbatim>\<open>if len(df_filtrado) == 0: ... elif 'fecha' in df_filtrado.columns:\<close>\<close>

definition tab_tendencias :: "tabla \<Rightarrow> error + tendencias pestana" where
  "tab_tendencias df =
     (if length (filas df) = 0 then Inr SinDatos
      else if tiene df ''fecha'' then ligar (analisis_tendencias df) (\<lambda>a. Inr (Analisis a))
      else Inr SinColumna)"

subsection \<open>Countries (tab 2, lines 657-737)\<close>

definition mayuscula :: "char \<Rightarrow> char" where
  "mayuscula c =
     (case map_of (zip ''abcdefghijklmnopqrstuvwxyz'' ''ABCDEFGHIJKLMNOPQRSTUVWXYZ'') c of
        Some u \<Rightarrow> u
      | None \<Rightarrow> c)"

text \<open>Lines 671-674: the mean of the last third of a series against the mean of its
  first third.\<close>

definition cambio_segmentos :: "nat list \<Rightarrow> error + real" where
  "cambio_segmentos registros_tiempo =
     (let n = length registros_tiempo;
          inicio = media (take (max 1 (n div 3)) registros_tiempo);
          fin = media (drop (n - max 1 (n div 3)) registros_tiempo)
      in if inicio > 0 then por_cien (dividir (fin - inicio) inicio) else Inr 0)"

text \<open>Line 677: \<^verbatim>\<open>std() / mean() * 100 if mean() > 0 else 0\<close>.\<close>

definition volatilidad :: "nat list \<Rightarrow> error + real option" where
  "volatilidad registros_tiempo =
     (if media registros_tiempo > 0
      then (case desv_std registros_tiempo of
              None \<Rightarrow> Inr None
            | Some s \<Rightarrow> ligar (por_cien (dividir s (media registros_tiempo))) (\<lambda>v. Inr (Some v)))
      else Inr (Some 0))"

record tendencia_pais =
  tp_pais :: string
  tp_tendencia :: real
  tp_volatilidad :: "real option"
  tp_promedio :: real
  tp_total :: nat

text \<open>A function that may fault, applied along a list; the first fault ends it.\<close>

fun ligar_lista :: "('a \<Rightarrow> error + 'b) \<Rightarrow> 'a list \<Rightarrow> error + 'b list" where
  "ligar_lista f [] = Inr []"
| "ligar_lista f (x # xs) =
     (case f x of
        Inl e \<Rightarrow> Inl e
      | Inr y \<Rightarrow> (case ligar_lista f xs of Inl e \<Rightarrow> Inl e | Inr ys \<Rightarrow> Inr (y # ys)))"

text \<open>Lines 664-685: one entry per country that has more than three days of records.\<close>

definition tendencias_pais :: "registro list \<Rightarrow> error + tendencia_pais list" where
  "tendencias_pais fs =
     ligar (ligar_lista
       (\<lambda>p. (let datos_pais = filter (\<lambda>r. pais r = p) fs;
                 registros_tiempo = map snd (groupby_size (map fecha datos_pais))
             in if length registros_tiempo > 3
                then ligar (cambio_segmentos registros_tiempo) (\<lambda>cambio.
                     ligar (volatilidad registros_tiempo) (\<lambda>vol.
                       Inr [\<lparr>tp_pais = map mayuscula p, tp_tendencia = cambio,
                             tp_volatilidad = vol, tp_promedio = media registros_tiempo,
                             tp_total = length datos_pais\<rparr>]))
                else Inr []))
       (unicos (map pais fs)))
     (\<lambda>xss. Inr (concat xss))"

text \<open>numpy's rounding to a number of decimals: to the nearest, a tie to the even one
  (\<open>redondeo_par\<close>).  The value rounded here is the exact one; the script rounds its
  binary64 value, which for a share that lies exactly between two hundredths can fall to
  the other side.\<close>

definition redondear :: "nat \<Rightarrow> real \<Rightarrow> real" where
  "redondear decimales x = of_int (redondeo_par (x * 10 ^ decimales)) / 10 ^ decimales"

text \<open>Line 735: \<^verbatim>\<open>registros_pais = df_filtrado.groupby('pais').size()\<close>.\<close>

definition registros_pais :: "registro list \<Rightarrow> (string \<times> nat) list" where
  "registros_pais fs = groupby_size (map pais fs)"

text \<open>Line 736:
  \<^verbatim>\<open>porcentaje = (registros / registros.sum() * 100).round(2)\<close>, row by row.\<close>

definition porcentaje :: "(string \<times> nat) list \<Rightarrow> error + real list" where
  "porcentaje reg =
     ligar_lista (\<lambda>(p, n).
        ligar (por_cien (dividir (real n) (real (sum_list (map snd reg)))))
          (\<lambda>x. Inr (redondear 2 x)))
       reg"

record paises =
  ps_tendencias :: "tendencia_pais list option"
  ps_registros :: "(string \<times> nat) list"
  ps_porcentaje :: "real list"

text \<open>Tab 2 (lines 657-737).\<close>

definition tab_paises :: "tabla \<Rightarrow> error + paises pestana" where
  "tab_paises df =
     (if length (filas df) = 0 then Inr SinDatos
      else
        ligar (if tiene df ''fecha'' \<and> length (remdups (map fecha (filas df))) > 7
               then ligar (tendencias_pais (filas df)) (\<lambda>t. Inr (Some t))
               else Inr None) (\<lambda>tend.
        ligar (porcentaje (registros_pais (filas df))) (\<lambda>pct.
          Inr (Analisis \<lparr>ps_tendencias = tend, ps_registros = registros_pais (filas df),
                         ps_porcentaje = pct\<rparr>))))"

subsection \<open>Day of week (tab 3, lines 931-1052)\<close>

definition dias_orden :: "string list" where
  "dias_orden =
     [''Monday'', ''Tuesday'', ''Wednesday'', ''Thursday'', ''Friday'', ''Saturday'', ''Sunday'']"

text \<open>The position of a day in \<open>dias_orden\<close>; a value that is not one of the seven names
  has no position and is sorted last.\<close>

definition orden :: "string \<Rightarrow> nat" where
  "orden d = (case map_of (zip dias_orden [0..<7]) d of Some i \<Rightarrow> i | None \<Rightarrow> 7)"

definition registros_dia_semana :: "registro list \<Rightarrow> (string \<times> nat) list" where
  "registros_dia_semana fs = sort_key (\<lambda>(d, n). orden d) (groupby_size (map dia_semana fs))"

datatype patron_fin_semana = ActividadAlta | ActividadBaja | ActividadModerada

text \<open>The Spanish names of the days (\<^verbatim>\<open>dias_es\<close>; a character is its code point, 233
  and 225 for the two accented letters) and the map \<^verbatim>\<open>dia_map\<close> from the English names to
  them.  The column \<^verbatim>\<open>dia_es\<close> is missing for a value that is not one of the seven
  names.\<close>

definition dias_es :: "string list" where
  "dias_es =
     [''Lunes'', ''Martes'', ''Mi'' @ [CHR 0xE9] @ ''rcoles'', ''Jueves'', ''Viernes'',
      ''S'' @ [CHR 0xE1] @ ''bado'', ''Domingo'']"

definition dia_map :: "string \<Rightarrow> string option" where
  "dia_map = map_of (zip dias_orden dias_es)"

record semana =
  s_dia_max :: "string option"
  s_dia_min :: "string option"
  s_registros_max :: nat
  s_registros_min :: nat
  s_diferencia_pct :: real
  s_patron :: patron_fin_semana

text \<open>Lines 1011-1030.  The day with the largest and the day with the smallest count are
  reported by their Spanish names; the two products that the weekend count is compared with
  are binary64 products.\<close>

definition analisis_semana :: "registro list \<Rightarrow> error + semana" where
  "analisis_semana fs =
     (let reg = registros_dia_semana fs
      in ligar (idxmax reg) (\<lambda>(dia_max, registros_max).
         ligar (idxmin reg) (\<lambda>(dia_min, registros_min).
         ligar (por_cien (dividir (real_of_int (int registros_max - int registros_min))
                            (real registros_min))) (\<lambda>diferencia_pct.
           (let fin_semana = sum_list (map snd
                  (filter (\<lambda>(d, n). d \<in> set [''Saturday'', ''Sunday'']) reg));
                entre_semana = sum_list (map snd
                  (filter (\<lambda>(d, n). d \<notin> set [''Saturday'', ''Sunday'']) reg))
            in Inr \<lparr>s_dia_max = dia_map dia_max, s_dia_min = dia_map dia_min,
                    s_registros_max = registros_max, s_registros_min = registros_min,
                    s_diferencia_pct = diferencia_pct,
                    s_patron =
                      (if real fin_semana > doble (real entre_semana * doble 0.4)
                       then ActividadAlta
                       else if real fin_semana < doble (real entre_semana * doble 0.2)
                       then ActividadBaja
                       else ActividadModerada)\<rparr>)))))"

definition tab_dia_semana :: "tabla \<Rightarrow> error + semana pestana" where
  "tab_dia_semana df =
     (if length (filas df) = 0 then Inr SinDatos
      else if tiene df ''dia_semana''
           then ligar (analisis_semana (filas df)) (\<lambda>a. Inr (Analisis a))
      else Inr SinColumna)"

subsection \<open>Dates and forecast (tab 4, lines 1061-1266)\<close>

text \<open>Lines 1251-1266.  The forecast is made when the daily series has seven points or
  more: from its last seven points, the percent change \<^verbatim>\<open>tendencia_pct\<close> between the mean
  of the first \<^verbatim>\<open>mitad\<close> of them and the mean of the rest, and \<^verbatim>\<open>pronostico\<close>, the mean of
  the last three points moved by that percentage.\<close>

definition pronostico :: "nat list \<Rightarrow> error + (real \<times> real) option" where
  "pronostico registros =
     (if length registros \<ge> 7 then
        (let ultimos_dias = drop (length registros - 7) registros
         in if length ultimos_dias \<ge> 3 then
              (let mitad = length ultimos_dias div 2;
                   promedio_inicio = media (take mitad ultimos_dias);
                   promedio_fin = media (drop (length ultimos_dias
                                    - (length ultimos_dias - mitad)) ultimos_dias)
               in ligar (if promedio_inicio > 0
                         then por_cien (dividir (promedio_fin - promedio_inicio) promedio_inicio)
                         else Inr 0) (\<lambda>tendencia_pct.
                  (let promedio_ultimos_3 = media (drop (length ultimos_dias - 3) ultimos_dias)
                   in Inr (Some (tendencia_pct, promedio_ultimos_3 * (1 + tendencia_pct / 100))))))
            else Inr None)
      else Inr None)"

record fechas =
  f_promedio_fecha :: real
  f_max_fecha :: "int \<times> nat"
  f_min_fecha :: "int \<times> nat"
  f_anomalias :: "(int \<times> nat) list"
  f_pronostico :: "(real \<times> real) option"

text \<open>Tab 4: the statistics by date, the anomalous dates and the forecast.  (The
  breakdown by day of the month needs the calendar and is left to the presentation.)\<close>

definition tab_fechas :: "tabla \<Rightarrow> error + fechas pestana" where
  "tab_fechas df =
     (if length (filas df) = 0 then Inr SinDatos
      else if tiene df ''fecha'' then
        (let registros_por_fecha = registros_dia (filas df)
         in ligar (idxmax registros_por_fecha) (\<lambda>mx.
            ligar (idxmin registros_por_fecha) (\<lambda>mn.
            ligar (pronostico (map snd registros_por_fecha)) (\<lambda>pr.
              Inr (Analisis \<lparr>f_promedio_fecha = media (map snd registros_por_fecha),
                             f_max_fecha = mx, f_min_fecha = mn,
                             f_anomalias = anomalias registros_por_fecha,
                             f_pronostico = pr\<rparr>)))))
      else Inr SinColumna)"

subsection \<open>Hours (tab 5, lines 1330-1493)\<close>

record horas =
  h_hora_max :: "nat \<times> nat"
  h_hora_min :: "nat \<times> nat"
  h_pct_laboral :: real
  h_ventanas_oportunidad :: "nat list"
  h_pct_nocturno :: real

definition registros_hora :: "registro list \<Rightarrow> (nat \<times> nat) list" where
  "registros_hora fs = groupby_size (map hora fs)"

definition analisis_horas :: "registro list \<Rightarrow> error + horas" where
  "analisis_horas fs =
     (let reg = registros_hora fs;
          suma = (\<lambda>P. sum_list (map snd (filter (\<lambda>(h, n). P h) reg)));
          horario_laboral = suma (\<lambda>h. h \<ge> 8 \<and> h \<le> 18);
          horario_no_laboral = suma (\<lambda>h. h < 8 \<or> h > 18);
          promedio_hora = doble (media (map snd reg));
          nocturno = suma (\<lambda>h. h \<ge> 22 \<or> h < 6);
          diurno = suma (\<lambda>h. h \<ge> 6 \<and> h < 22);
          total_hora = nocturno + diurno
      in ligar (idxmax reg) (\<lambda>mx.
         ligar (idxmin reg) (\<lambda>mn.
         ligar (por_cien (dividir (real horario_laboral)
                            (real (horario_laboral + horario_no_laboral)))) (\<lambda>pct_laboral.
         ligar (if total_hora > 0 then por_cien (dividir (real nocturno) (real total_hora))
                else Inr 0) (\<lambda>pct_nocturno.
           Inr \<lparr>h_hora_max = mx, h_hora_min = mn, h_pct_laboral = pct_laboral,
                h_ventanas_oportunidad =
                  map fst (sort_key snd
                    (filter (\<lambda>(h, n). real n < doble (promedio_hora * doble 0.5)) reg)),
                h_pct_nocturno = pct_nocturno\<rparr>)))))"

definition tab_horas :: "tabla \<Rightarrow> error + horas pestana" where
  "tab_horas df =
     (if length (filas df) = 0 then Inr SinDatos
      else if tiene df ''hora'' then ligar (analisis_horas (filas df)) (\<lambda>a. Inr (Analisis a))
      else Inr SinColumna)"

subsection \<open>File sizes (tab 6, lines 1600-1638)\<close>

text \<open>\<^verbatim>\<open>Series.quantile(q)\<close> with linear interpolation between the two nearest order
  statistics; NaN on an empty series.\<close>

definition cuantil :: "real \<Rightarrow> nat list \<Rightarrow> real option" where
  "cuantil q xs =
     (if xs = [] then None
      else (let s = sort xs;
                pos = q * real (length s - 1);
                i = nat \<lfloor>pos\<rfloor>;
                j = min (i + 1) (length s - 1)
            in Some (real (s ! i) + (pos - real i) * (real (s ! j) - real (s ! i)))))"

record tamanos =
  tm_ratio_compresion :: real
  tm_limite_superior :: "real option"
  tm_limite_inferior :: "real option"
  tm_anomalos_grandes :: "registro list"
  tm_anomalos_pequenos :: "registro list"

text \<open>Lines 1621-1628: the 1.5 IQR fences of the \<^verbatim>\<open>s3_size\<close> column, the lower one
  floored at zero, and the records outside them.  A comparison with a missing fence is
  false.\<close>

definition limites_iqr :: "nat list \<Rightarrow> real option \<times> real option" where
  "limites_iqr xs =
     (case (cuantil 0.25 xs, cuantil 0.75 xs) of
        (Some q1_s3, Some q3_s3) \<Rightarrow>
          (let iqr_s3 = q3_s3 - q1_s3
           in (Some (q3_s3 + 1.5 * iqr_s3), Some (max 0 (q1_s3 - 1.5 * iqr_s3))))
      | _ \<Rightarrow> (None, None))"

definition anomalos_grandes :: "registro list \<Rightarrow> registro list" where
  "anomalos_grandes fs =
     filter (\<lambda>r. case fst (limites_iqr (map s3_size fs)) of
                   None \<Rightarrow> False
                 | Some limite_superior \<Rightarrow> real (s3_size r) > limite_superior) fs"

definition anomalos_pequenos :: "registro list \<Rightarrow> registro list" where
  "anomalos_pequenos fs =
     filter (\<lambda>r. case snd (limites_iqr (map s3_size fs)) of
                   None \<Rightarrow> False
                 | Some limite_inferior \<Rightarrow> real (s3_size r) < limite_inferior) fs"

definition analisis_tamanos :: "registro list \<Rightarrow> error + tamanos" where
  "analisis_tamanos fs =
     (let avg_s3_size = media (map s3_size fs);
          avg_local_size = media (map local_size fs)
      in ligar (if avg_s3_size > 0
                then ligar (dividir avg_local_size avg_s3_size) (\<lambda>q. Inr ((1 - q) * 100))
                else Inr 0) (\<lambda>ratio_compresion.
           Inr \<lparr>tm_ratio_compresion = ratio_compresion,
                tm_limite_superior = fst (limites_iqr (map s3_size fs)),
                tm_limite_inferior = snd (limites_iqr (map s3_size fs)),
                tm_anomalos_grandes = anomalos_grandes fs,
                tm_anomalos_pequenos = anomalos_pequenos fs\<rparr>))"

subsection \<open>Correlations between countries (tab 6, lines 1660-1710)\<close>

text \<open>\<^verbatim>\<open>matriz_pais_fecha = df_filtrado.groupby(['fecha', 'pais']).size()\<close>\<close>

definition matriz_pais_fecha :: "registro list \<Rightarrow> ((int \<times> string) \<times> nat) list" where
  "matriz_pais_fecha fs = groupby_size (map (\<lambda>r. (fecha r, pais r)) fs)"

text \<open>\<^verbatim>\<open>pivot(index='fecha', columns='pais', values='registros').fillna(0)\<close>: one column
  per country, in ascending order of the countries; in it one entry per date, in ascending
  order of the dates, the count of the pair or 0 where the pair has no row.\<close>

definition pivot_paises :: "((int \<times> string) \<times> nat) list \<Rightarrow> (string \<times> real list) list" where
  "pivot_paises m =
     (let indice = sort (remdups (map (\<lambda>((f, p), n). f) m));
          cols = sort (remdups (map (\<lambda>((f, p), n). p) m))
      in map (\<lambda>p. (p, map (\<lambda>f. case map_of m (f, p) of None \<Rightarrow> 0 | Some n \<Rightarrow> real n) indice))
           cols)"

text \<open>\<^verbatim>\<open>DataFrame.corr()\<close> for two columns: Pearson's coefficient, the sum of the products
  of the deviations from the means over the square root of the product of the two sums of
  squared deviations; NaN when there is no observation or that square root is zero.\<close>

definition corr :: "real list \<Rightarrow> real list \<Rightarrow> real option" where
  "corr xs ys =
     (let mx = sum_list xs / real (length xs);
          my = sum_list ys / real (length ys);
          covxy = (\<Sum>(x, y)\<leftarrow>zip xs ys. (x - mx) * (y - my));
          ssqdm_x = (\<Sum>x\<leftarrow>xs. (x - mx)\<^sup>2);
          ssqdm_y = (\<Sum>y\<leftarrow>ys. (y - my)\<^sup>2);
          divisor = sqrt (ssqdm_x * ssqdm_y)
      in if length xs = 0 then None
         else if divisor \<noteq> 0 then Some (covxy / divisor)
         else None)"

text \<open>The correlation matrix, row \<open>i\<close> and column \<open>j\<close> for the \<open>i\<close>-th and \<open>j\<close>-th
  country.\<close>

definition correlaciones :: "(string \<times> real list) list \<Rightarrow> real option list list" where
  "correlaciones pivot = map (\<lambda>(p, xs). map (\<lambda>(q, ys). corr xs ys) pivot) pivot"

record par =
  pais1 :: string
  pais2 :: string
  correlacion :: real

text \<open>Lines 1674-1683 and 1692-1701: the two loops over \<^verbatim>\<open>i\<close> and \<^verbatim>\<open>j > i\<close>.  A
  comparison with a missing coefficient is false.\<close>

definition pares_negativos :: "(string \<times> real list) list \<Rightarrow> par list" where
  "pares_negativos pivot =
     concat (map (\<lambda>i. concat (map (\<lambda>j.
       (case correlaciones pivot ! i ! j of
          None \<Rightarrow> []
        | Some corr_val \<Rightarrow>
            if corr_val < - 0.3
            then [\<lparr>pais1 = map mayuscula (fst (pivot ! i)),
                   pais2 = map mayuscula (fst (pivot ! j)), correlacion = corr_val\<rparr>]
            else []))
       [i + 1..<length pivot])) [0..<length pivot])"

definition pares_positivos :: "(string \<times> real list) list \<Rightarrow> par list" where
  "pares_positivos pivot =
     concat (map (\<lambda>i. concat (map (\<lambda>j.
       (case correlaciones pivot ! i ! j of
          None \<Rightarrow> []
        | Some corr_val \<Rightarrow>
            if corr_val > 0.7
            then [\<lparr>pais1 = map mayuscula (fst (pivot ! i)),
                   pais2 = map mayuscula (fst (pivot ! j)), correlacion = corr_val\<rparr>]
            else []))
       [i + 1..<length pivot])) [0..<length pivot])"

text \<open>What the correlation section shows: nothing at all (\<open>SinAnalisis\<close>, the outer
  condition of line 1661 is false), its title only (the inner condition of line 1669 is
  false), or the pairs found, with the notice that the countries operate independently
  when both lists are empty.\<close>

datatype seccion_correlaciones =
  SinAnalisis
| SoloTitulo
| Pares "par list" "par list" bool

definition analisis_correlaciones :: "tabla \<Rightarrow> seccion_correlaciones" where
  "analisis_correlaciones df =
     (if tiene df ''pais'' \<and> tiene df ''fecha'' \<and> length (remdups (map pais (filas df))) > 1
      then (let pivot = pivot_paises (matriz_pais_fecha (filas df))
            in if length pivot \<ge> 2
               then Pares (pares_negativos pivot) (pares_positivos pivot)
                      (pares_negativos pivot = [] \<and> pares_positivos pivot = [])
               else SoloTitulo)
      else SinAnalisis)"

subsection \<open>Summary (tab 6) and the whole page\<close>

record resumen =
  r_promedio_dia :: real
  r_tamanos :: "tamanos option"
  r_correlaciones :: seccion_correlaciones

definition tab_resumen :: "tabla \<Rightarrow> error + resumen pestana" where
  "tab_resumen df =
     (if length (filas df) = 0 then Inr SinDatos
      else
        ligar (if tiene df ''fecha''
               then dividir (real (length (filas df)))
                      (real (length (remdups (map fecha (filas df)))))
               else Inr 0) (\<lambda>promedio_dia.
        ligar (if tiene df ''s3_size'' \<and> tiene df ''local_size''
               then ligar (analisis_tamanos (filas df)) (\<lambda>t. Inr (Some t))
               else Inr None) (\<lambda>tam.
          Inr (Analisis \<lparr>r_promedio_dia = promedio_dia, r_tamanos = tam,
                         r_correlaciones = analisis_correlaciones df\<rparr>))))"

record panel =
  pn_total_registros :: nat
  pn_paises_unicos :: nat
  pn_dias_unicos :: "nat option"
  pn_tasa_exito :: metrica
  pn_tendencias :: "tendencias pestana"
  pn_paises :: "paises pestana"
  pn_dia_semana :: "semana pestana"
  pn_fechas :: "fechas pestana"
  pn_horas :: "horas pestana"
  pn_resumen :: "resumen pestana"

text \<open>One run of the script on a loaded table and a selection: the filters with the date
  widget, the four metric cards, then the six tabs in their order.  The first fault ends
  the run.\<close>

definition panel :: "tabla \<Rightarrow> seleccion \<Rightarrow> error + panel" where
  "panel df sel =
     ligar (aplicar_filtros df sel) (\<lambda>df_filtrado.
         ligar (tasa_exito df_filtrado) (\<lambda>tasa.
         ligar (tab_tendencias df_filtrado) (\<lambda>t1.
         ligar (tab_paises df_filtrado) (\<lambda>t2.
         ligar (tab_dia_semana df_filtrado) (\<lambda>t3.
         ligar (tab_fechas df_filtrado) (\<lambda>t4.
         ligar (tab_horas df_filtrado) (\<lambda>t5.
         ligar (tab_resumen df_filtrado) (\<lambda>t6.
           Inr \<lparr>pn_total_registros = length (filas df_filtrado),
                pn_paises_unicos = length (remdups (map pais (filas df_filtrado))),
                pn_dias_unicos = (if tiene df_filtrado ''fecha''
                                  then Some (length (remdups (map fecha (filas df_filtrado))))
                                  else None),
                pn_tasa_exito = tasa,
                pn_tendencias = t1, pn_paises = t2, pn_dia_semana = t3,
                pn_fechas = t4, pn_horas = t5, pn_resumen = t6\<rparr>))))))))"

subsection \<open>The specification's words for day-of-week patterns\<close>

text \<open>The days in range, each with its day of week: the distinct pairs of a date and a
  day of week that occur in the view.\<close>

definition dias_del_rango :: "registro list \<Rightarrow> (int \<times> string) list" where
  "dias_del_rango fs = remdups (map (\<lambda>r. (fecha r, dia_semana r)) fs)"

text \<open>The count of a day: the number of records of the view on that date.\<close>

definition registros_del_dia :: "registro list \<Rightarrow> int \<Rightarrow> nat" where
  "registros_del_dia fs f = length (filter (\<lambda>r. fecha r = f) fs)"

text \<open>The overall daily mean: the records of the view over its number of days.\<close>

definition promedio_diario :: "registro list \<Rightarrow> real" where
  "promedio_diario fs = real (length fs) / real (length (remdups (map fecha fs)))"

text \<open>The drop threshold: 0.85 times the overall daily mean, in binary64 (the mean, the
  constant and the product each rounded).  A day is below the threshold when its count is
  strictly below it.\<close>

definition umbral_85 :: "registro list \<Rightarrow> real" where
  "umbral_85 fs = doble (doble (promedio_diario fs) * doble 0.85)"

definition bajo_umbral :: "registro list \<Rightarrow> int \<Rightarrow> bool" where
  "bajo_umbral fs f = (real (registros_del_dia fs f) < umbral_85 fs)"

text \<open>The number of days of a day of week that are below the threshold, and the number
  of days of that day of week in range.\<close>

definition veces_bajo :: "registro list \<Rightarrow> string \<Rightarrow> nat" where
  "veces_bajo fs d = length (filter (\<lambda>(f, d'). d' = d \<and> bajo_umbral fs f) (dias_del_rango fs))"

definition veces_total :: "registro list \<Rightarrow> string \<Rightarrow> nat" where
  "veces_total fs d = length (filter (\<lambda>(f, d'). d' = d) (dias_del_rango fs))"

text \<open>The consistency of a day of week: its days below the threshold over its days in
  range, in percent.  The magnitude of a drop to the mean \<open>m\<close>: the part of the overall daily
  mean by which \<open>m\<close> is below it, in percent.  Both in binary64.\<close>

definition consistencia_dia :: "registro list \<Rightarrow> string \<Rightarrow> real" where
  "consistencia_dia fs d = doble (doble (real (veces_bajo fs d) / real (veces_total fs d)) * 100)"

definition magnitud_caida :: "registro list \<Rightarrow> real \<Rightarrow> real" where
  "magnitud_caida fs m =
     doble (doble (doble (doble (promedio_diario fs) - m) / doble (promedio_diario fs)) * 100)"

subsection \<open>Example data\<close>

text \<open>A record with the given date, country, day of week and status.\<close>

definition registro_de :: "int \<Rightarrow> string \<Rightarrow> string \<Rightarrow> string \<Rightarrow> registro" where
  "registro_de f p d st =
     \<lparr>fecha = f, pais = p, mes = ''09'', status = st, hora = 10, dia_semana = d,
      s3_size = 100, local_size = 50\<rparr>"

definition ejemplo_tendencia :: "registro list" where
  "ejemplo_tendencia =
     [registro_de 1 ''gt'' ''Monday'' ''Success'', registro_de 2 ''gt'' ''Tuesday'' ''Success'',
      registro_de 2 ''sv'' ''Tuesday'' ''Failed'']"

text \<open>Daily counts 1, 1, 1, 2, 2, 2, 2 on seven dates, and a view of three dates.\<close>

definition ejemplo_siete_dias :: "registro list" where
  "ejemplo_siete_dias =
     map (\<lambda>f. registro_de f ''gt'' ''Monday'' ''Success'') [1, 2, 3, 4, 4, 5, 5, 6, 6, 7, 7]"

definition ejemplo_tres_dias :: "registro list" where
  "ejemplo_tres_dias = map (\<lambda>f. registro_de f ''gt'' ''Monday'' ''Success'') [1, 2, 2, 3]"

text \<open>A view of four records with the statuses Success, Unsuccessful, Failed and
  SUCCESS.\<close>

definition ejemplo_estados :: tabla where
  "ejemplo_estados =
     \<lparr>columnas = [''fecha'', ''pais'', ''mes'', ''status''],
      filas = map (registro_de 1 ''gt'' ''Monday'')
                [''Success'', ''Unsuccessful'', ''Failed'', ''SUCCESS'']\<rparr>"

text \<open>Three days with five records each, one day alone, and a view whose files all have
  the same size.\<close>

definition ejemplo_constante :: "(int \<times> nat) list" where
  "ejemplo_constante = [(1, 5), (2, 5), (3, 5)]"

definition ejemplo_tamanos_iguales :: "registro list" where
  "ejemplo_tamanos_iguales =
     map (\<lambda>f. registro_de f ''gt'' ''Monday'' ''Success'') [1, 2, 3, 4, 5]"

text \<open>A view of 31 records, each of another country, and a view of three countries with
  1, 1 and 2 records.\<close>

definition ejemplo_31_paises :: "registro list" where
  "ejemplo_31_paises =
     map (\<lambda>p. registro_de 1 p ''Monday'' ''Success'')
       [''c01'', ''c02'', ''c03'', ''c04'', ''c05'', ''c06'', ''c07'', ''c08'', ''c09'',
        ''c10'', ''c11'', ''c12'', ''c13'', ''c14'', ''c15'', ''c16'', ''c17'', ''c18'',
        ''c19'', ''c20'', ''c21'', ''c22'', ''c23'', ''c24'', ''c25'', ''c26'', ''c27'',
        ''c28'', ''c29'', ''c30'', ''c31'']"

definition ejemplo_3_paises :: "registro list" where
  "ejemplo_3_paises =
     map (\<lambda>p. registro_de 1 p ''Monday'' ''Success'') [''gt'', ''sv'', ''hn'', ''hn'']"



definition ejemplo_una_fecha :: tabla where
  "ejemplo_una_fecha =
     \<lparr>columnas = [''fecha'', ''pais'', ''mes'', ''status''],
      filas = map (\<lambda>(f, p). registro_de f p ''Monday'' ''Success'')
                [(1, ''gt''), (1, ''gt''), (1, ''sv'')]\<rparr>"


text \<open>A table with one record of the country gt in the month 09 and one of the country
  sv in the month 10, and the selection of the country gt and the month 10, which both
  select boxes offer: no record has both.\<close>

definition ejemplo_cruce :: tabla where
  "ejemplo_cruce =
     \<lparr>columnas = [''fecha'', ''pais'', ''mes'', ''status'', ''hora'', ''dia_semana''],
      filas = [registro_de 1 ''gt'' ''Monday'' ''Success'',
               (registro_de 40 ''sv'' ''Friday'' ''Success'')\<lparr>mes := ''10''\<rparr>]\<rparr>"

definition seleccion_cruce :: seleccion where
  "seleccion_cruce =
     \<lparr>pais_seleccionado = ''gt'', mes_seleccionado = ''10'', fecha_rango = []\<rparr>"

text \<open>A table in which one country has records on the dates 1 and 3 only, and the
  selection of that country with the date range from 2 to 2: no record matches.\<close>

definition ejemplo_hueco :: tabla where
  "ejemplo_hueco =
     \<lparr>columnas = [''fecha'', ''pais'', ''mes'', ''status'', ''hora'', ''dia_semana''],
      filas = map (\<lambda>(f, p). registro_de f p ''Monday'' ''Success'')
                [(1, ''gt''), (2, ''sv''), (3, ''gt'')]\<rparr>"

definition seleccion_hueco :: seleccion where
  "seleccion_hueco =
     \<lparr>pais_seleccionado = ''gt'', mes_seleccionado = ''Todos'', fecha_rango = [2, 2]\<rparr>"

text \<open>Example views for the drop pattern; the date 1 is a Monday.  In the first, four
  whole weeks, every day has 2 records but the Sundays, which have 1.  In the second there
  are records on five Mondays (1 each), on one Tuesday (7) and on four Sundays (1 each): the
  mean of the days other than Sunday is 2 and every Sunday has half of it.  The third is
  the second with 11 records on the Tuesday: the mean of all days is 2 and every Sunday has
  half of it.\<close>

definition ejemplo_domingos :: "registro list" where
  "ejemplo_domingos =
     map (\<lambda>(f, d). registro_de f ''gt'' d ''Success'')
       [(1, ''Monday''), (1, ''Monday''), (2, ''Tuesday''), (2, ''Tuesday''),
        (3, ''Wednesday''), (3, ''Wednesday''), (4, ''Thursday''), (4, ''Thursday''),
        (5, ''Friday''), (5, ''Friday''), (6, ''Saturday''), (6, ''Saturday''),
        (7, ''Sunday''), (8, ''Monday''), (8, ''Monday''), (9, ''Tuesday''),
        (9, ''Tuesday''), (10, ''Wednesday''), (10, ''Wednesday''), (11, ''Thursday''),
        (11, ''Thursday''), (12, ''Friday''), (12, ''Friday''), (13, ''Saturday''),
        (13, ''Saturday''), (14, ''Sunday''), (15, ''Monday''), (15, ''Monday''),
        (16, ''Tuesday''), (16, ''Tuesday''), (17, ''Wednesday''), (17, ''Wednesday''),
        (18, ''Thursday''), (18, ''Thursday''), (19, ''Friday''), (19, ''Friday''),
        (20, ''Saturday''), (20, ''Saturday''), (21, ''Sunday''), (22, ''Monday''),
        (22, ''Monday''), (23, ''Tuesday''), (23, ''Tuesday''), (24, ''Wednesday''),
        (24, ''Wednesday''), (25, ''Thursday''), (25, ''Thursday''), (26, ''Friday''),
        (26, ''Friday''), (27, ''Saturday''), (27, ''Saturday''), (28, ''Sunday'')]"

definition ejemplo_lunes :: "registro list" where
  "ejemplo_lunes =
     map (\<lambda>(f, d). registro_de f ''gt'' d ''Success'')
       [(1, ''Monday''), (2, ''Tuesday''), (2, ''Tuesday''), (2, ''Tuesday''),
        (2, ''Tuesday''), (2, ''Tuesday''), (2, ''Tuesday''), (2, ''Tuesday''),
        (7, ''Sunday''), (8, ''Monday''), (14, ''Sunday''), (15, ''Monday''),
        (21, ''Sunday''), (22, ''Monday''), (28, ''Sunday''), (29, ''Monday'')]"

definition ejemplo_lunes_b :: "registro list" where
  "ejemplo_lunes_b =
     map (\<lambda>(f, d). registro_de f ''gt'' d ''Success'')
       [(1, ''Monday''), (2, ''Tuesday''), (2, ''Tuesday''), (2, ''Tuesday''),
        (2, ''Tuesday''), (2, ''Tuesday''), (2, ''Tuesday''), (2, ''Tuesday''),
        (2, ''Tuesday''), (2, ''Tuesday''), (2, ''Tuesday''), (2, ''Tuesday''),
        (7, ''Sunday''), (8, ''Monday''), (14, ''Sunday''), (15, ''Monday''),
        (21, ''Sunday''), (22, ''Monday''), (28, ''Sunday''), (29, ''Monday'')]"

text \<open>A view given by its days: each day with its day of week and its number of records.  In
  the fourth example view there are 1260 records on 17 days, 63 of them on each of the two
  Sundays: 0.85 times the daily mean is 63 exactly.\<close>

definition vista_de_conteos :: "(int \<times> string \<times> nat) list \<Rightarrow> registro list" where
  "vista_de_conteos xs =
     concat (map (\<lambda>(f, d, n). replicate n (registro_de f ''gt'' d ''Success'')) xs)"

definition ejemplo_borde :: "registro list" where
  "ejemplo_borde =
     vista_de_conteos
       [(1, ''Monday'', 76), (2, ''Tuesday'', 76), (3, ''Wednesday'', 76), (4, ''Thursday'', 76),
        (5, ''Friday'', 76), (6, ''Saturday'', 76), (7, ''Sunday'', 63), (8, ''Monday'', 76),
        (9, ''Tuesday'', 76), (10, ''Wednesday'', 76), (11, ''Thursday'', 75),
        (12, ''Friday'', 75), (13, ''Saturday'', 75), (14, ''Sunday'', 63), (15, ''Monday'', 75),
        (16, ''Tuesday'', 75), (17, ''Wednesday'', 75)]"

section \<open>Facts\<close>

subsection \<open>Facts about binary64 rounding\<close>

lemma bits_bounds: "0 < n \<Longrightarrow> 2 ^ (bits n - 1) \<le> n \<and> n < 2 ^ bits n"
proof (induction n rule: bits.induct)
  case (1 n)
  show ?case
  proof (cases "n div 2 = 0")
    case True
    with 1(2) have "n = 1" by (simp add: div_eq_0_iff)
    then show ?thesis by (simp add: bits.simps)
  next
    case False
    then have p: "0 < n div 2" by simp
    from 1(1)[OF _ p] 1(2) have ih: "2 ^ (bits (n div 2) - 1) \<le> n div 2" "n div 2 < 2 ^ bits (n div 2)"
      by auto
    have b: "bits n = Suc (bits (n div 2))" using 1(2) by (simp add: bits.simps)
    have bp: "0 < bits (n div 2)" using p by (simp add: bits.simps)
    then have e: "bits n - 1 = Suc (bits (n div 2) - 1)" using b by simp
    have "2 ^ (bits n - 1) = 2 * 2 ^ (bits (n div 2) - 1)" unfolding e by simp
    also have "\<dots> \<le> 2 * (n div 2)" using ih(1) by simp
    also have "\<dots> \<le> n" by simp
    finally have l: "2 ^ (bits n - 1) \<le> n" .
    have "n < 2 * (n div 2) + 2" by presburger
    also have "\<dots> \<le> 2 * 2 ^ bits (n div 2)" using ih(2) by simp
    finally have "n < 2 ^ bits n" unfolding b by simp
    with l show ?thesis by simp
  qed
qed

lemma bits_pos: "0 < n \<Longrightarrow> 0 < bits n"
  by (simp add: bits.simps)

lemma exponente_bounds:
  assumes "0 < x"
  shows "2 powi (exponente x) \<le> x" and "x < 2 powi (exponente x + 1)"
proof -
  have "2 powi (exponente x) \<le> x \<and> x < 2 powi (exponente x + 1)"
  proof (cases "1 \<le> x")
    case True
    define n where "n = nat \<lfloor>x\<rfloor>"
    have f1: "1 \<le> \<lfloor>x\<rfloor>" using True by linarith
    have rn: "real n = of_int \<lfloor>x\<rfloor>" using f1 by (simp add: n_def)
    have n: "0 < n" "real n \<le> x" "x < real n + 1"
      using f1 unfolding rn by (simp add: n_def, linarith, linarith)
    from bits_bounds[OF n(1)] have b: "2 ^ (bits n - 1) \<le> n" "n < 2 ^ bits n" by auto
    have e: "exponente x = int (bits n) - 1" using True by (simp add: exponente_def n_def)
    have bp: "0 < bits n" using n(1) by (rule bits_pos)
    then have e1: "exponente x = int (bits n - 1)" using e by simp
    have "(2::real) powi (exponente x) = 2 ^ (bits n - 1)" unfolding e1 by simp
    also have "\<dots> \<le> real n" using b(1) by (metis of_nat_le_iff of_nat_numeral of_nat_power)
    finally have l: "2 powi (exponente x) \<le> x" using n(2) by linarith
    have "exponente x + 1 = int (bits n)" using e by simp
    then have "(2::real) powi (exponente x + 1) = 2 ^ bits n" by simp
    moreover have "real n + 1 \<le> 2 ^ bits n"
      using b(2) by (metis Suc_leI of_nat_Suc of_nat_le_iff of_nat_numeral of_nat_power add.commute)
    ultimately have "x < 2 powi (exponente x + 1)" using n(3) by linarith
    with l show ?thesis by simp
  next
    case False
    then have x1: "x < 1" by simp
    define N where "N = nat (\<lceil>1 / x\<rceil> - 1)"
    have inv: "1 < 1 / x" using assms x1 by simp
    then have c2: "2 \<le> \<lceil>1 / x\<rceil>" by linarith
    define z where "z = \<lceil>1 / x\<rceil> - 1"
    have z1: "1 \<le> z" using c2 unfolding z_def by linarith
    have Nz: "N = nat z" by (simp only: N_def z_def)
    have rN: "real N = of_int z" using z1 unfolding Nz by simp
    have "0 < N" using z1 unfolding Nz by simp
    moreover have "of_int z < 1 / x" "1 / x \<le> of_int z + 1" unfolding z_def by linarith+
    ultimately have N: "0 < N" "real N < 1 / x" "1 / x \<le> real N + 1"
      unfolding rN by simp_all
    from bits_bounds[OF N(1)] have b: "2 ^ (bits N - 1) \<le> N" "N < 2 ^ bits N" by auto
    have e: "exponente x = - int (bits N)" using False by (simp add: exponente_def N_def)
    have bp: "0 < bits N" using N(1) by (rule bits_pos)
    have "real N + 1 \<le> 2 ^ bits N"
      using b(2) by (metis Suc_leI of_nat_Suc of_nat_le_iff of_nat_numeral of_nat_power add.commute)
    with N(3) have "1 / x \<le> 2 ^ bits N" by linarith
    then have "1 / 2 ^ bits N \<le> x" using assms
      by (simp add: field_simps)
    moreover have "(2::real) powi (exponente x) = 1 / 2 ^ bits N"
      unfolding e by (simp add: power_int_minus_divide)
    ultimately have l: "2 powi (exponente x) \<le> x" by simp
    have "(2::real) ^ (bits N - 1) \<le> real N"
      using b(1) by (metis of_nat_le_iff of_nat_numeral of_nat_power)
    with N(2) have "2 ^ (bits N - 1) < 1 / x" by linarith
    then have "x < 1 / 2 ^ (bits N - 1)" using assms by (simp add: field_simps)
    moreover have "exponente x + 1 = - int (bits N - 1)" using e bp by simp
    then have "(2::real) powi (exponente x + 1) = 1 / 2 ^ (bits N - 1)"
      by (simp add: power_int_minus_divide)
    ultimately have "x < 2 powi (exponente x + 1)" by simp
    with l show ?thesis by simp
  qed
  then show "2 powi (exponente x) \<le> x" and "x < 2 powi (exponente x + 1)" by simp_all
qed

lemma powi_menor: "(2::real) powi a < 2 powi b \<Longrightarrow> a < b"
proof (rule ccontr)
  assume l: "(2::real) powi a < 2 powi b" and "\<not> a < b"
  then have "b \<le> a" by simp
  then have "(2::real) powi b \<le> 2 powi a" by (rule power_int_increasing) simp
  with l show False by simp
qed

lemma exponente_unico:
  assumes "0 < x" "2 powi e \<le> x" "x < 2 powi (e + 1)"
  shows "exponente x = e"
proof -
  from exponente_bounds[OF assms(1)] assms(2,3)
  have a: "(2::real) powi (exponente x) < 2 powi (e + 1)"
    and b: "(2::real) powi e < 2 powi (exponente x + 1)"
    by linarith+
  from a have "exponente x < e + 1" by (rule powi_menor)
  moreover from b have "e < exponente x + 1" by (rule powi_menor)
  ultimately show ?thesis by simp
qed


lemma redondeo_par_entero: "redondeo_par (of_int z) = z"
  by (simp add: redondeo_par_def)

lemma redondeo_par_floor: "\<lfloor>y\<rfloor> \<le> redondeo_par y" "redondeo_par y \<le> \<lfloor>y\<rfloor> + 1"
  by (simp_all add: redondeo_par_def Let_def)

lemma redondeo_par_mono:
  assumes "x \<le> y"
  shows "redondeo_par x \<le> redondeo_par y"
proof (cases "\<lfloor>x\<rfloor> = \<lfloor>y\<rfloor>")
  case True
  with assms have "x - of_int \<lfloor>x\<rfloor> \<le> y - of_int \<lfloor>y\<rfloor>" by simp
  then show ?thesis using True by (auto simp: redondeo_par_def Let_def)
next
  case False
  moreover have "\<lfloor>x\<rfloor> \<le> \<lfloor>y\<rfloor>" using assms by (rule floor_mono)
  ultimately have "\<lfloor>x\<rfloor> + 1 \<le> \<lfloor>y\<rfloor>" by simp
  with redondeo_par_floor(2)[of x] redondeo_par_floor(1)[of y] show ?thesis by linarith
qed

lemma redondeo_par_error: "\<bar>of_int (redondeo_par y) - y\<bar> \<le> 1 / 2"
proof -
  have "of_int \<lfloor>y\<rfloor> \<le> y" "y < of_int \<lfloor>y\<rfloor> + 1" by linarith+
  then show ?thesis
    by (auto simp: redondeo_par_def Let_def abs_le_iff)
qed

lemma powi_suma: "(2::real) powi (a + b) = 2 powi a * 2 powi b"
  by (rule power_int_add) simp

lemma powi_escala:
  "(2::real) powi e = 2 ^ 52 * 2 powi (e - 52)" "(2::real) powi (e + 1) = 2 ^ 53 * 2 powi (e - 52)"
proof -
  have "(2::real) powi (52 + (e - 52)) = 2 powi 52 * 2 powi (e - 52)" by (rule powi_suma)
  moreover have "52 + (e - 52) = e" by simp
  ultimately show "(2::real) powi e = 2 ^ 52 * 2 powi (e - 52)" by simp
  have "(2::real) powi (53 + (e - 52)) = 2 powi 53 * 2 powi (e - 52)" by (rule powi_suma)
  moreover have "53 + (e - 52) = e + 1" by simp
  ultimately show "(2::real) powi (e + 1) = 2 ^ 53 * 2 powi (e - 52)" by simp
qed

lemma escala:
  assumes "0 < x"
  shows "2 ^ 52 \<le> x / 2 powi (exponente x - 52)" "x / 2 powi (exponente x - 52) \<le> 2 ^ 53"
proof -
  have p: "(0::real) < 2 powi (exponente x - 52)" by simp
  note a = powi_escala(1)[of "exponente x"]
  note b = powi_escala(2)[of "exponente x"]
  from exponente_bounds(1)[OF assms] show "2 ^ 52 \<le> x / 2 powi (exponente x - 52)"
    unfolding a using p by (simp add: pos_le_divide_eq)
  from exponente_bounds(2)[OF assms] show "x / 2 powi (exponente x - 52) \<le> 2 ^ 53"
    unfolding b using p by (simp add: pos_divide_le_eq)
qed

lemma doble_pos_cotas:
  assumes "0 < x"
  shows "2 powi (exponente x) \<le> doble_pos x" "doble_pos x \<le> 2 powi (exponente x + 1)"
proof -
  let ?s = "(2::real) powi (exponente x - 52)"
  let ?r = "redondeo_par (x / ?s)"
  have p: "0 < ?s" by simp
  note a = powi_escala(1)[of "exponente x"]
  note b = powi_escala(2)[of "exponente x"]
  have "redondeo_par (of_int (2 ^ 52)) \<le> ?r"
    by (rule redondeo_par_mono) (use escala(1)[OF assms] in simp)
  then have l: "2 ^ 52 \<le> ?r" by (simp only: redondeo_par_entero)
  have "?r \<le> redondeo_par (of_int (2 ^ 53))"
    by (rule redondeo_par_mono) (use escala(2)[OF assms] in simp)
  then have u: "?r \<le> 2 ^ 53" by (simp only: redondeo_par_entero)
  from l have "(2::real) ^ 52 \<le> of_int ?r" by (metis of_int_le_iff of_int_numeral of_int_power)
  then have "2 ^ 52 * ?s \<le> of_int ?r * ?s" using p by (simp add: mult_right_mono)
  then show "2 powi (exponente x) \<le> doble_pos x" unfolding a by (simp add: doble_pos_def Let_def)
  from u have "of_int ?r \<le> (2::real) ^ 53" by (metis of_int_le_iff of_int_numeral of_int_power)
  then have "of_int ?r * ?s \<le> 2 ^ 53 * ?s" using p by (simp add: mult_right_mono)
  then show "doble_pos x \<le> 2 powi (exponente x + 1)" unfolding b by (simp add: doble_pos_def Let_def)
qed

lemma exponente_mono:
  assumes "0 < x" "x \<le> y"
  shows "exponente x \<le> exponente y"
proof -
  have y: "0 < y" using assms by simp
  from exponente_bounds(1)[OF assms(1)] exponente_bounds(2)[OF y] assms(2)
  have "(2::real) powi (exponente x) < 2 powi (exponente y + 1)" by linarith
  then have "exponente x < exponente y + 1" by (rule powi_menor)
  then show ?thesis by simp
qed

lemma doble_pos_mono:
  assumes "0 < x" "x \<le> y"
  shows "doble_pos x \<le> doble_pos y"
proof (cases "exponente x = exponente y")
  case True
  let ?s = "(2::real) powi (exponente y - 52)"
  have p: "0 < ?s" by simp
  have "x / ?s \<le> y / ?s" using assms(2) p by (simp add: divide_right_mono)
  then have "redondeo_par (x / ?s) \<le> redondeo_par (y / ?s)" by (rule redondeo_par_mono)
  then have "(of_int (redondeo_par (x / ?s)) :: real) \<le> of_int (redondeo_par (y / ?s))" by simp
  then have "of_int (redondeo_par (x / ?s)) * ?s \<le> of_int (redondeo_par (y / ?s)) * ?s"
    using p by (simp add: mult_right_mono)
  then show ?thesis by (simp add: doble_pos_def Let_def True)
next
  case False
  have y: "0 < y" using assms by simp
  from False exponente_mono[OF assms] have "exponente x + 1 \<le> exponente y" by simp
  then have "(2::real) powi (exponente x + 1) \<le> 2 powi (exponente y)"
    by (rule power_int_increasing) simp
  with doble_pos_cotas(2)[OF assms(1)] doble_pos_cotas(1)[OF y] show ?thesis by linarith
qed

lemma doble_pos_positivo: "0 < x \<Longrightarrow> 0 < doble_pos x"
proof -
  assume x: "0 < x"
  have "(0::real) < 2 powi (exponente x)" by simp
  with doble_pos_cotas(1)[OF x] show ?thesis by linarith
qed

lemma doble_positivo: "0 < x \<Longrightarrow> 0 < doble x"
  by (simp add: doble_def doble_pos_positivo)

lemma doble_no_negativo: "0 \<le> x \<Longrightarrow> 0 \<le> doble x"
  using doble_positivo[of x] by (cases "x = 0") (simp_all add: doble_def)

lemma doble_mono:
  assumes "0 \<le> x" "x \<le> y"
  shows "doble x \<le> doble y"
proof (cases "x = 0")
  case True
  then show ?thesis using assms doble_no_negativo[of y] by (simp add: doble_def)
next
  case False
  then have x: "0 < x" using assms by simp
  then have y: "0 < y" using assms by simp
  from doble_pos_mono[OF x assms(2)] x y show ?thesis by (simp add: doble_def)
qed

lemma doble_pos_error:
  assumes "0 < x"
  shows "\<bar>doble_pos x - x\<bar> \<le> x / 2 ^ 53"
proof -
  let ?s = "(2::real) powi (exponente x - 52)"
  let ?r = "redondeo_par (x / ?s)"
  have p: "0 < ?s" by simp
  note a = powi_escala(1)[of "exponente x"]
  have "doble_pos x - x = (of_int ?r - x / ?s) * ?s"
    using p by (simp add: doble_pos_def Let_def algebra_simps)
  then have "\<bar>doble_pos x - x\<bar> = \<bar>of_int ?r - x / ?s\<bar> * ?s"
    using p by (simp add: abs_mult)
  also have "\<dots> \<le> 1 / 2 * ?s"
    using redondeo_par_error[of "x / ?s"] p by (simp add: mult_right_mono)
  also have "\<dots> = 2 powi (exponente x) / 2 ^ 53" unfolding a by simp
  also have "\<dots> \<le> x / 2 ^ 53"
    using exponente_bounds(1)[OF assms] by (simp add: divide_right_mono)
  finally show ?thesis .
qed

lemma doble_error: "\<bar>doble x - x\<bar> \<le> \<bar>x\<bar> / 2 ^ 53"
proof (cases "x = 0")
  case True
  then show ?thesis by (simp add: doble_def)
next
  case False
  show ?thesis
  proof (cases "0 < x")
    case True
    with doble_pos_error[OF True] show ?thesis by (simp add: doble_def)
  next
    case False
    with \<open>x \<noteq> 0\<close> have n: "0 < - x" by simp
    have "\<bar>doble x - x\<bar> = \<bar>doble_pos (- x) - (- x)\<bar>"
      using False \<open>x \<noteq> 0\<close> by (simp add: doble_def)
    with doble_pos_error[OF n] n show ?thesis by simp
  qed
qed

lemma doble_valor:
  assumes "0 < x" "2 powi e \<le> x" "x < 2 powi (e + 1)"
  shows "doble x = of_int (redondeo_par (x / 2 powi (e - 52))) * 2 powi (e - 52)"
  using assms(1) exponente_unico[OF assms] by (simp add: doble_def doble_pos_def Let_def)

lemma doble_exacto:
  assumes "0 < z" "z < 2 ^ 53"
  shows "doble (of_int z * 2 powi k) = of_int z * 2 powi k"
proof -
  let ?x = "of_int z * (2::real) powi k"
  have x: "0 < ?x" using assms(1) by simp
  have "?x < 2 ^ 53 * 2 powi k"
  proof -
    have "(of_int z :: real) < 2 ^ 53" using assms(2) by (metis of_int_less_iff of_int_numeral of_int_power)
    then show ?thesis by (simp add: mult_strict_right_mono)
  qed
  also have "\<dots> = 2 powi (53 + k)" using powi_suma[of 53 k] by simp
  finally have "2 powi (exponente ?x) < (2::real) powi (53 + k)"
    using exponente_bounds(1)[OF x] by linarith
  then have "exponente ?x < 53 + k" by (rule powi_menor)
  then have le: "0 \<le> k - (exponente ?x - 52)" by simp
  define n where "n = nat (k - (exponente ?x - 52))"
  have k: "k = int n + (exponente ?x - 52)" using le by (simp add: n_def)
  define s where "s = (2::real) powi (exponente ?x - 52)"
  have s: "0 < s" by (simp add: s_def)
  have "(2::real) powi (int n + (exponente ?x - 52)) = 2 powi (int n) * s"
    unfolding s_def by (rule powi_suma)
  then have ks: "(2::real) powi k = 2 ^ n * s" using k by simp
  have "?x / s = of_int z * 2 ^ n" unfolding ks using s by simp
  also have "\<dots> = of_int (z * 2 ^ n)" by simp
  finally have "redondeo_par (?x / s) = z * 2 ^ n"
    by (simp only: redondeo_par_entero)
  then have "doble_pos ?x = of_int (z * 2 ^ n) * s"
    by (simp add: doble_pos_def Let_def s_def)
  also have "\<dots> = ?x" unfolding ks by simp
  finally show ?thesis using x by (simp add: doble_def)
qed

lemma doble_natural: "n < 2 ^ 53 \<Longrightarrow> doble (real n) = real n"
proof (cases "n = 0")
  case True
  then show ?thesis by (simp add: doble_def)
next
  case False
  assume "n < 2 ^ 53"
  then have "int n < 2 ^ 53" by (metis of_nat_less_iff of_nat_numeral of_nat_power)
  moreover have "0 < int n" using False by simp
  ultimately have "doble (of_int (int n) * 2 powi 0) = of_int (int n) * 2 powi 0"
    by (rule doble_exacto[rotated])
  then show ?thesis by simp
qed

lemma doble_085: "doble 0.85 = 7656119366529843 / 9007199254740992"
  by (simp add: doble_def doble_pos_def exponente_def bits.simps redondeo_par_def Let_def
      power_int_minus_divide)



lemma doble_valores: "doble (1 / 2) = 1 / 2" "doble 1 = 1" "doble 50 = 50" "doble 100 = 100"
  by (simp_all add: doble_def doble_pos_def exponente_def bits.simps redondeo_par_def Let_def
      power_int_minus_divide)

lemma doble_bajo_50: "doble (50 - 100 / 2 ^ 54) < 50"
  by (simp add: doble_def doble_pos_def exponente_def bits.simps redondeo_par_def Let_def
      power_int_minus_divide)

lemma doble_bajo_medio: "doble (1 / 2 - 1 / 2 ^ 54) = 1 / 2 - 1 / 2 ^ 54"
proof -
  have "doble (of_int (2 ^ 53 - 1) * 2 powi (- 54)) = of_int (2 ^ 53 - 1) * 2 powi (- 54)"
    by (rule doble_exacto) simp_all
  moreover have "of_int (2 ^ 53 - 1) * 2 powi (- 54) = (1 / 2 - 1 / 2 ^ 54 :: real)"
    by (simp add: power_int_minus_divide)
  ultimately show ?thesis by simp
qed

lemma cociente_bajo_medio:
  fixes a b :: nat
  assumes "2 * a + 1 \<le> b" "0 < b"
  shows "real a / real b \<le> 1 / 2 - 1 / (2 * real b)"
proof -
  from assms(1) have "real (2 * a + 1) \<le> real b" by (simp only: of_nat_le_iff)
  then have "real a \<le> (real b - 1) / 2" by simp
  then have "real a / real b \<le> ((real b - 1) / 2) / real b" by (rule divide_right_mono) simp
  also have "\<dots> = 1 / 2 - 1 / (2 * real b)" using assms(2) by (simp add: diff_divide_distrib)
  finally show ?thesis .
qed

lemma inverso_grande:
  fixes b :: nat
  assumes "0 < b" "b < 2 ^ 53"
  shows "1 / 2 ^ 54 < 1 / (2 * real b)"
proof -
  have "real b < 2 ^ 53" using assms(2) by (metis of_nat_less_iff of_nat_numeral of_nat_power)
  then have "2 * real b < 2 ^ 54" by simp
  then show ?thesis
    using assms(1) by (intro divide_strict_left_mono) simp_all
qed

lemma por_cien_bajo_50:
  assumes "(x::real) \<le> 1 / 2 - 1 / 2 ^ 54" "0 \<le> x"
  shows "doble (doble x * 100) < 50"
proof -
  from assms have "doble x \<le> doble (1 / 2 - 1 / 2 ^ 54)"
    by (intro doble_mono) simp_all
  then have "doble x * 100 \<le> 50 - 100 / 2 ^ 54"
    unfolding doble_bajo_medio by simp
  moreover have "0 \<le> doble x * 100"
    using doble_no_negativo[of x] assms(2) by simp
  ultimately have "doble (doble x * 100) \<le> doble (50 - 100 / 2 ^ 54)"
    by (rule doble_mono[rotated])
  with doble_bajo_50 show ?thesis by linarith
qed

lemma por_cien_sobre_50:
  assumes "1 / 2 \<le> (x::real)"
  shows "50 \<le> doble (doble x * 100)"
proof -
  from assms have "doble (1 / 2) \<le> doble x" by (intro doble_mono) simp_all
  then have "50 \<le> doble x * 100" by (simp add: doble_valores)
  then have "doble 50 \<le> doble (doble x * 100)" by (intro doble_mono) simp_all
  then show ?thesis by (simp add: doble_valores)
qed

lemma consistencia_iff:
  fixes a b :: nat
  assumes b: "0 < b" "b < 2 ^ 53"
  shows "50 \<le> doble (doble (real a / real b) * 100) \<longleftrightarrow> b \<le> 2 * a"
proof
  assume "b \<le> 2 * a"
  then have "real b \<le> real (2 * a)" by (simp only: of_nat_le_iff)
  then have "1 / 2 \<le> real a / real b" using b(1) by (simp add: pos_le_divide_eq)
  then show "50 \<le> doble (doble (real a / real b) * 100)" by (rule por_cien_sobre_50)
next
  assume h: "50 \<le> doble (doble (real a / real b) * 100)"
  show "b \<le> 2 * a"
  proof (rule ccontr)
    assume "\<not> b \<le> 2 * a"
    then have "2 * a + 1 \<le> b" by simp
    from cociente_bajo_medio[OF this b(1)] inverso_grande[OF b]
    have "real a / real b \<le> 1 / 2 - 1 / 2 ^ 54" by linarith
    then have "doble (doble (real a / real b) * 100) < 50"
      by (rule por_cien_bajo_50) simp
    with h show False by linarith
  qed
qed

lemma doble_1260: "doble (doble (1260 / 17) * doble 0.85) = 63 + 1 / 2 ^ 47"
  by (simp add: doble_def doble_pos_def exponente_def bits.simps redondeo_par_def Let_def
      power_int_minus_divide)

subsection \<open>Facts about grouping\<close>

lemma groupby_size_keys: "map fst (groupby_size ks) = sort (remdups ks)"
  by (simp add: groupby_size_def comp_def)

lemma groupby_size_distinct: "distinct (map fst (groupby_size ks))"
  by (simp add: groupby_size_keys)

lemma groupby_size_set_keys: "fst ` set (groupby_size ks) = set ks"
proof -
  have "set (map fst (groupby_size ks)) = set ks"
    by (simp add: groupby_size_keys)
  then show ?thesis by simp
qed

lemma groupby_size_count:
  assumes "(k, n) \<in> set (groupby_size ks)"
  shows "n = count_list ks k" and "k \<in> set ks" and "0 < n"
proof -
  from assms show n: "n = count_list ks k" and k: "k \<in> set ks"
    by (auto simp: groupby_size_def)
  from k have "count_list ks k \<noteq> 0"
    by (simp add: count_list_0_iff)
  with n show "0 < n" by simp
qed

lemma groupby_size_Nil_iff: "groupby_size ks = [] \<longleftrightarrow> ks = []"
proof
  assume "groupby_size ks = []"
  then have "set (map fst (groupby_size ks)) = {}" by simp
  then show "ks = []" by (simp add: groupby_size_keys)
next
  assume "ks = []"
  then show "groupby_size ks = []" by (simp add: groupby_size_def)
qed

lemma registros_dia_Nil_iff: "registros_dia fs = [] \<longleftrightarrow> fs = []"
  by (simp add: registros_dia_def groupby_size_Nil_iff)

lemma registros_dia_pos: "n \<in> set (map snd (registros_dia fs)) \<Longrightarrow> 0 < n"
  by (auto simp: registros_dia_def dest: groupby_size_count(3))

subsection \<open>Example records\<close>

lemma registro_de_simps [simp]:
  "fecha (registro_de f p d st) = f" "pais (registro_de f p d st) = p"
  "dia_semana (registro_de f p d st) = d" "status (registro_de f p d st) = st"
  "mes (registro_de f p d st) = ''09''" "hora (registro_de f p d st) = 10"
  by (simp_all add: registro_de_def)

section \<open>Overall trend\<close>

lemma hd_registros_dia_pos: "fs \<noteq> [] \<Longrightarrow> 0 < hd (map snd (registros_dia fs))"
proof -
  assume "fs \<noteq> []"
  then have "registros_dia fs \<noteq> []" by (simp add: registros_dia_Nil_iff)
  then have "hd (map snd (registros_dia fs)) \<in> set (map snd (registros_dia fs))"
    by (metis hd_in_set map_is_Nil_conv)
  then show ?thesis by (rule registros_dia_pos)
qed

lemma tendencia_general_eq:
  assumes "serie \<noteq> []" "0 < hd serie"
  shows "tendencia_general serie =
           Inr ((real (last serie) - real (hd serie)) / real (hd serie) * 100,
                historia_principal ((real (last serie) - real (hd serie)) / real (hd serie) * 100))"
  using assms
  by (cases serie)
     (simp_all add: tendencia_general_def iloc_primero_def iloc_ultimo_def cambio_porcentual_def
        dividir_def por_cien_def Let_def)

text \<open>
  Claim C2.  For a filtered view with at least one record, the first count of the daily
  aggregate is positive, the percent change computed by the overall trend is
  (last value - first value) / first value * 100, and the series is classified as growth
  when the change is above 10, as decline when it is below -10 and as stable otherwise.
  On the series 100, 100, 100, 150 the result is growth with a change of 50 percent.
\<close>

theorem overall_trend:
  "fs \<noteq> [] \<Longrightarrow>
     (let serie = map snd (registros_dia fs);
          c = (real (last serie) - real (hd serie)) / real (hd serie) * 100
      in 0 < hd serie \<and>
         tendencia_general serie =
           Inr (c, if c > 10 then Crecimiento else if c < - 10 then Descenso else Estable))
     \<and> tendencia_general [100, 100, 100, 150] = Inr (50, Crecimiento)"
proof -
  assume ne: "fs \<noteq> []"
  have pos: "0 < hd (map snd (registros_dia fs))" using ne by (rule hd_registros_dia_pos)
  have ne': "map snd (registros_dia fs) \<noteq> []" using ne by (simp add: registros_dia_Nil_iff)
  have a: "tendencia_general [100, 100, 100, 150] = Inr (50, Crecimiento)"
    by (simp add: tendencia_general_def iloc_primero_def iloc_ultimo_def cambio_porcentual_def
        dividir_def por_cien_def Let_def historia_principal_def)
  show ?thesis
    using tendencia_general_eq[OF ne' pos] pos a
    by (simp add: Let_def historia_principal_def)
qed

lemma registros_dia_ejemplo: "registros_dia ejemplo_tendencia = [(1, 1), (2, 2)]"
  by (simp add: registros_dia_def groupby_size_def ejemplo_tendencia_def)

theorem overall_trend_witness:
  "ejemplo_tendencia \<noteq> [] \<and>
   tendencia_general (map snd (registros_dia ejemplo_tendencia)) = Inr (100, Crecimiento)"
proof -
  have ne: "ejemplo_tendencia \<noteq> []" by (simp add: ejemplo_tendencia_def)
  show ?thesis
    using overall_trend[OF ne] ne by (simp add: registros_dia_ejemplo Let_def)
qed

section \<open>Guards of the percent changes\<close>

lemma por_cien_dividir: "b \<noteq> 0 \<Longrightarrow> por_cien (dividir a b) = Inr (a / b * 100)"
  by (simp add: dividir_def por_cien_def)






lemma sum_list_pos_nat:
  fixes xs :: "nat list"
  assumes "xs \<noteq> []" "\<And>x. x \<in> set xs \<Longrightarrow> 0 < x"
  shows "0 < sum_list xs"
  using assms by (cases xs) auto

lemma media_pos:
  assumes "xs \<noteq> []" "\<And>x. x \<in> set xs \<Longrightarrow> 0 < x"
  shows "0 < media xs"
proof -
  have "0 < sum_list xs" using assms by (rule sum_list_pos_nat)
  moreover have "0 < length xs" using assms(1) by simp
  ultimately show ?thesis by (simp add: media_def)
qed








section \<open>Forecast\<close>

lemma pronostico_corto: "length registros < 7 \<Longrightarrow> pronostico registros = Inr None"
  by (simp add: pronostico_def)

lemma pronostico_largo:
  assumes len: "7 \<le> length registros" and pos: "\<And>x. x \<in> set registros \<Longrightarrow> 0 < x"
  shows "pronostico registros =
           (let ultimos = drop (length registros - 7) registros;
                delta = (media (drop 3 ultimos) - media (take 3 ultimos))
                          / media (take 3 ultimos) * 100
            in Inr (Some (delta, media (drop 4 ultimos) * (1 + delta / 100))))"
proof -
  define u where "u = drop (length registros - 7) registros"
  have lu: "length u = 7" using len by (simp add: u_def)
  have "take 3 u \<noteq> []" using lu by auto
  moreover have "\<And>x. x \<in> set (take 3 u) \<Longrightarrow> 0 < x"
    using pos by (auto simp: u_def dest!: in_set_takeD in_set_dropD)
  ultimately have m: "0 < media (take 3 u)" by (rule media_pos)
  then have m0: "media (take 3 u) \<noteq> 0" by simp
  show ?thesis
    using len lu m m0
    by (simp add: pronostico_def Let_def u_def[symmetric] ligar_def dividir_def por_cien_def)
qed

text \<open>
  Claim C3, as the script has it.  The forecast is computed for every daily series of at
  least 7 points and for no shorter one.  It takes the last 7 points, splits them into
  their first 3 and their last 4, takes the percent change delta from the mean of the
  first 3 to the mean of the last 4, and returns the mean of the last 3 points times
  (1 + delta / 100).
\<close>

theorem short_horizon_forecast:
  "pronostico (map snd (registros_dia fs)) =
     (if 7 \<le> length (registros_dia fs) then
        (let ultimos = drop (length (registros_dia fs) - 7) (map snd (registros_dia fs));
             delta = (media (drop 3 ultimos) - media (take 3 ultimos))
                       / media (take 3 ultimos) * 100
         in Inr (Some (delta, media (drop 4 ultimos) * (1 + delta / 100))))
      else Inr None)"
proof (cases "7 \<le> length (registros_dia fs)")
  case True
  then have "7 \<le> length (map snd (registros_dia fs))" by simp
  from pronostico_largo[OF this registros_dia_pos] True show ?thesis by simp
next
  case False
  then show ?thesis by (simp add: pronostico_corto)
qed

lemma registros_dia_siete:
  "registros_dia ejemplo_siete_dias = [(1, 1), (2, 1), (3, 1), (4, 2), (5, 2), (6, 2), (7, 2)]"
  by (simp add: registros_dia_def groupby_size_def ejemplo_siete_dias_def)

lemma registros_dia_tres: "registros_dia ejemplo_tres_dias = [(1, 1), (2, 2), (3, 1)]"
  by (simp add: registros_dia_def groupby_size_def ejemplo_tres_dias_def)

theorem short_horizon_forecast_witness:
  "pronostico (map snd (registros_dia ejemplo_siete_dias)) = Inr (Some (100, 4))"
  using short_horizon_forecast[of ejemplo_siete_dias]
  by (simp add: registros_dia_siete media_def Let_def)

text \<open>The claim as stated fails: a daily series of three points gets no forecast.\<close>

theorem forecast_three_points_counterexample:
  "length (registros_dia ejemplo_tres_dias) = 3
   \<and> pronostico (map snd (registros_dia ejemplo_tres_dias)) = Inr None"
  by (simp add: registros_dia_tres pronostico_def)

section \<open>Success rate\<close>

lemma coincide_en_iff:
  "coincide_en p s \<longleftrightarrow> (\<exists>mid suf. s = mid @ suf \<and> map minuscula mid = map minuscula p)"
proof (induction p s rule: coincide_en.induct)
  case (1 s)
  then show ?case by simp
next
  case (2 p ps)
  then show ?case by simp
next
  case (3 p ps c cs)
  show ?case
  proof
    assume "coincide_en (p # ps) (c # cs)"
    then have pc: "minuscula p = minuscula c" and "coincide_en ps cs" by simp_all
    with 3 obtain mid suf where "cs = mid @ suf" "map minuscula mid = map minuscula ps"
      by blast
    with pc have "c # cs = (c # mid) @ suf \<and> map minuscula (c # mid) = map minuscula (p # ps)"
      by simp
    then show "\<exists>mid suf. c # cs = mid @ suf \<and> map minuscula mid = map minuscula (p # ps)"
      by blast
  next
    assume "\<exists>mid suf. c # cs = mid @ suf \<and> map minuscula mid = map minuscula (p # ps)"
    then obtain mid suf where ms: "c # cs = mid @ suf"
      and mm: "map minuscula mid = map minuscula (p # ps)" by blast
    from mm obtain m mid' where mid: "mid = m # mid'" by (cases mid) auto
    with ms mm have "m = c" "cs = mid' @ suf" "minuscula p = minuscula c"
      "map minuscula mid' = map minuscula ps" by auto
    with 3 show "coincide_en (p # ps) (c # cs)" by auto
  qed
qed

lemma busca_literal_iff:
  "busca_literal p s \<longleftrightarrow>
     (\<exists>pre mid suf. s = pre @ mid @ suf \<and> map minuscula mid = map minuscula p)"
proof (induction s)
  case Nil
  then show ?case by (auto simp: coincide_en_iff)
next
  case (Cons c cs)
  show ?case
  proof
    assume "busca_literal p (c # cs)"
    then consider "coincide_en p (c # cs)" | "busca_literal p cs" by auto
    then show "\<exists>pre mid suf. c # cs = pre @ mid @ suf \<and> map minuscula mid = map minuscula p"
    proof cases
      case 1
      then obtain mid suf where "c # cs = [] @ mid @ suf" "map minuscula mid = map minuscula p"
        by (auto simp: coincide_en_iff)
      then show ?thesis by blast
    next
      case 2
      with Cons obtain pre mid suf where "cs = pre @ mid @ suf"
        "map minuscula mid = map minuscula p" by blast
      then have "c # cs = (c # pre) @ mid @ suf \<and> map minuscula mid = map minuscula p" by simp
      then show ?thesis by blast
    qed
  next
    assume "\<exists>pre mid suf. c # cs = pre @ mid @ suf \<and> map minuscula mid = map minuscula p"
    then obtain pre mid suf where s: "c # cs = pre @ mid @ suf"
      and m: "map minuscula mid = map minuscula p" by blast
    show "busca_literal p (c # cs)"
    proof (cases pre)
      case Nil
      with s m have "coincide_en p (c # cs)" by (auto simp: coincide_en_iff)
      then show ?thesis by simp
    next
      case (Cons a pre')
      with s have "cs = pre' @ mid @ suf" by simp
      with m Cons.IH have "busca_literal p cs" by blast
      then show ?thesis by simp
    qed
  qed
qed

lemma minuscula_letras:
  "minuscula CHR ''S'' = CHR ''s''" "minuscula CHR ''U'' = CHR ''u''"
  "minuscula CHR ''C'' = CHR ''c''" "minuscula CHR ''E'' = CHR ''e''"
  "minuscula CHR ''s'' = CHR ''s''" "minuscula CHR ''u'' = CHR ''u''"
  "minuscula CHR ''c'' = CHR ''c''" "minuscula CHR ''e'' = CHR ''e''"
  "minuscula CHR ''n'' = CHR ''n''" "minuscula CHR ''f'' = CHR ''f''"
  "minuscula CHR ''l'' = CHR ''l''" "minuscula CHR ''F'' = CHR ''f''"
  "minuscula CHR ''a'' = CHR ''a''" "minuscula CHR ''i'' = CHR ''i''"
  "minuscula CHR ''d'' = CHR ''d''"
  by (simp_all add: minuscula_def)

lemma minuscula_literales:
  "map minuscula ''Success'' = ''success''" "map minuscula ''success'' = ''success''"
  "map minuscula ''SUCCESS'' = ''success''"
  by (simp_all add: minuscula_letras)

lemma es_exitoso_iff:
  "es_exitoso s \<longleftrightarrow> (\<exists>pre mid suf. s = pre @ mid @ suf \<and> map minuscula mid = ''success'')"
proof -
  have "es_exitoso s \<longleftrightarrow>
          busca_literal ''Success'' s \<or> busca_literal ''success'' s \<or> busca_literal ''SUCCESS'' s"
    by (simp add: es_exitoso_def str_contains_def)
  then show ?thesis
    by (simp only: busca_literal_iff minuscula_literales disj_absorb)
qed

lemma es_exitoso_Unsuccessful: "es_exitoso ''Unsuccessful''"
  by (simp add: es_exitoso_def str_contains_def minuscula_letras)

lemma tasa_exito_eq:
  "tasa_exito df =
     (if tiene df ''status'' \<and> filas df \<noteq> []
      then Inr (Valor (real (length (filter (\<lambda>r. es_exitoso (status r)) (filas df)))
                        / real (length (filas df)) * 100))
      else Inr NA)"
  by (simp add: tasa_exito_def registros_exitosos_def dividir_def por_cien_def)

text \<open>
  Claim C10.  A record counts as successful exactly when its status string contains the
  letters of "success" in any mix of cases, wherever they stand in the string; so
  "Unsuccessful" counts as a success.  The success rate is that count over the number of
  records of the view, times 100; it is the text N/A when the view has no status column
  or no record.
\<close>

theorem success_rate:
  "(es_exitoso s \<longleftrightarrow> (\<exists>pre mid suf. s = pre @ mid @ suf \<and> map minuscula mid = ''success''))
   \<and> es_exitoso ''Unsuccessful''
   \<and> tasa_exito df =
       (if tiene df ''status'' \<and> filas df \<noteq> []
        then Inr (Valor (real (length (filter (\<lambda>r. es_exitoso (status r)) (filas df)))
                          / real (length (filas df)) * 100))
        else Inr NA)"
  using es_exitoso_iff[of s] es_exitoso_Unsuccessful tasa_exito_eq[of df] by simp

theorem success_rate_witness:
  "es_exitoso ''Unsuccessful'' \<and> \<not> es_exitoso ''Failed''
   \<and> tasa_exito ejemplo_estados = Inr (Valor 75)"
proof -
  have f: "\<not> es_exitoso ''Failed''"
    by (simp add: es_exitoso_def str_contains_def minuscula_letras)
  have e: "es_exitoso ''Success''" "es_exitoso ''SUCCESS''"
    by (simp_all add: es_exitoso_def str_contains_def minuscula_letras)
  from success_rate[of "''Unsuccessful''" ejemplo_estados]
  have u: "es_exitoso ''Unsuccessful''"
    and t: "tasa_exito ejemplo_estados =
       (if tiene ejemplo_estados ''status'' \<and> filas ejemplo_estados \<noteq> []
        then Inr (Valor (real (length (filter (\<lambda>r. es_exitoso (status r))
                                         (filas ejemplo_estados)))
                          / real (length (filas ejemplo_estados)) * 100))
        else Inr NA)"
    by blast+
  show ?thesis
    using u f e by (simp add: t) (simp add: ejemplo_estados_def tiene_def)
qed

section \<open>Constant series have no anomalies\<close>

lemma media_replicate: "0 < n \<Longrightarrow> media (replicate n c) = real c"
  by (simp add: media_def sum_list_replicate)

lemma desv_std_replicate: "2 \<le> n \<Longrightarrow> desv_std (replicate n c) = Some 0"
proof -
  assume n: "2 \<le> n"
  then have m: "media (replicate n c) = real c" by (simp add: media_replicate)
  have "(\<Sum>x\<leftarrow>replicate n c. (real x - real c)\<^sup>2) = 0"
    by (induction n) simp_all
  with n m show ?thesis by (simp add: desv_std_def)
qed

lemma anomalias_constante:
  assumes "\<forall>x\<in>set reg. snd x = c"
  shows "anomalias reg = []"
proof -
  have xs: "map snd reg = replicate (length reg) c"
    using assms by (induction reg) auto
  show ?thesis
  proof (cases "2 \<le> length reg")
    case True
    then have "0 < length reg" by linarith
    with True have "desv_std (map snd reg) = Some 0" "media (map snd reg) = real c"
      by (simp_all add: xs desv_std_replicate media_replicate)
    with assms show ?thesis
      by (auto simp: anomalias_def Let_def filter_empty_conv)
  next
    case False
    then have "desv_std (map snd reg) = None" by (simp add: desv_std_def)
    then show ?thesis by (simp add: anomalias_def Let_def)
  qed
qed

lemma sort_replicate: "sort (replicate n (c::nat)) = replicate n c"
  by (rule sorted_sort_id) simp

lemma cuantil_replicate:
  assumes "0 < n" "0 \<le> q" "q \<le> 1"
  shows "cuantil q (replicate n c) = Some (real c)"
proof -
  have "q * real (n - 1) \<le> 1 * real (n - 1)"
    using assms by (intro mult_right_mono) simp_all
  then have "\<lfloor>q * real (n - 1)\<rfloor> \<le> int (n - 1)" by (simp add: floor_le_iff)
  then have i: "nat \<lfloor>q * real (n - 1)\<rfloor> < n" using assms(1) by linarith
  have j: "min (nat \<lfloor>q * real (n - 1)\<rfloor> + 1) (n - 1) < n" using assms(1) by simp
  show ?thesis
    using assms(1) i j by (simp add: cuantil_def sort_replicate Let_def)
qed

lemma limites_iqr_replicate:
  "0 < n \<Longrightarrow> limites_iqr (replicate n c) = (Some (real c), Some (real c))"
  by (simp add: limites_iqr_def cuantil_replicate)

lemma anomalos_constante:
  assumes "\<forall>r\<in>set fs. s3_size r = c"
  shows "anomalos_grandes fs = []" and "anomalos_pequenos fs = []"
proof -
  have xs: "map s3_size fs = replicate (length fs) c"
    using assms by (induction fs) auto
  show "anomalos_grandes fs = []"
  proof (cases fs)
    case Nil
    then show ?thesis by (simp add: anomalos_grandes_def)
  next
    case (Cons a as)
    then have "limites_iqr (map s3_size fs) = (Some (real c), Some (real c))"
      unfolding xs by (intro limites_iqr_replicate) simp
    with assms show ?thesis by (auto simp: anomalos_grandes_def filter_empty_conv)
  qed
  show "anomalos_pequenos fs = []"
  proof (cases fs)
    case Nil
    then show ?thesis by (simp add: anomalos_pequenos_def)
  next
    case (Cons a as)
    then have "limites_iqr (map s3_size fs) = (Some (real c), Some (real c))"
      unfolding xs by (intro limites_iqr_replicate) simp
    with assms show ?thesis by (auto simp: anomalos_pequenos_def filter_empty_conv)
  qed
qed

text \<open>
  Claim C7.  When all the counts of a daily series are equal (a single day included), the
  rule of two standard deviations reports no day; when all the file sizes of a view are
  equal, the rule of 1.5 IQR reports no file, neither as too large nor as too small.
\<close>

theorem constant_series_no_anomalies:
  "((\<forall>x\<in>set reg. snd x = c) \<longrightarrow> anomalias reg = [])
   \<and> ((\<forall>r\<in>set fs. s3_size r = k) \<longrightarrow> anomalos_grandes fs = [] \<and> anomalos_pequenos fs = [])"
  using anomalias_constante[of reg c] anomalos_constante[of fs k] by blast

theorem constant_series_no_anomalies_witness:
  "anomalias ejemplo_constante = [] \<and> anomalias [(1, 5)] = []
   \<and> anomalos_grandes ejemplo_tamanos_iguales = []
   \<and> anomalos_pequenos ejemplo_tamanos_iguales = []"
proof -
  have a: "\<forall>x\<in>set ejemplo_constante. snd x = 5" by (simp add: ejemplo_constante_def)
  have b: "\<forall>x\<in>set [(1::int, 5::nat)]. snd x = 5" by simp
  have c: "\<forall>r\<in>set ejemplo_tamanos_iguales. s3_size r = 100"
    by (simp add: ejemplo_tamanos_iguales_def registro_de_def)
  show ?thesis
    using constant_series_no_anomalies[of ejemplo_constante 5 ejemplo_tamanos_iguales 100]
      constant_series_no_anomalies[of "[(1, 5)]" 5 "[]" 0] a b c
    by blast
qed

section \<open>Percentage shares\<close>

lemma redondear_2_error: "\<bar>redondear 2 x - x\<bar> \<le> 1 / 200"
proof -
  have "\<bar>of_int (redondeo_par (x * 100)) - x * 100\<bar> \<le> 1 / 2"
    by (rule redondeo_par_error)
  then show ?thesis by (simp add: redondear_def abs_le_iff field_simps)
qed

lemma ligar_lista_Inr:
  "(\<And>x. x \<in> set xs \<Longrightarrow> f x = Inr (g x)) \<Longrightarrow> ligar_lista f xs = Inr (map g xs)"
  by (induction xs) simp_all

lemma porcentaje_eq:
  assumes "0 < sum_list (map snd reg)"
  shows "porcentaje reg =
           Inr (map (\<lambda>(p, n). redondear 2 (real n / real (sum_list (map snd reg)) * 100)) reg)"
proof -
  define t where "t = real (sum_list (map snd reg))"
  have t: "t \<noteq> 0" using assms by (simp add: t_def del: sum_list_eq_0_iff)
  show ?thesis
    unfolding porcentaje_def t_def[symmetric]
    by (rule ligar_lista_Inr) (auto simp: ligar_def por_cien_dividir[OF t])
qed

lemma suma_redondeos:
  "\<bar>(\<Sum>x\<leftarrow>xs. redondear 2 (f x)) - (\<Sum>x\<leftarrow>xs. f x)\<bar> \<le> real (length xs) / 200"
proof (induction xs)
  case Nil
  then show ?case by simp
next
  case (Cons a xs)
  have "\<bar>redondear 2 (f a) - f a\<bar> \<le> 1 / 200" by (rule redondear_2_error)
  moreover have "\<bar>(redondear 2 (f a) + (\<Sum>x\<leftarrow>xs. redondear 2 (f x))) - (f a + (\<Sum>x\<leftarrow>xs. f x))\<bar>
      \<le> \<bar>redondear 2 (f a) - f a\<bar> + \<bar>(\<Sum>x\<leftarrow>xs. redondear 2 (f x)) - (\<Sum>x\<leftarrow>xs. f x)\<bar>"
    by linarith
  ultimately show ?case using Cons by (simp add: add_divide_distrib)
qed

lemma suma_partes:
  fixes reg :: "('a \<times> nat) list"
  assumes "0 < t"
  shows "(\<Sum>x\<leftarrow>reg. real (snd x) / real t * 100) = real (sum_list (map snd reg)) / real t * 100"
  by (induction reg) (simp_all add: add_divide_distrib distrib_right)

lemma porcentaje_suma:
  assumes "0 < sum_list (map snd reg)"
  shows "\<exists>ps. porcentaje reg = Inr ps \<and> length ps = length reg
           \<and> \<bar>sum_list ps - 100\<bar> \<le> real (length reg) / 200"
proof -
  let ?t = "sum_list (map snd reg)"
  let ?f = "\<lambda>x::'a \<times> nat. real (snd x) / real ?t * 100"
  have p: "porcentaje reg = Inr (map (\<lambda>x. redondear 2 (?f x)) reg)"
    using porcentaje_eq[OF assms] by (simp add: case_prod_unfold)
  have "real ?t \<noteq> 0" using assms by (simp del: sum_list_eq_0_iff)
  then have "real ?t / real ?t * 100 = 100" by simp
  then have "(\<Sum>x\<leftarrow>reg. ?f x) = 100"
    using suma_partes[OF assms, of reg] by simp
  with suma_redondeos[of ?f reg]
  have "\<bar>sum_list (map (\<lambda>x. redondear 2 (?f x)) reg) - 100\<bar> \<le> real (length reg) / 200"
    by simp
  with p show ?thesis by simp
qed

lemma registros_pais_suma: "fs \<noteq> [] \<Longrightarrow> 0 < sum_list (map snd (registros_pais fs))"
proof -
  assume "fs \<noteq> []"
  then have "registros_pais fs \<noteq> []"
    by (simp add: registros_pais_def groupby_size_Nil_iff)
  then obtain k n where kn: "(k, n) \<in> set (registros_pais fs)"
    by (cases "registros_pais fs") auto
  then have "0 < n" unfolding registros_pais_def by (rule groupby_size_count(3))
  moreover from kn have "n \<le> sum_list (map snd (registros_pais fs))"
    using member_le_sum_list[of n "map snd (registros_pais fs)"] by force
  ultimately show ?thesis by linarith
qed

text \<open>
  Claim C6, as the script has it.  For every view with at least one record, the shares of
  the categories, each count / total * 100 rounded to 2 decimals, sum to 100 within 0.005
  times the number of categories; so within 0.1 when there are at most 20 categories.
\<close>

theorem shares_sum:
  "fs \<noteq> [] \<Longrightarrow>
     (\<exists>ps. porcentaje (registros_pais fs) = Inr ps
        \<and> length ps = length (registros_pais fs)
        \<and> \<bar>sum_list ps - 100\<bar> \<le> 0.005 * real (length (registros_pais fs))
        \<and> (length (registros_pais fs) \<le> 20 \<longrightarrow> \<bar>sum_list ps - 100\<bar> \<le> 0.1))"
proof -
  assume "fs \<noteq> []"
  then have "0 < sum_list (map snd (registros_pais fs))" by (rule registros_pais_suma)
  from porcentaje_suma[OF this] obtain ps where
    ps: "porcentaje (registros_pais fs) = Inr ps" "length ps = length (registros_pais fs)"
      "\<bar>sum_list ps - 100\<bar> \<le> real (length (registros_pais fs)) / 200"
    by blast
  then have "length (registros_pais fs) \<le> 20 \<longrightarrow> \<bar>sum_list ps - 100\<bar> \<le> 0.1"
    by auto
  with ps show ?thesis by auto
qed

lemma registros_pais_3: "registros_pais ejemplo_3_paises = [(''gt'', 1), (''hn'', 2), (''sv'', 1)]"
  by (simp add: registros_pais_def groupby_size_def ejemplo_3_paises_def)

lemma registros_pais_31:
  "registros_pais ejemplo_31_paises =
     [(''c01'', 1), (''c02'', 1), (''c03'', 1), (''c04'', 1), (''c05'', 1),
      (''c06'', 1), (''c07'', 1), (''c08'', 1), (''c09'', 1), (''c10'', 1),
      (''c11'', 1), (''c12'', 1), (''c13'', 1), (''c14'', 1), (''c15'', 1),
      (''c16'', 1), (''c17'', 1), (''c18'', 1), (''c19'', 1), (''c20'', 1),
      (''c21'', 1), (''c22'', 1), (''c23'', 1), (''c24'', 1), (''c25'', 1),
      (''c26'', 1), (''c27'', 1), (''c28'', 1), (''c29'', 1), (''c30'', 1), (''c31'', 1)]"
  by (simp add: registros_pais_def groupby_size_def ejemplo_31_paises_def)

lemma redondear_cuartos: "redondear 2 25 = 25" "redondear 2 50 = 50"
  by (simp_all add: redondear_def redondeo_par_def)

lemma redondear_100_31: "redondear 2 (100 / 31) = 323 / 100"
  by (simp add: redondear_def redondeo_par_def Let_def)

theorem shares_sum_witness:
  "ejemplo_3_paises \<noteq> []
   \<and> porcentaje (registros_pais ejemplo_3_paises) = Inr [25, 50, 25]"
proof -
  have ne: "ejemplo_3_paises \<noteq> []" by (simp add: ejemplo_3_paises_def)
  have "porcentaje (registros_pais ejemplo_3_paises) = Inr [25, 50, 25]"
    by (simp add: registros_pais_3 porcentaje_def ligar_def dividir_def por_cien_def
        redondear_cuartos)
  with shares_sum[OF ne] ne show ?thesis by simp
qed

text \<open>The claim as stated fails: with 31 categories of one record each, every share is
  3.23 and the shares sum to 100.13.\<close>

theorem shares_31_categories_counterexample:
  "porcentaje (registros_pais ejemplo_31_paises) = Inr (replicate 31 (323 / 100))
   \<and> sum_list (replicate 31 (323 / 100 :: real)) = 100 + 13 / 100"
proof -
  have "porcentaje (registros_pais ejemplo_31_paises) = Inr (replicate 31 (323 / 100))"
  proof -
    have "porcentaje (registros_pais ejemplo_31_paises)
            = Inr (map (\<lambda>x. 323 / 100) (registros_pais ejemplo_31_paises))"
      unfolding registros_pais_31
      by (simp add: porcentaje_def ligar_def dividir_def por_cien_def redondear_100_31)
    moreover have "map (\<lambda>x. 323 / 100 :: real) (registros_pais ejemplo_31_paises)
            = replicate 31 (323 / 100)"
      unfolding registros_pais_31 by (simp add: eval_nat_numeral)
    ultimately show ?thesis by simp
  qed
  then show ?thesis by (simp add: sum_list_replicate)
qed

section \<open>Correlations between countries\<close>

lemma matriz_claves: "fst ` set (matriz_pais_fecha fs) = (\<lambda>r. (fecha r, pais r)) ` set fs"
  unfolding matriz_pais_fecha_def by (simp add: groupby_size_set_keys)

lemma matriz_paises: "set (map (\<lambda>((f, p), n). p) (matriz_pais_fecha fs)) = pais ` set fs"
proof -
  have "set (map (\<lambda>((f, p), n). p) (matriz_pais_fecha fs))
          = snd ` fst ` set (matriz_pais_fecha fs)"
    by (force simp: image_iff)
  also have "\<dots> = pais ` set fs" by (simp add: matriz_claves image_image)
  finally show ?thesis .
qed

lemma matriz_fechas: "set (map (\<lambda>((f, p), n). f) (matriz_pais_fecha fs)) = fecha ` set fs"
proof -
  have "set (map (\<lambda>((f, p), n). f) (matriz_pais_fecha fs))
          = fst ` fst ` set (matriz_pais_fecha fs)"
    by (force simp: image_iff)
  also have "\<dots> = fecha ` set fs" by (simp add: matriz_claves image_image)
  finally show ?thesis .
qed

lemma length_pivot: "length (pivot_paises (matriz_pais_fecha fs)) = card (pais ` set fs)"
proof -
  have "length (pivot_paises (matriz_pais_fecha fs))
          = card (set (map (\<lambda>((f, p), n). p) (matriz_pais_fecha fs)))"
    by (simp add: pivot_paises_def Let_def length_remdups_card_conv del: set_map)
  then show ?thesis unfolding matriz_paises .
qed

lemma length_columna:
  assumes "c \<in> set (pivot_paises (matriz_pais_fecha fs))"
  shows "length (snd c) = card (fecha ` set fs)"
proof -
  from assms obtain p where
    "c = (p, map (\<lambda>f. case map_of (matriz_pais_fecha fs) (f, p) of None \<Rightarrow> 0 | Some n \<Rightarrow> real n)
               (sort (remdups (map (\<lambda>((f, p), n). f) (matriz_pais_fecha fs)))))"
    by (auto simp: pivot_paises_def Let_def)
  then have "length (snd c) = length (remdups (map (\<lambda>((f, p), n). f) (matriz_pais_fecha fs)))"
    by simp
  also have "\<dots> = card (set (map (\<lambda>((f, p), n). f) (matriz_pais_fecha fs)))"
    by (rule length_remdups_card_conv)
  finally show ?thesis unfolding matriz_fechas .
qed

lemma corr_corta: "length xs \<le> 1 \<Longrightarrow> corr xs ys = None"
proof (cases xs)
  case Nil
  then show ?thesis by (simp add: corr_def)
next
  case (Cons x r)
  assume "length xs \<le> 1"
  with Cons have "xs = [x]" by simp
  then show ?thesis by (simp add: corr_def)
qed

lemma correlaciones_nth:
  "i < length pivot \<Longrightarrow> j < length pivot \<Longrightarrow>
     correlaciones pivot ! i ! j = corr (snd (pivot ! i)) (snd (pivot ! j))"
  by (simp add: correlaciones_def case_prod_unfold)

lemma en_concat_map: "y \<in> set ys \<Longrightarrow> x \<in> set (G y) \<Longrightarrow> x \<in> set (concat (map G ys))"
  by auto

lemma en_pares:
  "x \<in> set (concat (map (\<lambda>i. concat (map (F i) [i + 1..<n])) [0..<n]))
     \<longleftrightarrow> (\<exists>i j. i < j \<and> j < n \<and> x \<in> set (F i j))"
proof
  assume "x \<in> set (concat (map (\<lambda>i. concat (map (F i) [i + 1..<n])) [0..<n]))"
  then obtain i j where "i < n" "i + 1 \<le> j" "j < n" "x \<in> set (F i j)" by auto
  then have "i < j \<and> j < n \<and> x \<in> set (F i j)" by simp
  then show "\<exists>i j. i < j \<and> j < n \<and> x \<in> set (F i j)" by blast
next
  assume "\<exists>i j. i < j \<and> j < n \<and> x \<in> set (F i j)"
  then obtain i j where ij: "i < j" "j < n" and x: "x \<in> set (F i j)" by blast
  then have i: "i \<in> set [0..<n]" and j: "j \<in> set [i + 1..<n]" by simp_all
  have "x \<in> set (concat (map (F i) [i + 1..<n]))"
    using j x by (rule en_concat_map[where G = "F i"])
  with i show "x \<in> set (concat (map (\<lambda>i. concat (map (F i) [i + 1..<n])) [0..<n]))"
    by (rule en_concat_map[where G = "\<lambda>i. concat (map (F i) [i + 1..<n])"])
qed

lemma en_lista_par:
  "p \<in> set (case co of None \<Rightarrow> [] | Some v \<Rightarrow> if P v then [f v] else [])
     \<longleftrightarrow> (\<exists>c. co = Some c \<and> P c \<and> p = f c)"
  by (cases co) auto

lemma pares_negativos_iff:
  "p \<in> set (pares_negativos pivot) \<longleftrightarrow>
     (\<exists>i j c. i < j \<and> j < length pivot
        \<and> corr (snd (pivot ! i)) (snd (pivot ! j)) = Some c \<and> c < - 0.3
        \<and> p = \<lparr>pais1 = map mayuscula (fst (pivot ! i)),
                 pais2 = map mayuscula (fst (pivot ! j)), correlacion = c\<rparr>)"
  (is "?L \<longleftrightarrow> ?R")
proof -
  have L: "?L \<longleftrightarrow>
    (\<exists>i j. i < j \<and> j < length pivot \<and> (\<exists>c. correlaciones pivot ! i ! j = Some c \<and> c < - 0.3
        \<and> p = \<lparr>pais1 = map mayuscula (fst (pivot ! i)),
                 pais2 = map mayuscula (fst (pivot ! j)), correlacion = c\<rparr>))"
    unfolding pares_negativos_def en_pares en_lista_par ..
  show ?thesis
  proof
    assume ?L
    with L obtain i j c where ij: "i < j" "j < length pivot"
      and c: "correlaciones pivot ! i ! j = Some c" "c < - 0.3"
        "p = \<lparr>pais1 = map mayuscula (fst (pivot ! i)),
                 pais2 = map mayuscula (fst (pivot ! j)), correlacion = c\<rparr>"
      by blast
    from ij have "i < length pivot" by simp
    with ij c have "corr (snd (pivot ! i)) (snd (pivot ! j)) = Some c"
      by (simp add: correlaciones_nth)
    with ij c show ?R by blast
  next
    assume ?R
    then obtain i j c where ij: "i < j" "j < length pivot"
      and c: "corr (snd (pivot ! i)) (snd (pivot ! j)) = Some c" "c < - 0.3"
        "p = \<lparr>pais1 = map mayuscula (fst (pivot ! i)),
                 pais2 = map mayuscula (fst (pivot ! j)), correlacion = c\<rparr>"
      by blast
    from ij have "i < length pivot" by simp
    with ij c have "correlaciones pivot ! i ! j = Some c"
      by (simp add: correlaciones_nth)
    with ij c have "\<exists>i j. i < j \<and> j < length pivot \<and> (\<exists>c. correlaciones pivot ! i ! j = Some c \<and> c < - 0.3
        \<and> p = \<lparr>pais1 = map mayuscula (fst (pivot ! i)),
                 pais2 = map mayuscula (fst (pivot ! j)), correlacion = c\<rparr>)"
      by blast
    with L show ?L by simp
  qed
qed

lemma pares_positivos_iff:
  "p \<in> set (pares_positivos pivot) \<longleftrightarrow>
     (\<exists>i j c. i < j \<and> j < length pivot
        \<and> corr (snd (pivot ! i)) (snd (pivot ! j)) = Some c \<and> c > 0.7
        \<and> p = \<lparr>pais1 = map mayuscula (fst (pivot ! i)),
                 pais2 = map mayuscula (fst (pivot ! j)), correlacion = c\<rparr>)"
  (is "?L \<longleftrightarrow> ?R")
proof -
  have L: "?L \<longleftrightarrow>
    (\<exists>i j. i < j \<and> j < length pivot \<and> (\<exists>c. correlaciones pivot ! i ! j = Some c \<and> c > 0.7
        \<and> p = \<lparr>pais1 = map mayuscula (fst (pivot ! i)),
                 pais2 = map mayuscula (fst (pivot ! j)), correlacion = c\<rparr>))"
    unfolding pares_positivos_def en_pares en_lista_par ..
  show ?thesis
  proof
    assume ?L
    with L obtain i j c where ij: "i < j" "j < length pivot"
      and c: "correlaciones pivot ! i ! j = Some c" "c > 0.7"
        "p = \<lparr>pais1 = map mayuscula (fst (pivot ! i)),
                 pais2 = map mayuscula (fst (pivot ! j)), correlacion = c\<rparr>"
      by blast
    from ij have "i < length pivot" by simp
    with ij c have "corr (snd (pivot ! i)) (snd (pivot ! j)) = Some c"
      by (simp add: correlaciones_nth)
    with ij c show ?R by blast
  next
    assume ?R
    then obtain i j c where ij: "i < j" "j < length pivot"
      and c: "corr (snd (pivot ! i)) (snd (pivot ! j)) = Some c" "c > 0.7"
        "p = \<lparr>pais1 = map mayuscula (fst (pivot ! i)),
                 pais2 = map mayuscula (fst (pivot ! j)), correlacion = c\<rparr>"
      by blast
    from ij have "i < length pivot" by simp
    with ij c have "correlaciones pivot ! i ! j = Some c"
      by (simp add: correlaciones_nth)
    with ij c have "\<exists>i j. i < j \<and> j < length pivot \<and> (\<exists>c. correlaciones pivot ! i ! j = Some c \<and> c > 0.7
        \<and> p = \<lparr>pais1 = map mayuscula (fst (pivot ! i)),
                 pais2 = map mayuscula (fst (pivot ! j)), correlacion = c\<rparr>)"
      by blast
    with L show ?L by simp
  qed
qed







lemma sin_pares_si_corr_None:
  assumes "\<And>i j. i < j \<Longrightarrow> j < length pivot \<Longrightarrow> corr (snd (pivot ! i)) (snd (pivot ! j)) = None"
  shows "pares_negativos pivot = [] \<and> pares_positivos pivot = []"
proof -
  have "p \<notin> set (pares_negativos pivot)" for p
  proof
    assume "p \<in> set (pares_negativos pivot)"
    then obtain i j c where "i < j" "j < length pivot"
      "corr (snd (pivot ! i)) (snd (pivot ! j)) = Some c"
      unfolding pares_negativos_iff by blast
    with assms[of i j] show False by simp
  qed
  then have n: "pares_negativos pivot = []" by (cases "pares_negativos pivot") auto
  have "p \<notin> set (pares_positivos pivot)" for p
  proof
    assume "p \<in> set (pares_positivos pivot)"
    then obtain i j c where "i < j" "j < length pivot"
      "corr (snd (pivot ! i)) (snd (pivot ! j)) = Some c"
      unfolding pares_positivos_iff by blast
    with assms[of i j] show False by simp
  qed
  then have "pares_positivos pivot = []" by (cases "pares_positivos pivot") auto
  with n show ?thesis by simp
qed

lemma correlaciones_una_fecha:
  assumes "card (fecha ` set fs) \<le> 1"
  shows "pares_negativos (pivot_paises (matriz_pais_fecha fs)) = []
       \<and> pares_positivos (pivot_paises (matriz_pais_fecha fs)) = []"
proof -
  have "corr (snd (pivot_paises (matriz_pais_fecha fs) ! i))
             (snd (pivot_paises (matriz_pais_fecha fs) ! j)) = None"
    if "i < j" "j < length (pivot_paises (matriz_pais_fecha fs))" for i j
  proof -
    from that have "pivot_paises (matriz_pais_fecha fs) ! i
                      \<in> set (pivot_paises (matriz_pais_fecha fs))" by simp
    then have "length (snd (pivot_paises (matriz_pais_fecha fs) ! i)) \<le> 1"
      using assms by (simp add: length_columna)
    then show ?thesis by (rule corr_corta)
  qed
  then show ?thesis by (rule sin_pares_si_corr_None)
qed

lemma analisis_correlaciones_eq:
  "analisis_correlaciones df =
     (if tiene df ''pais'' \<and> tiene df ''fecha'' \<and> 2 \<le> length (remdups (map pais (filas df)))
      then Pares (pares_negativos (pivot_paises (matriz_pais_fecha (filas df))))
                 (pares_positivos (pivot_paises (matriz_pais_fecha (filas df))))
                 (pares_negativos (pivot_paises (matriz_pais_fecha (filas df))) = []
                  \<and> pares_positivos (pivot_paises (matriz_pais_fecha (filas df))) = [])
      else SinAnalisis)"
  by (auto simp: analisis_correlaciones_def Let_def length_pivot length_remdups_card_conv)








text \<open>
  Claim C5, as the script has it.  The correlation section is left out exactly when the
  view lacks the country or the date column or has fewer than 2 distinct countries; the
  number of distinct dates is not tested.  Once started the section always reaches the
  scan.  On a view with 2 or more countries and fewer than 2 distinct dates the scan runs,
  every correlation is undefined, no pair is reported, and the notice that the countries
  operate independently is shown.  No case raises an error.
\<close>

theorem correlation_precondition:
  "(analisis_correlaciones df = SinAnalisis \<longleftrightarrow>
      \<not> (tiene df ''pais'' \<and> tiene df ''fecha'' \<and> 2 \<le> length (remdups (map pais (filas df)))))
   \<and> analisis_correlaciones df \<noteq> SoloTitulo
   \<and> (tiene df ''pais'' \<and> tiene df ''fecha'' \<and> 2 \<le> length (remdups (map pais (filas df)))
       \<and> length (remdups (map fecha (filas df))) < 2
      \<longrightarrow> analisis_correlaciones df = Pares [] [] True)"
proof (intro conjI impI)
  show "analisis_correlaciones df = SinAnalisis \<longleftrightarrow>
      \<not> (tiene df ''pais'' \<and> tiene df ''fecha'' \<and> 2 \<le> length (remdups (map pais (filas df))))"
    by (simp add: analisis_correlaciones_eq)
  show "analisis_correlaciones df \<noteq> SoloTitulo"
    by (simp add: analisis_correlaciones_eq)
next
  assume h: "tiene df ''pais'' \<and> tiene df ''fecha'' \<and> 2 \<le> length (remdups (map pais (filas df)))
       \<and> length (remdups (map fecha (filas df))) < 2"
  then have "card (fecha ` set (filas df)) \<le> 1"
    by (simp add: length_remdups_card_conv)
  from correlaciones_una_fecha[OF this] h
  show "analisis_correlaciones df = Pares [] [] True"
    by (simp add: analisis_correlaciones_eq)
qed

lemma una_fecha_analisis: "analisis_correlaciones ejemplo_una_fecha = Pares [] [] True"
proof -
  have "card (fecha ` set (filas ejemplo_una_fecha)) \<le> 1"
    by (simp add: ejemplo_una_fecha_def)
  from correlaciones_una_fecha[OF this] show ?thesis
    by (simp add: analisis_correlaciones_eq) (simp add: ejemplo_una_fecha_def tiene_def)
qed

theorem correlation_precondition_witness:
  "tiene ejemplo_una_fecha ''pais'' \<and> tiene ejemplo_una_fecha ''fecha''
   \<and> length (remdups (map pais (filas ejemplo_una_fecha))) = 2
   \<and> length (remdups (map fecha (filas ejemplo_una_fecha))) = 1
   \<and> analisis_correlaciones ejemplo_una_fecha = Pares [] [] True"
proof -
  have h: "tiene ejemplo_una_fecha ''pais''" "tiene ejemplo_una_fecha ''fecha''"
    "length (remdups (map pais (filas ejemplo_una_fecha))) = 2"
    "length (remdups (map fecha (filas ejemplo_una_fecha))) = 1"
    by (simp_all add: ejemplo_una_fecha_def tiene_def)
  with correlation_precondition[of ejemplo_una_fecha] show ?thesis by simp
qed

text \<open>The claim as stated fails: on a view with two countries and a single date the
  analysis is not skipped; it runs and reports that the countries operate independently.\<close>

theorem single_date_counterexample:
  "length (remdups (map pais (filas ejemplo_una_fecha))) = 2
   \<and> length (remdups (map fecha (filas ejemplo_una_fecha))) = 1
   \<and> analisis_correlaciones ejemplo_una_fecha = Pares [] [] True
   \<and> analisis_correlaciones ejemplo_una_fecha \<noteq> SinAnalisis"
  by (simp add: una_fecha_analisis) (simp add: ejemplo_una_fecha_def)

section \<open>The empty view\<close>

lemma ligar_Inr: "ligar (Inr x) f = f x"
  by (simp add: ligar_def)

lemma fechas_None: "fecha_min [] = None" "fecha_max [] = None"
  by (simp_all add: fecha_min_def fecha_max_def)

lemma fechas_Some: "fs \<noteq> [] \<Longrightarrow> \<exists>a b. fecha_min fs = Some a \<and> fecha_max fs = Some b"
  by (cases fs) (simp_all add: fecha_min_def fecha_max_def)

lemma aplicar_filtros_falla:
  assumes "tiene df ''fecha''" "filtro_pais_mes df sel = []"
  shows "aplicar_filtros df sel = Inl ValueError"
  using assms by (simp add: aplicar_filtros_def Let_def fechas_None date_input_def ligar_def)

lemma aplicar_filtros_columnas:
  assumes "aplicar_filtros df sel = Inr v"
  shows "tiene v c = tiene df c"
proof (cases "tiene df ''fecha''")
  case True
  with assms obtain rango where
    "v = df\<lparr>filas := (if length rango = 2
                       then filter (\<lambda>r. fecha r \<ge> rango ! 0 \<and> fecha r \<le> rango ! 1)
                              (filtro_pais_mes df sel)
                       else filtro_pais_mes df sel)\<rparr>"
    by (auto simp: aplicar_filtros_def Let_def ligar_def split: sum.splits)
  then show ?thesis by (simp add: tiene_def)
next
  case False
  with assms have "v = df\<lparr>filas := filtro_pais_mes df sel\<rparr>"
    by (simp add: aplicar_filtros_def Let_def)
  then show ?thesis by (simp add: tiene_def)
qed

lemma aplicar_filtros_pasa:
  assumes "\<not> tiene df ''fecha'' \<or> filtro_pais_mes df sel \<noteq> []"
  shows "\<exists>v. aplicar_filtros df sel = Inr v"
proof (cases "tiene df ''fecha''")
  case True
  with assms have "filtro_pais_mes df sel \<noteq> []" by simp
  from fechas_Some[OF this] obtain a b where
    "fecha_min (filtro_pais_mes df sel) = Some a" "fecha_max (filtro_pais_mes df sel) = Some b"
    by blast
  with True show ?thesis by (simp add: aplicar_filtros_def Let_def date_input_def ligar_def)
next
  case False
  then show ?thesis by (simp add: aplicar_filtros_def Let_def)
qed

lemma pestanas_sin_datos:
  assumes "filas df = []"
  shows "tab_tendencias df = Inr SinDatos" "tab_paises df = Inr SinDatos"
    "tab_dia_semana df = Inr SinDatos" "tab_fechas df = Inr SinDatos"
    "tab_horas df = Inr SinDatos" "tab_resumen df = Inr SinDatos"
    "tasa_exito df = Inr NA"
  using assms
  by (simp_all add: tab_tendencias_def tab_paises_def tab_dia_semana_def tab_fechas_def
      tab_horas_def tab_resumen_def tasa_exito_def)

text \<open>What the guards are for: on a table without rows the bodies of the tabs 1, 3 and 5
  end in the fault of \<^verbatim>\<open>idxmax()\<close>, and the overall trend alone in that of
  \<^verbatim>\<open>iloc[0]\<close>.\<close>

lemma analisis_sin_filas:
  "analisis_tendencias \<lparr>columnas = cs, filas = []\<rparr> = Inl ValueError"
  "tendencia_general [] = Inl IndexError"
  "analisis_semana [] = Inl ValueError"
  "analisis_horas [] = Inl ValueError"
  by (simp_all add: analisis_tendencias_def analisis_semana_def analisis_horas_def
      registros_dia_def registros_dia_semana_def
      registros_hora_def groupby_size_def tendencia_general_def iloc_primero_def
      idxmax_def ligar_def Let_def)

lemma panel_sin_datos:
  assumes v: "aplicar_filtros df sel = Inr v" and e: "filas v = []"
  shows "panel df sel =
       Inr \<lparr>pn_total_registros = 0, pn_paises_unicos = 0,
            pn_dias_unicos = (if tiene df ''fecha'' then Some 0 else None),
            pn_tasa_exito = NA,
            pn_tendencias = SinDatos, pn_paises = SinDatos, pn_dia_semana = SinDatos,
            pn_fechas = SinDatos, pn_horas = SinDatos, pn_resumen = SinDatos\<rparr>"
  unfolding panel_def v ligar_Inr
  by (simp add: pestanas_sin_datos[OF e] ligar_Inr e aplicar_filtros_columnas[OF v])

lemma panel_falla:
  assumes "tiene df ''fecha''" "filtro_pais_mes df sel = []"
  shows "panel df sel = Inl ValueError"
  unfolding panel_def aplicar_filtros_falla[OF assms] by (simp add: ligar_def)

text \<open>
  Claim C9, against the script.  The six tabs do what the claim says: when the filtered
  view has no record, each shows its "no data" warning and runs none of its analysis, the
  success rate is N/A and the counters of records, countries and days are 0.  But the
  filtered view is reached only when the date widget could be made.  When the table has a
  date column and the country and the month chosen leave no record, the widget is given
  missing dates and the run ends there in a \<^verbatim>\<open>ValueError\<close>, before any metric or tab; in
  every other case the filters end without a fault.
\<close>

theorem empty_view_no_data:
  "(\<forall>v. aplicar_filtros df sel = Inr v \<and> filas v = [] \<longrightarrow>
      panel df sel =
        Inr \<lparr>pn_total_registros = 0, pn_paises_unicos = 0,
             pn_dias_unicos = (if tiene df ''fecha'' then Some 0 else None),
             pn_tasa_exito = NA,
             pn_tendencias = SinDatos, pn_paises = SinDatos, pn_dia_semana = SinDatos,
             pn_fechas = SinDatos, pn_horas = SinDatos, pn_resumen = SinDatos\<rparr>)
   \<and> (tiene df ''fecha'' \<and> filtro_pais_mes df sel = [] \<longrightarrow> panel df sel = Inl ValueError)
   \<and> (\<not> tiene df ''fecha'' \<or> filtro_pais_mes df sel \<noteq> [] \<longrightarrow>
        (\<exists>v. aplicar_filtros df sel = Inr v))"
  using panel_sin_datos[of df sel] panel_falla[of df sel] aplicar_filtros_pasa[of df sel]
  by blast

theorem empty_view_no_data_witness:
  "aplicar_filtros ejemplo_hueco seleccion_hueco = Inr (ejemplo_hueco\<lparr>filas := []\<rparr>)
   \<and> panel ejemplo_hueco seleccion_hueco =
       Inr \<lparr>pn_total_registros = 0, pn_paises_unicos = 0, pn_dias_unicos = Some 0,
            pn_tasa_exito = NA,
            pn_tendencias = SinDatos, pn_paises = SinDatos, pn_dia_semana = SinDatos,
            pn_fechas = SinDatos, pn_horas = SinDatos, pn_resumen = SinDatos\<rparr>
   \<and> tiene ejemplo_cruce ''fecha''
   \<and> filtro_pais_mes ejemplo_cruce seleccion_cruce = []
   \<and> panel ejemplo_cruce seleccion_cruce = Inl ValueError"
proof -
  have v: "aplicar_filtros ejemplo_hueco seleccion_hueco = Inr (ejemplo_hueco\<lparr>filas := []\<rparr>)"
    by (simp add: aplicar_filtros_def filtro_pais_mes_def fecha_min_def fecha_max_def
        date_input_def ligar_def ejemplo_hueco_def seleccion_hueco_def tiene_def)
  have e: "filas (ejemplo_hueco\<lparr>filas := []\<rparr>) = []" by simp
  have t: "tiene ejemplo_hueco ''fecha''" by (simp add: ejemplo_hueco_def tiene_def)
  have tc: "tiene ejemplo_cruce ''fecha''" by (simp add: ejemplo_cruce_def tiene_def)
  have fc: "filtro_pais_mes ejemplo_cruce seleccion_cruce = []"
    by (simp add: filtro_pais_mes_def ejemplo_cruce_def seleccion_cruce_def)
  from empty_view_no_data[of ejemplo_hueco seleccion_hueco] v e t
  have "panel ejemplo_hueco seleccion_hueco =
       Inr \<lparr>pn_total_registros = 0, pn_paises_unicos = 0, pn_dias_unicos = Some 0,
            pn_tasa_exito = NA,
            pn_tendencias = SinDatos, pn_paises = SinDatos, pn_dia_semana = SinDatos,
            pn_fechas = SinDatos, pn_horas = SinDatos, pn_resumen = SinDatos\<rparr>"
    by simp
  moreover from empty_view_no_data[of ejemplo_cruce seleccion_cruce] tc fc
  have "panel ejemplo_cruce seleccion_cruce = Inl ValueError" by blast
  ultimately show ?thesis using v tc fc by (intro conjI)
qed

section \<open>The drop pattern\<close>

lemma count_list_map_filter: "count_list (map g xs) k = length (filter (\<lambda>x. g x = k) xs)"
  by (induction xs) simp_all

lemma suma_groupby_size: "sum_list (map snd (groupby_size ks)) = length ks"
proof -
  have "sum_list (map snd (groupby_size ks)) = sum_list (map (count_list ks) (sort (remdups ks)))"
    by (simp add: groupby_size_def comp_def)
  also have "\<dots> = sum (count_list ks) (set (sort (remdups ks)))"
    by (rule sum_list_distinct_conv_sum_set) simp
  also have "\<dots> = length ks"
    by (simp add: sum_count_set)
  finally show ?thesis .
qed

lemma length_groupby_size: "length (groupby_size ks) = length (remdups ks)"
  by (simp add: groupby_size_def)

lemma media_registros_dia: "media (map snd (registros_dia fs)) = promedio_diario fs"
  by (simp add: media_def registros_dia_def suma_groupby_size length_groupby_size
      promedio_diario_def)

lemma registros_dia_conteo:
  "(f, n) \<in> set (registros_dia fs) \<longleftrightarrow> f \<in> fecha ` set fs \<and> n = registros_del_dia fs f"
  by (auto simp: registros_dia_def groupby_size_def registros_del_dia_def count_list_map_filter)

lemma promedio_diario_pos: "fs \<noteq> [] \<Longrightarrow> 0 < promedio_diario fs"
proof -
  assume "fs \<noteq> []"
  then have "remdups (map fecha fs) \<noteq> []" by simp
  then have "0 < length (remdups (map fecha fs))" by blast
  with \<open>fs \<noteq> []\<close> show ?thesis by (simp add: promedio_diario_def)
qed


subsection \<open>The join and the count of values\<close>

lemma merge_left_columna:
  assumes "\<And>f n. (f, n) \<in> set L \<Longrightarrow> \<exists>d. (f, d) \<in> set K"
  shows "map (\<lambda>(f, n, d). d) (merge_left L K)
           = map Some (concat (map (\<lambda>(f, n). map snd (filter (\<lambda>(f', d). f' = f) K)) L))"
  using assms
proof (induction L)
  case Nil
  then show ?case by (simp add: merge_left_def)
next
  case (Cons x L)
  obtain f n where x: "x = (f, n)" by (cases x)
  from Cons.prems[of f n] x obtain d where "(f, d) \<in> set K" by auto
  then have "filter (\<lambda>(f', d). f' = f) K \<noteq> []"
    by (auto simp: filter_empty_conv)
  then obtain c cs where c: "filter (\<lambda>(f', d). f' = f) K = c # cs"
    by (cases "filter (\<lambda>(f', d). f' = f) K") auto
  have ih: "map (\<lambda>(f, n, d). d) (merge_left L K)
           = map Some (concat (map (\<lambda>(f, n). map snd (filter (\<lambda>(f', d). f' = f) K)) L))"
    by (rule Cons.IH) (use Cons.prems in auto)
  have m: "merge_left (x # L) K = map (\<lambda>(f', d). (f, n, Some d)) (c # cs) @ merge_left L K"
    by (simp add: merge_left_def x c)
  have p: "map (\<lambda>(f, n, d). d) (map (\<lambda>(f', d). (f, n, Some d)) (c # cs))
             = map Some (map snd (c # cs))"
    by (simp add: case_prod_unfold)
  have "map Some (concat (map (\<lambda>(f, n). map snd (filter (\<lambda>(f', d). f' = f) K)) (x # L)))
          = map Some (map snd (filter (\<lambda>(f', d). f' = f) K))
            @ map Some (concat (map (\<lambda>(f, n). map snd (filter (\<lambda>(f', d). f' = f) K)) L))"
    unfolding x by (simp only: list.map concat.simps map_append case_prod_conv)
  then show ?case
    unfolding m map_append p ih c by (rule sym)
qed

lemma merge_left_filas:
  assumes "(f, n, d) \<in> set (merge_left L K)"
  shows "(f, n) \<in> set L"
proof -
  from assms obtain f' n' where x: "(f', n') \<in> set L"
    and m: "(f, n, d) \<in> set (case filter (\<lambda>(g, d). g = f') K of
          [] \<Rightarrow> [(f', n', None)]
        | c # cs \<Rightarrow> map (\<lambda>(g, d). (f', n', Some d)) (c # cs))"
    by (auto simp: merge_left_def)
  from m have "f = f' \<and> n = n'"
    by (cases "filter (\<lambda>(g, d). g = f') K") auto
  with x show ?thesis by simp
qed

lemma length_filter_disjuntos:
  assumes "\<And>x. x \<in> set xs \<Longrightarrow> \<not> (P x \<and> Q x)"
  shows "length (filter (\<lambda>x. P x \<or> Q x) xs) = length (filter P xs) + length (filter Q xs)"
  using assms by (induction xs) auto

lemma conteo_union:
  assumes "distinct (map fst L)"
  shows "count_list (concat (map (\<lambda>(f, n). map snd (filter (\<lambda>(f', d'). f' = f) K)) L)) d
           = length (filter (\<lambda>(f', d'). d' = d \<and> f' \<in> fst ` set L) K)"
  using assms
proof (induction L)
  case Nil
  then show ?case by simp
next
  case (Cons x L)
  obtain f n where x: "x = (f, n)" by (cases x)
  from Cons.prems x have nf: "f \<notin> fst ` set L" and dl: "distinct (map fst L)" by auto
  have a: "count_list (map snd (filter (\<lambda>(f', d'). f' = f) K)) d
             = length (filter (\<lambda>(f', d'). d' = d \<and> f' = f) K)"
    by (induction K) auto
  have "length (filter (\<lambda>(f', d'). d' = d \<and> f' \<in> fst ` set (x # L)) K)
          = length (filter (\<lambda>k. (case k of (f', d') \<Rightarrow> d' = d \<and> f' = f)
                              \<or> (case k of (f', d') \<Rightarrow> d' = d \<and> f' \<in> fst ` set L)) K)"
    by (rule arg_cong[where f = length], rule filter_cong) (auto simp: x)
  also have "\<dots> = length (filter (\<lambda>(f', d'). d' = d \<and> f' = f) K)
                  + length (filter (\<lambda>(f', d'). d' = d \<and> f' \<in> fst ` set L) K)"
    by (rule length_filter_disjuntos) (use nf in auto)
  finally show ?case
    using Cons.IH[OF dl] by (simp add: x a)
qed

lemma set_unicos: "set (unicos vs) = set vs"
  by (simp add: unicos_def)

lemma value_counts_Some:
  "value_counts (map Some vs)
     = sort_key (\<lambda>(k, c). - int c) (map (\<lambda>k. (k, count_list vs k)) (unicos vs))"
proof -
  have "map the (filter (\<lambda>v. v \<noteq> None) (map Some vs)) = vs"
    by (induction vs) simp_all
  then show ?thesis by (simp add: value_counts_def)
qed

lemma value_counts_Nil: "value_counts (map Some vs) = [] \<longleftrightarrow> vs = []"
proof -
  have "value_counts (map Some vs) = [] \<longleftrightarrow> unicos vs = []"
    unfolding value_counts_Some
    by (metis length_0_conv length_map length_sort)
  also have "\<dots> \<longleftrightarrow> vs = []" by (simp add: unicos_def)
  finally show ?thesis .
qed

lemma value_counts_cabeza:
  assumes "value_counts (map Some vs) = (dia, c) # resto"
  shows "dia \<in> set vs" and "c = count_list vs dia" and "count_list vs d \<le> c"
proof -
  let ?xs = "map (\<lambda>k. (k, count_list vs k)) (unicos vs)"
  let ?key = "\<lambda>(k, c::nat). - int c"
  have s: "sort_key ?key ?xs = (dia, c) # resto"
    using assms by (simp add: value_counts_Some)
  have "(dia, c) \<in> set (sort_key ?key ?xs)" by (simp add: s)
  then have m: "(dia, c) \<in> set ?xs" by simp
  then show dia: "dia \<in> set vs" and c: "c = count_list vs dia"
    by (auto simp: set_unicos)
  have "sorted (map ?key (sort_key ?key ?xs))" by (rule sorted_sort_key)
  then have le: "\<And>y. y \<in> set resto \<Longrightarrow> ?key (dia, c) \<le> ?key y"
    unfolding s by auto
  show "count_list vs d \<le> c"
  proof (cases "d \<in> set vs")
    case False
    then have "count_list vs d = 0" by (simp add: count_list_0_iff)
    then show ?thesis by simp
  next
    case True
    then have "(d, count_list vs d) \<in> set ?xs" by (auto simp: set_unicos)
    then have "(d, count_list vs d) \<in> set (sort_key ?key ?xs)" by simp
    then have "(d, count_list vs d) = (dia, c) \<or> (d, count_list vs d) \<in> set resto"
      unfolding s by simp
    then show ?thesis
    proof
      assume "(d, count_list vs d) = (dia, c)"
      then show ?thesis by auto
    next
      assume "(d, count_list vs d) \<in> set resto"
      from le[OF this] show ?thesis by simp
    qed
  qed
qed


lemma merge_left_pareja:
  assumes "(f, n, Some d) \<in> set (merge_left L K)"
  shows "(f, d) \<in> set K"
proof -
  from assms obtain f' n' where
    m: "(f, n, Some d) \<in> set (case filter (\<lambda>(g, d). g = f') K of
          [] \<Rightarrow> [(f', n', None)]
        | c # cs \<Rightarrow> map (\<lambda>(g, d). (f', n', Some d)) (c # cs))"
    by (auto simp: merge_left_def)
  show ?thesis
  proof (cases "filter (\<lambda>(g, d). g = f') K")
    case Nil
    with m show ?thesis by simp
  next
    case (Cons c cs)
    with m have "(f, n, Some d) \<in> (\<lambda>(g, d). (f', n', Some d)) ` set (c # cs)"
      by (simp only: list.case set_map)
    then obtain k where k: "k \<in> set (c # cs)" "(f, n, Some d) = (\<lambda>(g, d). (f', n', Some d)) k"
      by blast
    obtain g d' where "k = (g, d')" by (cases k)
    with k have "(g, d) \<in> set (c # cs)" "f = f'" by simp_all
    then have "(g, d) \<in> set (filter (\<lambda>(g, d). g = f') K)" by (simp only: Cons)
    with \<open>f = f'\<close> show ?thesis by auto
  qed
qed

subsection \<open>The tables of the drop pattern\<close>

lemma claves_completo: "map fst (registros_dia_completo fs) = sort (dias_del_rango fs)"
  by (simp add: registros_dia_completo_def groupby_size_keys dias_del_rango_def)

lemma dia_del_rango_fecha: "(f, d) \<in> set (dias_del_rango fs) \<Longrightarrow> f \<in> fecha ` set fs"
  by (auto simp: dias_del_rango_def)

lemma fecha_con_dia: "f \<in> fecha ` set fs \<Longrightarrow> \<exists>d. (f, d) \<in> set (dias_del_rango fs)"
  by (force simp: dias_del_rango_def)

lemma distinct_registros_dia: "distinct (map fst (registros_dia fs))"
  by (simp add: registros_dia_def groupby_size_distinct)

lemma caidas_distintas: "distinct (map fst (dias_con_caida fs))"
  unfolding dias_con_caida_def
  by (rule distinct_map_filter) (rule distinct_registros_dia)

lemma promedio_temp_eq: "promedio_temp fs = doble (promedio_diario fs)"
  by (simp add: promedio_temp_def media_registros_dia)

lemma umbral_caida_eq: "umbral_caida fs = umbral_85 fs"
  by (simp add: umbral_caida_def umbral_85_def promedio_temp_eq)

lemma promedio_temp_pos: "fs \<noteq> [] \<Longrightarrow> 0 < promedio_temp fs"
  unfolding promedio_temp_eq by (rule doble_positivo) (rule promedio_diario_pos)

lemma caidas_props:
  "(f, n) \<in> set (dias_con_caida fs)
     \<longleftrightarrow> f \<in> fecha ` set fs \<and> n = registros_del_dia fs f \<and> bajo_umbral fs f"
  by (auto simp: dias_con_caida_def umbral_caida_eq registros_dia_conteo bajo_umbral_def)

lemma length_filter_sort: "length (filter P (sort xs)) = length (filter P xs)"
  by (simp add: filter_sort)

lemma conteo_caidas:
  "count_list (concat (map (\<lambda>(f, n). map snd (filter (\<lambda>(f', d'). f' = f)
                        (sort (dias_del_rango fs)))) (dias_con_caida fs))) d
     = veces_bajo fs d"
proof -
  have mem: "f \<in> fst ` set (dias_con_caida fs) \<longleftrightarrow> f \<in> fecha ` set fs \<and> bajo_umbral fs f"
    for f
  proof -
    have "f \<in> fst ` set (dias_con_caida fs) \<longleftrightarrow> (\<exists>n. (f, n) \<in> set (dias_con_caida fs))"
      by force
    then show ?thesis unfolding caidas_props by simp
  qed
  have "filter (\<lambda>(f', d'). d' = d \<and> f' \<in> fst ` set (dias_con_caida fs))
            (sort (dias_del_rango fs))
          = filter (\<lambda>(f', d'). d' = d \<and> bajo_umbral fs f') (sort (dias_del_rango fs))"
    by (rule filter_cong) (auto simp: mem dest: dia_del_rango_fecha)
  then have "length (filter (\<lambda>(f', d'). d' = d \<and> f' \<in> fst ` set (dias_con_caida fs))
                (sort (dias_del_rango fs)))
          = veces_bajo fs d"
    by (simp only: length_filter_sort veces_bajo_def)
  with conteo_union[OF caidas_distintas[of fs], where K = "sort (dias_del_rango fs)" and d = d]
  show ?thesis by simp
qed

lemma total_dias_tipo:
  "length (filter (\<lambda>((f, d), n). d = dia) (registros_dia_completo fs)) = veces_total fs dia"
proof -
  have "length (filter (\<lambda>((f, d), n). d = dia) (registros_dia_completo fs))
          = length (filter (\<lambda>(f, d). d = dia) (map fst (registros_dia_completo fs)))"
    by (simp add: filter_map comp_def case_prod_unfold)
  then show ?thesis
    by (simp only: claves_completo length_filter_sort veces_total_def)
qed

lemma length_filter_conj_le: "length (filter (\<lambda>x. P x \<and> Q x) xs) \<le> length (filter P xs)"
  by (induction xs) auto

lemma veces_bajo_le_total: "veces_bajo fs d \<le> veces_total fs d"
  unfolding veces_bajo_def veces_total_def case_prod_unfold
  by (rule length_filter_conj_le)


subsection \<open>The threshold and the exact product\<close>

lemma producto_85_error:
  assumes m: "0 < m"
  shows "\<bar>doble (doble m * doble 0.85) - 0.85 * m\<bar> \<le> m / 2 ^ 51"
proof -
  define eps :: real where "eps = 1 / 2 ^ 53"
  define a where "a = doble m"
  define c where "c = doble 0.85"
  have eps: "0 < eps" "eps \<le> 3 / 40" by (simp_all add: eps_def)
  have me: "0 \<le> m * eps" using m eps(1) by simp
  have a: "\<bar>a - m\<bar> \<le> m * eps"
    using doble_error[of m] m by (simp add: a_def eps_def)
  have c: "0 \<le> c" "c \<le> 1" "\<bar>c - 0.85\<bar> \<le> eps"
    unfolding c_def doble_085 by (simp_all add: eps_def)
  have "\<bar>a - m\<bar> * c \<le> (m * eps) * 1"
    using a c(1,2) me by (intro mult_mono) simp_all
  then have t1: "\<bar>(a - m) * c\<bar> \<le> m * eps" using c(1) by (simp add: abs_mult)
  have "m * \<bar>c - 0.85\<bar> \<le> m * eps" using c(3) m by (intro mult_left_mono) simp_all
  then have t2: "\<bar>m * (c - 0.85)\<bar> \<le> m * eps" using m by (simp add: abs_mult)
  define t where "t = 0.85 * m"
  have t: "t = (17 / 20) * m" by (simp add: t_def)
  have "a * c - t = (a - m) * c + m * (c - 0.85)" by (simp add: t_def algebra_simps)
  with t1 t2 have p: "\<bar>a * c - t\<bar> \<le> 2 * (m * eps)" by linarith
  have "m * eps \<le> m * (3 / 40)" using eps(2) m by (intro mult_left_mono) simp_all
  then have "m * eps \<le> (3 / 40) * m" by simp
  with p t have pm: "\<bar>a * c\<bar> \<le> m" using m by linarith
  have "\<bar>doble (a * c) - a * c\<bar> \<le> \<bar>a * c\<bar> * eps"
    using doble_error[of "a * c"] by (simp add: eps_def)
  also have "\<dots> \<le> m * eps" using pm eps(1) by (intro mult_right_mono) simp_all
  finally have "\<bar>doble (a * c) - t\<bar> \<le> 3 * (m * eps)" using p by linarith
  also have "\<dots> \<le> 4 * (m * eps)" using me by linarith
  also have "\<dots> = m / 2 ^ 51" by (simp add: eps_def)
  finally show ?thesis by (simp only: a_def c_def t_def)
qed

lemma umbral_85_error:
  "fs \<noteq> [] \<Longrightarrow> \<bar>umbral_85 fs - 0.85 * promedio_diario fs\<bar> \<le> promedio_diario fs / 2 ^ 51"
  unfolding umbral_85_def by (rule producto_85_error) (rule promedio_diario_pos)

text \<open>A whole count that is not 0.85 times the mean differs from it by a twentieth of the
  reciprocal of the number of days at least, which is more than the rounding error of the
  threshold; so the threshold and the exact product part the counts alike, but for a count
  that is the exact product.\<close>

lemma producto_85_separa:
  fixes c L D :: nat
  assumes D: "0 < D" and L: "20 * L < 2 ^ 51"
    and u: "\<bar>U - 0.85 * (real L / real D)\<bar> \<le> (real L / real D) / 2 ^ 51"
  shows "real c < U \<longleftrightarrow>
           real c < 0.85 * (real L / real D)
           \<or> (real c = 0.85 * (real L / real D) \<and> 0.85 * (real L / real D) < U)"
proof -
  define T where "T = 0.85 * (real L / real D)"
  define z where "z = 20 * int D * int c - 17 * int L"
  have D': "0 < real D" using D by simp
  have zT: "real c - T = of_int z / (20 * real D)"
    using D' by (simp add: T_def z_def field_simps)
  have "real (20 * L) < 2 ^ 51"
    using L by (metis of_nat_less_iff of_nat_numeral of_nat_power)
  then have "20 * real L < 2 ^ 51" by simp
  then have "real L / 2 ^ 51 < 1 / 20" by (simp add: field_simps)
  then have "(real L / 2 ^ 51) / real D < (1 / 20) / real D"
    using D' by (rule divide_strict_right_mono)
  then have small: "(real L / real D) / 2 ^ 51 < 1 / (20 * real D)" by (simp add: field_simps)
  from u small have near: "\<bar>U - T\<bar> < 1 / (20 * real D)" unfolding T_def by linarith
  have far: "1 / (20 * real D) \<le> \<bar>real c - T\<bar>" if "real c \<noteq> T"
  proof -
    from that zT have "z \<noteq> 0" by auto
    then have "1 \<le> \<bar>z\<bar>" by simp
    then have "1 \<le> \<bar>of_int z :: real\<bar>" by (metis of_int_1_le_iff of_int_abs)
    then have "1 / (20 * real D) \<le> \<bar>of_int z\<bar> / (20 * real D)"
      using D' by (intro divide_right_mono) simp_all
    also have "\<dots> = \<bar>real c - T\<bar>" unfolding zT using D' by (simp add: abs_divide del: of_int_abs)
    finally show ?thesis .
  qed
  have "real c < U \<longleftrightarrow> real c < T \<or> (real c = T \<and> T < U)"
  proof (cases "real c = T")
    case True
    then show ?thesis by simp
  next
    case False
    from far[OF False] near show ?thesis by (cases "real c < T") (simp_all, linarith+)
  qed
  then show ?thesis unfolding T_def .
qed

lemma bajo_umbral_exacto:
  assumes ne: "fs \<noteq> []" and L: "20 * length fs < 2 ^ 51"
  shows "bajo_umbral fs f \<longleftrightarrow>
           real (registros_del_dia fs f) < 0.85 * promedio_diario fs
           \<or> (real (registros_del_dia fs f) = 0.85 * promedio_diario fs
              \<and> 0.85 * promedio_diario fs < umbral_85 fs)"
proof -
  have D: "0 < length (remdups (map fecha fs))" using ne by simp
  show ?thesis
    unfolding bajo_umbral_def promedio_diario_def
    by (rule producto_85_separa[OF D L])
       (use umbral_85_error[OF ne] in \<open>simp only: promedio_diario_def\<close>)
qed

subsection \<open>The value of the drop pattern\<close>

lemma caidas_con_pareja:
  assumes "(f, n) \<in> set (dias_con_caida fs)"
  shows "\<exists>d. (f, d) \<in> set (sort (dias_del_rango fs))"
proof -
  from assms have "f \<in> fecha ` set fs" unfolding caidas_props by simp
  then show ?thesis using fecha_con_dia[of f fs] by simp
qed

lemma completo_eq:
  "dias_con_caida_completo fs = merge_left (dias_con_caida fs) (sort (dias_del_rango fs))"
  by (simp only: dias_con_caida_completo_def claves_completo)

lemma columna_caidas:
  "map (\<lambda>(f, n, d). d) (dias_con_caida_completo fs)
   = map Some (concat (map (\<lambda>(f, n). map snd (filter (\<lambda>(f', d). f' = f)
                        (sort (dias_del_rango fs)))) (dias_con_caida fs)))"
  unfolding completo_eq by (rule merge_left_columna) (rule caidas_con_pareja)

lemma patron_caidas_sin_caidas:
  assumes "dias_con_caida fs = []"
  shows "patron_caidas fs = Inr None"
  using assms by (simp add: patron_caidas_def)

lemma sin_caidas_iff: "dias_con_caida fs = [] \<longleftrightarrow> (\<forall>d. veces_bajo fs d = 0)"
proof
  assume e: "dias_con_caida fs = []"
  show "\<forall>d. veces_bajo fs d = 0"
  proof
    fix d
    from conteo_caidas[of fs d] show "veces_bajo fs d = 0" by (simp add: e)
  qed
next
  assume z: "\<forall>d. veces_bajo fs d = 0"
  show "dias_con_caida fs = []"
  proof (rule ccontr)
    assume "dias_con_caida fs \<noteq> []"
    then obtain f n where fn: "(f, n) \<in> set (dias_con_caida fs)"
      by (cases "dias_con_caida fs") auto
    then have "f \<in> fecha ` set fs" "bajo_umbral fs f" unfolding caidas_props by simp_all
    then obtain d where "(f, d) \<in> set (dias_del_rango fs)" using fecha_con_dia by blast
    with \<open>bajo_umbral fs f\<close>
    have "(f, d) \<in> set (filter (\<lambda>(f, d'). d' = d \<and> bajo_umbral fs f) (dias_del_rango fs))"
      by simp
    then have "filter (\<lambda>(f, d'). d' = d \<and> bajo_umbral fs f) (dias_del_rango fs) \<noteq> []"
      by force
    then have "0 < veces_bajo fs d" by (simp add: veces_bajo_def)
    with z show False by simp
  qed
qed

lemma patron_caidas_cabeza:
  assumes "\<not> (\<forall>d. veces_bajo fs d = 0)"
  obtains dia cantidad resto where
    "value_counts (map (\<lambda>(f, n, d). d) (dias_con_caida_completo fs)) = (dia, cantidad) # resto"
    and "cantidad = veces_bajo fs dia" and "0 < cantidad"
    and "\<forall>d. veces_bajo fs d \<le> cantidad"
proof -
  let ?vs = "concat (map (\<lambda>(f, n). map snd (filter (\<lambda>(f', d). f' = f)
                        (sort (dias_del_rango fs)))) (dias_con_caida fs))"
  from assms obtain d0 where "0 < veces_bajo fs d0" by auto
  then have "0 < count_list ?vs d0" by (simp only: conteo_caidas)
  then have "?vs \<noteq> []" by (cases ?vs) simp_all
  then have "value_counts (map Some ?vs) \<noteq> []" by (simp only: value_counts_Nil not_False_eq_True)
  then obtain dia cantidad resto where vc: "value_counts (map Some ?vs) = (dia, cantidad) # resto"
    by (cases "value_counts (map Some ?vs)") auto
  from value_counts_cabeza[OF vc]
  have dia: "dia \<in> set ?vs" and c: "cantidad = count_list ?vs dia"
    and le: "\<And>d. count_list ?vs d \<le> cantidad" by blast+
  from dia have "count_list ?vs dia \<noteq> 0" by (simp only: count_list_0_iff not_not)
  with c have pos: "0 < cantidad" by simp
  show ?thesis
  proof (rule that[of dia cantidad resto])
    show "value_counts (map (\<lambda>(f, n, d). d) (dias_con_caida_completo fs)) = (dia, cantidad) # resto"
      by (simp only: columna_caidas vc)
    show "cantidad = veces_bajo fs dia" using c by (simp only: conteo_caidas)
    show "0 < cantidad" by (rule pos)
    show "\<forall>d. veces_bajo fs d \<le> cantidad" using le by (simp only: conteo_caidas) simp
  qed
qed

lemma patron_caidas_valor:
  assumes ne: "fs \<noteq> []"
    and vc: "value_counts (map (\<lambda>(f, n, d). d) (dias_con_caida_completo fs))
               = (dia, cantidad) # resto"
    and c: "cantidad = veces_bajo fs dia"
    and tot: "0 < veces_total fs dia"
  shows "patron_caidas fs =
     (if 50 \<le> consistencia_dia fs dia
      then Inr (Some \<lparr>p_dia = dia, p_cantidad = cantidad,
             p_total_dias_tipo = veces_total fs dia,
             p_consistencia = consistencia_dia fs dia,
             p_fechas = map (\<lambda>(f, n, d). f)
                          (filter (\<lambda>(f, n, d). d = Some dia) (dias_con_caida_completo fs)),
             p_promedio = doble (media (map (\<lambda>(f, n, d). n)
                          (filter (\<lambda>(f, n, d). d = Some dia) (dias_con_caida_completo fs)))),
             p_magnitud = magnitud_caida fs (doble (media (map (\<lambda>(f, n, d). n)
                          (filter (\<lambda>(f, n, d). d = Some dia)
                             (dias_con_caida_completo fs)))))\<rparr>)
      else Inr None)"
proof -
  have Lne: "dias_con_caida fs \<noteq> []"
  proof
    assume "dias_con_caida fs = []"
    then have "dias_con_caida_completo fs = []"
      by (simp add: dias_con_caida_completo_def merge_left_def)
    with vc show False by (simp add: value_counts_def unicos_def)
  qed
  have m: "doble (promedio_diario fs) \<noteq> 0"
    using promedio_temp_pos[OF ne] by (simp add: promedio_temp_eq)
  have t: "real (veces_total fs dia) \<noteq> 0" using tot by simp
  show ?thesis
    unfolding patron_caidas_def Let_def promedio_temp_eq consistencia_dia_def magnitud_caida_def
    using Lne
    by (simp add: vc c[symmetric] total_dias_tipo tot ligar_def por_cien_doble_def
        dividir_doble_def t m)
qed

lemma completo_fila:
  assumes "(f, n, d) \<in> set (dias_con_caida_completo fs)"
  shows "n = registros_del_dia fs f" and "bajo_umbral fs f"
proof -
  from assms have "(f, n) \<in> set (dias_con_caida fs)"
    unfolding completo_eq by (rule merge_left_filas)
  then show "n = registros_del_dia fs f" and "bajo_umbral fs f"
    unfolding caidas_props by simp_all
qed

lemma completo_pareja:
  assumes "(f, n, Some d) \<in> set (dias_con_caida_completo fs)"
  shows "(f, d) \<in> set (dias_del_rango fs)"
proof -
  from assms have "(f, d) \<in> set (sort (dias_del_rango fs))"
    unfolding completo_eq by (rule merge_left_pareja)
  then show ?thesis by simp
qed

lemma del_dia_no_vacio:
  assumes "value_counts (map (\<lambda>(f, n, d). d) (dias_con_caida_completo fs))
             = (dia, cantidad) # resto"
  shows "filter (\<lambda>(f, n, d). d = Some dia) (dias_con_caida_completo fs) \<noteq> []"
proof -
  let ?vs = "concat (map (\<lambda>(f, n). map snd (filter (\<lambda>(f', d). f' = f)
                        (sort (dias_del_rango fs)))) (dias_con_caida fs))"
  from assms have "value_counts (map Some ?vs) = (dia, cantidad) # resto"
    by (simp only: columna_caidas)
  then have "dia \<in> set ?vs" by (rule value_counts_cabeza(1))
  then have "Some dia \<in> set (map Some ?vs)" by simp
  then have "Some dia \<in> set (map (\<lambda>(f, n, d). d) (dias_con_caida_completo fs))"
    by (simp only: columna_caidas)
  then obtain x where x: "x \<in> set (dias_con_caida_completo fs)" "(\<lambda>(f, n, d). d) x = Some dia"
    by auto
  then have "x \<in> set (filter (\<lambda>(f, n, d). d = Some dia) (dias_con_caida_completo fs))"
    by (auto simp: case_prod_unfold)
  then show ?thesis by force
qed

lemma media_cota:
  assumes "xs \<noteq> []" and "\<And>x. x \<in> set xs \<Longrightarrow> x \<le> k"
  shows "media xs \<le> real k"
proof -
  have "\<forall>x \<in> set xs. x \<le> k" using assms(2) by simp
  then have "sum_list xs \<le> k * length xs"
    by (induction xs) (auto simp: add_mono)
  then have "real (sum_list xs) \<le> real k * real (length xs)"
    by (metis of_nat_le_iff of_nat_mult)
  moreover have "0 < real (length xs)" using assms(1) by simp
  ultimately show ?thesis by (simp add: media_def pos_divide_le_eq)
qed

lemma media_constante:
  assumes "xs \<noteq> []" and "\<And>x. x \<in> set xs \<Longrightarrow> x = s"
  shows "media xs = real s"
proof -
  have "xs = replicate (length xs) s"
    using assms(2) by (induction xs) auto
  moreover have "0 < length xs" using assms(1) by simp
  ultimately show ?thesis using media_replicate[of "length xs" s] by simp
qed

text \<open>The binary64 mean of whole counts below a binary64 bound is below the bound.\<close>

lemma media_doble_menor:
  assumes ne: "xs \<noteq> []" and lt: "\<And>x. x \<in> set xs \<Longrightarrow> real x < u"
    and k: "\<And>x. x \<in> set xs \<Longrightarrow> x < 2 ^ 53"
  shows "doble (media xs) < u"
proof -
  define k where "k = Max (set xs)"
  have kin: "k \<in> set xs" unfolding k_def using ne by (intro Max_in) simp_all
  have le: "\<And>x. x \<in> set xs \<Longrightarrow> x \<le> k" unfolding k_def by simp
  have "media xs \<le> real k" using ne le by (rule media_cota)
  moreover have "0 \<le> media xs" by (simp add: media_def)
  ultimately have "doble (media xs) \<le> doble (real k)" by (intro doble_mono)
  also have "\<dots> = real k" using k[OF kin] by (rule doble_natural)
  also have "\<dots> < u" using kin by (rule lt)
  finally show ?thesis .
qed

lemma registros_del_dia_cota: "registros_del_dia fs f \<le> length fs"
  by (simp add: registros_del_dia_def)

lemma veces_total_cota: "veces_total fs d \<le> length fs"
proof -
  have "veces_total fs d \<le> length (dias_del_rango fs)" by (simp add: veces_total_def)
  also have "\<dots> \<le> length (map (\<lambda>r. (fecha r, dia_semana r)) fs)"
    unfolding dias_del_rango_def by (rule length_remdups_leq)
  finally show ?thesis by simp
qed

lemma promedio_del_dia_menor:
  assumes vc: "value_counts (map (\<lambda>(f, n, d). d) (dias_con_caida_completo fs))
             = (dia, cantidad) # resto"
    and lt: "length fs < 2 ^ 53"
  shows "doble (media (map (\<lambda>(f, n, d). n)
           (filter (\<lambda>(f, n, d). d = Some dia) (dias_con_caida_completo fs))))
         < umbral_85 fs"
proof (rule media_doble_menor)
  show "map (\<lambda>(f, n, d). n)
          (filter (\<lambda>(f, n, d). d = Some dia) (dias_con_caida_completo fs)) \<noteq> []"
    using del_dia_no_vacio[OF vc] by simp
next
  fix x
  assume "x \<in> set (map (\<lambda>(f, n, d). n)
          (filter (\<lambda>(f, n, d). d = Some dia) (dias_con_caida_completo fs)))"
  then obtain f d where m: "(f, x, d) \<in> set (dias_con_caida_completo fs)" by auto
  from completo_fila[OF m] show "real x < umbral_85 fs"
    by (simp add: bajo_umbral_def)
  from completo_fila(1)[OF m] registros_del_dia_cota[of fs f] lt show "x < 2 ^ 53" by simp
qed

lemma promedio_del_dia_constante:
  assumes vc: "value_counts (map (\<lambda>(f, n, d). d) (dias_con_caida_completo fs))
             = (dia, cantidad) # resto"
    and lt: "length fs < 2 ^ 53"
    and s: "\<And>f. (f, dia) \<in> set (dias_del_rango fs) \<Longrightarrow> registros_del_dia fs f = s"
  shows "doble (media (map (\<lambda>(f, n, d). n)
           (filter (\<lambda>(f, n, d). d = Some dia) (dias_con_caida_completo fs)))) = real s"
proof -
  let ?xs = "map (\<lambda>(f, n, d). n)
          (filter (\<lambda>(f, n, d). d = Some dia) (dias_con_caida_completo fs))"
  have ne: "?xs \<noteq> []" using del_dia_no_vacio[OF vc] by simp
  have eq: "x = s" if "x \<in> set ?xs" for x
  proof -
    from that obtain f where m: "(f, x, Some dia) \<in> set (dias_con_caida_completo fs)" by auto
    from completo_fila(1)[OF m] completo_pareja[OF m] s show "x = s" by simp
  qed
  from ne obtain x where x: "x \<in> set ?xs" by (cases ?xs) auto
  then obtain f where m: "(f, x, Some dia) \<in> set (dias_con_caida_completo fs)" by auto
  from completo_fila(1)[OF m] registros_del_dia_cota[of fs f] lt eq[OF x]
  have "s < 2 ^ 53" by simp
  then have "doble (real s) = real s" by (rule doble_natural)
  moreover have "media ?xs = real s" using ne eq by (rule media_constante)
  ultimately show ?thesis by simp
qed

lemma todos_bajo_umbral:
  assumes pos: "0 < veces_bajo fs dia"
    and s: "\<And>f. (f, dia) \<in> set (dias_del_rango fs) \<Longrightarrow> registros_del_dia fs f = s"
  shows "veces_bajo fs dia = veces_total fs dia"
proof -
  from pos have "filter (\<lambda>(f, d'). d' = dia \<and> bajo_umbral fs f) (dias_del_rango fs) \<noteq> []"
    by (auto simp: veces_bajo_def)
  then obtain f0 d0 where
    "(f0, d0) \<in> set (filter (\<lambda>(f, d'). d' = dia \<and> bajo_umbral fs f) (dias_del_rango fs))"
    by (cases "filter (\<lambda>(f, d'). d' = dia \<and> bajo_umbral fs f) (dias_del_rango fs)") auto
  then have f0: "(f0, dia) \<in> set (dias_del_rango fs)" "bajo_umbral fs f0" by auto
  with s have low: "real s < umbral_85 fs" by (simp add: bajo_umbral_def)
  have "filter (\<lambda>(f, d'). d' = dia \<and> bajo_umbral fs f) (dias_del_rango fs)
          = filter (\<lambda>(f, d'). d' = dia) (dias_del_rango fs)"
    by (rule filter_cong) (use s low in \<open>auto simp: bajo_umbral_def\<close>)
  then show ?thesis by (simp only: veces_bajo_def veces_total_def)
qed

lemma consistencia_dia_iff:
  assumes tot: "0 < veces_total fs d" and lt: "length fs < 2 ^ 53"
  shows "50 \<le> consistencia_dia fs d \<longleftrightarrow> veces_total fs d \<le> 2 * veces_bajo fs d"
proof -
  have "veces_total fs d < 2 ^ 53" using veces_total_cota[of fs d] lt by simp
  from consistencia_iff[OF tot this] show ?thesis by (simp only: consistencia_dia_def)
qed

lemma consistencia_dia_100:
  assumes "0 < veces_total fs d" "veces_bajo fs d = veces_total fs d"
  shows "consistencia_dia fs d = 100"
  using assms by (simp add: consistencia_dia_def doble_valores)

lemma magnitud_caida_mitad:
  assumes s: "s < 2 ^ 53" and m: "promedio_diario fs = 2 * real s" and ne: "fs \<noteq> []"
  shows "magnitud_caida fs (real s) = 50"
proof -
  have pos: "0 < s" using promedio_diario_pos[OF ne] m by simp
  have "int s < 2 ^ 53" using s by (metis of_nat_less_iff of_nat_numeral of_nat_power)
  moreover have "0 < int s" using pos by simp
  ultimately have "doble (of_int (int s) * 2 powi 1) = of_int (int s) * 2 powi 1"
    by (rule doble_exacto[rotated])
  then have d2: "doble (2 * real s) = 2 * real s" by (simp add: mult.commute)
  have d1: "doble (real s) = real s" using s by (rule doble_natural)
  have a: "2 * real s - real s = real s" by simp
  have b: "real s / (2 * real s) = 1 / 2" using pos by simp
  show ?thesis
    unfolding magnitud_caida_def m d2 a d1 b by (simp add: doble_valores)
qed

lemma patron_caidas_casos:
  assumes ne: "fs \<noteq> []" and lt: "length fs < 2 ^ 53"
  obtains (ninguna) "\<forall>d. veces_bajo fs d = 0" and "patron_caidas fs = Inr None"
  | (cabeza) dia P where
      "0 < veces_bajo fs dia" and "\<And>d. veces_bajo fs d \<le> veces_bajo fs dia"
      and "0 < veces_total fs dia"
      and "p_dia P = dia" and "p_cantidad P = veces_bajo fs dia"
      and "p_total_dias_tipo P = veces_total fs dia"
      and "p_consistencia P = consistencia_dia fs dia"
      and "p_magnitud P = magnitud_caida fs (p_promedio P)"
      and "p_promedio P < umbral_85 fs"
      and "\<And>s. (\<And>f. (f, dia) \<in> set (dias_del_rango fs) \<Longrightarrow> registros_del_dia fs f = s)
             \<Longrightarrow> p_promedio P = real s"
      and "patron_caidas fs
             = (if veces_total fs dia \<le> 2 * veces_bajo fs dia then Inr (Some P) else Inr None)"
proof (cases "\<forall>d. veces_bajo fs d = 0")
  case True
  then have "dias_con_caida fs = []" using sin_caidas_iff[of fs] by blast
  then have "patron_caidas fs = Inr None" by (rule patron_caidas_sin_caidas)
  with True show ?thesis by (rule ninguna)
next
  case False
  obtain dia cantidad resto where
    vc: "value_counts (map (\<lambda>(f, n, d). d) (dias_con_caida_completo fs)) = (dia, cantidad) # resto"
    and c: "cantidad = veces_bajo fs dia" and pos: "0 < cantidad"
    and le': "\<forall>d. veces_bajo fs d \<le> cantidad"
    using patron_caidas_cabeza[OF False] by blast
  from le' have le: "\<And>d. veces_bajo fs d \<le> cantidad" by simp
  from c pos veces_bajo_le_total[of fs dia] have tot: "0 < veces_total fs dia" by simp
  define P where "P = \<lparr>p_dia = dia, p_cantidad = cantidad,
             p_total_dias_tipo = veces_total fs dia,
             p_consistencia = consistencia_dia fs dia,
             p_fechas = map (\<lambda>(f, n, d). f)
                          (filter (\<lambda>(f, n, d). d = Some dia) (dias_con_caida_completo fs)),
             p_promedio = doble (media (map (\<lambda>(f, n, d). n)
                          (filter (\<lambda>(f, n, d). d = Some dia) (dias_con_caida_completo fs)))),
             p_magnitud = magnitud_caida fs (doble (media (map (\<lambda>(f, n, d). n)
                          (filter (\<lambda>(f, n, d). d = Some dia)
                             (dias_con_caida_completo fs)))))\<rparr>"
  have "patron_caidas fs = (if 50 \<le> consistencia_dia fs dia then Inr (Some P) else Inr None)"
    using patron_caidas_valor[OF ne vc c tot] by (simp only: P_def)
  then have v: "patron_caidas fs
             = (if veces_total fs dia \<le> 2 * veces_bajo fs dia then Inr (Some P) else Inr None)"
    by (simp only: consistencia_dia_iff[OF tot lt])
  show ?thesis
  proof (rule cabeza[of dia P])
    show "0 < veces_bajo fs dia" using c pos by simp
    show "veces_bajo fs d \<le> veces_bajo fs dia" for d using le[of d] c by simp
    show "0 < veces_total fs dia" by (rule tot)
    show "p_dia P = dia" by (simp add: P_def)
    show "p_cantidad P = veces_bajo fs dia" by (simp add: P_def c)
    show "p_total_dias_tipo P = veces_total fs dia" by (simp add: P_def)
    show "p_consistencia P = consistencia_dia fs dia" by (simp add: P_def)
    show "p_magnitud P = magnitud_caida fs (p_promedio P)" by (simp add: P_def)
    show "p_promedio P < umbral_85 fs"
      using promedio_del_dia_menor[OF vc lt] by (simp add: P_def)
    show "p_promedio P = real s"
      if "\<And>f. (f, dia) \<in> set (dias_del_rango fs) \<Longrightarrow> registros_del_dia fs f = s" for s
      using promedio_del_dia_constante[OF vc lt that] by (simp add: P_def)
    show "patron_caidas fs
             = (if veces_total fs dia \<le> 2 * veces_bajo fs dia then Inr (Some P) else Inr None)"
      by (rule v)
  qed
qed

lemma patron_caidas_total: "fs \<noteq> [] \<Longrightarrow> length fs < 2 ^ 53 \<Longrightarrow> \<exists>r. patron_caidas fs = Inr r"
  by (erule patron_caidas_casos) auto

lemma patron_caidas_informado:
  assumes ne: "fs \<noteq> []" and lt: "length fs < 2 ^ 53" and p: "patron_caidas fs = Inr (Some p)"
  shows "0 < veces_bajo fs (p_dia p) \<and> (\<forall>d. veces_bajo fs d \<le> veces_bajo fs (p_dia p))
     \<and> p_cantidad p = veces_bajo fs (p_dia p)
     \<and> p_total_dias_tipo p = veces_total fs (p_dia p)
     \<and> p_consistencia p = consistencia_dia fs (p_dia p)
     \<and> veces_total fs (p_dia p) \<le> 2 * veces_bajo fs (p_dia p)
     \<and> p_promedio p < umbral_85 fs
     \<and> p_magnitud p = magnitud_caida fs (p_promedio p)"
  using ne lt
proof (cases rule: patron_caidas_casos)
  case ninguna
  with p show ?thesis by simp
next
  case (cabeza dia P)
  from cabeza(11) p have c50: "veces_total fs dia \<le> 2 * veces_bajo fs dia" and pP: "p = P"
    by (auto split: if_splits)
  with cabeza show ?thesis unfolding pP by simp
qed

lemma patron_caidas_callado:
  assumes ne: "fs \<noteq> []" and lt: "length fs < 2 ^ 53" and p: "patron_caidas fs = Inr None"
  shows "(\<forall>d. veces_bajo fs d = 0)
     \<or> (\<exists>d. 0 < veces_bajo fs d \<and> (\<forall>d'. veces_bajo fs d' \<le> veces_bajo fs d)
            \<and> 2 * veces_bajo fs d < veces_total fs d)"
  using ne lt
proof (cases rule: patron_caidas_casos)
  case ninguna
  then show ?thesis by simp
next
  case (cabeza dia P)
  from cabeza(11) p have "\<not> veces_total fs dia \<le> 2 * veces_bajo fs dia"
    by (auto split: if_splits)
  then have "2 * veces_bajo fs dia < veces_total fs dia" by simp
  with cabeza(1,2) show ?thesis by blast
qed

lemma patron_caidas_unico:
  assumes ne: "fs \<noteq> []" and lt: "length fs < 2 ^ 53"
    and u: "\<And>d'. d' \<noteq> d \<Longrightarrow> veces_bajo fs d' < veces_bajo fs d"
  shows "(\<exists>p. patron_caidas fs = Inr (Some p) \<and> p_dia p = d)
           \<longleftrightarrow> veces_total fs d \<le> 2 * veces_bajo fs d"
  using ne lt
proof (cases rule: patron_caidas_casos)
  case ninguna
  have "d @ ''x'' \<noteq> d" by simp
  from u[OF this] ninguna(1) show ?thesis by simp
next
  case (cabeza dia P)
  have "dia = d"
  proof (rule ccontr)
    assume "dia \<noteq> d"
    from u[OF this] cabeza(2)[of d] show False by simp
  qed
  with cabeza show ?thesis by auto
qed

lemma patron_caidas_dia_unico:
  assumes ne: "fs \<noteq> []" and lt: "length fs < 2 ^ 53"
    and u: "\<And>d'. d' \<noteq> d \<Longrightarrow> veces_bajo fs d' < veces_bajo fs d"
    and s: "\<And>f. (f, d) \<in> set (dias_del_rango fs) \<Longrightarrow> registros_del_dia fs f = s"
  shows "\<exists>p. patron_caidas fs = Inr (Some p) \<and> p_dia p = d \<and> p_consistencia p = 100
           \<and> p_promedio p = real s
           \<and> p_magnitud p = magnitud_caida fs (real s)
           \<and> (2 * real s = promedio_diario fs \<longrightarrow> p_magnitud p = 50)"
  using ne lt
proof (cases rule: patron_caidas_casos)
  case ninguna
  have "d @ ''x'' \<noteq> d" by simp
  from u[OF this] ninguna(1) show ?thesis by simp
next
  case (cabeza dia P)
  have dia: "dia = d"
  proof (rule ccontr)
    assume "dia \<noteq> d"
    from u[OF this] cabeza(2)[of d] show False by simp
  qed
  have eq: "veces_bajo fs d = veces_total fs d"
    using cabeza(1) s unfolding dia by (rule todos_bajo_umbral)
  have c100: "p_consistencia P = 100"
    unfolding cabeza(7) dia using cabeza(3) eq unfolding dia by (rule consistencia_dia_100)
  have v: "patron_caidas fs = Inr (Some P)" using cabeza(11) eq unfolding dia by simp
  have pm: "p_promedio P = real s" using s unfolding dia[symmetric] by (rule cabeza(10))
  have mg: "p_magnitud P = magnitud_caida fs (real s)" unfolding cabeza(8) pm ..
  have "p_magnitud P = 50" if h: "2 * real s = promedio_diario fs"
  proof -
    have "real s < umbral_85 fs" using cabeza(9) unfolding pm .
    obtain f where f: "(f, d) \<in> set (dias_del_rango fs)"
    proof -
      from cabeza(3) have "filter (\<lambda>(f, d'). d' = d) (dias_del_rango fs) \<noteq> []"
        unfolding dia by (auto simp: veces_total_def)
      then have hm: "hd (filter (\<lambda>(f, d'). d' = d) (dias_del_rango fs))
                   \<in> set (filter (\<lambda>(f, d'). d' = d) (dias_del_rango fs))"
        by (rule hd_in_set)
      obtain g d' where fd: "hd (filter (\<lambda>(f, d'). d' = d) (dias_del_rango fs)) = (g, d')"
        by (cases "hd (filter (\<lambda>(f, d'). d' = d) (dias_del_rango fs))")
      from hm[unfolded fd] have "(g, d) \<in> set (dias_del_rango fs)" by auto
      then show ?thesis by (rule that)
    qed
    from s[OF f] registros_del_dia_cota[of fs f] lt have "s < 2 ^ 53" by simp
    then show ?thesis unfolding mg using h[symmetric] ne by (rule magnitud_caida_mitad)
  qed
  with v cabeza(4) dia c100 pm mg show ?thesis by auto
qed

subsection \<open>The example views of the drop pattern\<close>

lemmas doble_calculo =
  doble_def doble_pos_def exponente_def bits.simps redondeo_par_def power_int_minus_divide

lemma registros_lunes:
  "registros_dia ejemplo_lunes
     = [(1, 1), (2, 7), (7, 1), (8, 1), (14, 1), (15, 1), (21, 1), (22, 1), (28, 1), (29, 1)]"
  "registros_dia ejemplo_lunes_b
     = [(1, 1), (2, 11), (7, 1), (8, 1), (14, 1), (15, 1), (21, 1), (22, 1), (28, 1), (29, 1)]"
  by (simp_all add: registros_dia_def groupby_size_def ejemplo_lunes_def ejemplo_lunes_b_def)

lemma completo_lunes:
  "map fst (registros_dia_completo ejemplo_lunes)
     = [(1, ''Monday''), (2, ''Tuesday''), (7, ''Sunday''), (8, ''Monday''), (14, ''Sunday''),
        (15, ''Monday''), (21, ''Sunday''), (22, ''Monday''), (28, ''Sunday''), (29, ''Monday'')]"
  "map fst (registros_dia_completo ejemplo_lunes_b)
     = [(1, ''Monday''), (2, ''Tuesday''), (7, ''Sunday''), (8, ''Monday''), (14, ''Sunday''),
        (15, ''Monday''), (21, ''Sunday''), (22, ''Monday''), (28, ''Sunday''), (29, ''Monday'')]"
  by (simp_all add: registros_dia_completo_def groupby_size_def ejemplo_lunes_def
      ejemplo_lunes_b_def)

lemma promedio_temp_lunes:
  "promedio_temp ejemplo_lunes = 3602879701896397 / 2251799813685248"
  "promedio_temp ejemplo_lunes_b = 2"
  unfolding promedio_temp_def registros_lunes by (simp_all add: media_def doble_calculo)

lemma umbral_caida_lunes:
  "umbral_caida ejemplo_lunes = 6124895493223875 / 4503599627370496"
  "umbral_caida ejemplo_lunes_b = 7656119366529843 / 4503599627370496"
  unfolding umbral_caida_def promedio_temp_lunes doble_085 by (simp_all add: doble_calculo)

lemma dias_con_caida_lunes:
  "dias_con_caida ejemplo_lunes
     = [(1, 1), (7, 1), (8, 1), (14, 1), (15, 1), (21, 1), (22, 1), (28, 1), (29, 1)]"
  "dias_con_caida ejemplo_lunes_b
     = [(1, 1), (7, 1), (8, 1), (14, 1), (15, 1), (21, 1), (22, 1), (28, 1), (29, 1)]"
  unfolding dias_con_caida_def umbral_caida_lunes registros_lunes by simp_all

lemma dias_con_caida_completo_lunes:
  "dias_con_caida_completo ejemplo_lunes
     = [(1, 1, Some ''Monday''), (7, 1, Some ''Sunday''), (8, 1, Some ''Monday''),
        (14, 1, Some ''Sunday''), (15, 1, Some ''Monday''), (21, 1, Some ''Sunday''),
        (22, 1, Some ''Monday''), (28, 1, Some ''Sunday''), (29, 1, Some ''Monday'')]"
  "dias_con_caida_completo ejemplo_lunes_b
     = [(1, 1, Some ''Monday''), (7, 1, Some ''Sunday''), (8, 1, Some ''Monday''),
        (14, 1, Some ''Sunday''), (15, 1, Some ''Monday''), (21, 1, Some ''Sunday''),
        (22, 1, Some ''Monday''), (28, 1, Some ''Sunday''), (29, 1, Some ''Monday'')]"
  unfolding dias_con_caida_completo_def dias_con_caida_lunes completo_lunes
  by (simp_all add: merge_left_def)

lemma total_lunes:
  "length (filter (\<lambda>((f, d), n). d = ''Monday'') (registros_dia_completo ejemplo_lunes)) = 5"
  "length (filter (\<lambda>((f, d), n). d = ''Monday'') (registros_dia_completo ejemplo_lunes_b)) = 5"
  by (simp_all add: registros_dia_completo_def groupby_size_def ejemplo_lunes_def
      ejemplo_lunes_b_def)

lemma total_lunes_ne:
  "filter (\<lambda>((f, d), n). d = ''Monday'') (registros_dia_completo ejemplo_lunes) \<noteq> []"
  "filter (\<lambda>((f, d), n). d = ''Monday'') (registros_dia_completo ejemplo_lunes_b) \<noteq> []"
  using total_lunes by auto

lemma patron_caidas_lunes:
  "patron_caidas ejemplo_lunes =
     Inr (Some \<lparr>p_dia = ''Monday'', p_cantidad = 5, p_total_dias_tipo = 5, p_consistencia = 100,
            p_fechas = [1, 8, 15, 22, 29], p_promedio = 1,
            p_magnitud = 5277655813324801 / 140737488355328\<rparr>)"
  unfolding patron_caidas_def dias_con_caida_completo_lunes dias_con_caida_lunes
    promedio_temp_lunes
  by (simp add: value_counts_def unicos_def total_lunes total_lunes_ne media_def Let_def ligar_def
      dividir_doble_def por_cien_doble_def doble_calculo)

lemma patron_caidas_lunes_b:
  "patron_caidas ejemplo_lunes_b =
     Inr (Some \<lparr>p_dia = ''Monday'', p_cantidad = 5, p_total_dias_tipo = 5, p_consistencia = 100,
            p_fechas = [1, 8, 15, 22, 29], p_promedio = 1, p_magnitud = 50\<rparr>)"
  unfolding patron_caidas_def dias_con_caida_completo_lunes dias_con_caida_lunes
    promedio_temp_lunes
  by (simp add: value_counts_def unicos_def total_lunes total_lunes_ne media_def Let_def ligar_def
      dividir_doble_def por_cien_doble_def doble_calculo)

lemma domingos_lunes:
  "map snd (filter (\<lambda>((f, d), n). d = ''Sunday'') (registros_dia_completo ejemplo_lunes))
     = [1, 1, 1, 1]"
  "media (map snd (filter (\<lambda>((f, d), n). d \<noteq> ''Sunday'') (registros_dia_completo ejemplo_lunes)))
     = 2"
  by (simp_all add: registros_dia_completo_def groupby_size_def ejemplo_lunes_def media_def)

lemma domingos_lunes_b:
  "map snd (filter (\<lambda>((f, d), n). d = ''Sunday'') (registros_dia_completo ejemplo_lunes_b))
     = [1, 1, 1, 1]"
  "media (map snd (registros_dia ejemplo_lunes_b)) = 2"
  by (simp_all add: registros_dia_completo_def registros_dia_def groupby_size_def
      ejemplo_lunes_b_def media_def)

lemma vista_de_pares:
  "map (\<lambda>r. (fecha r, dia_semana r)) (map (\<lambda>(f, d). registro_de f p d st) xs) = xs"
  "map fecha (map (\<lambda>(f, d). registro_de f p d st) xs) = map fst xs"
  by (induction xs) auto

lemma dias_del_rango_pares:
  "dias_del_rango (map (\<lambda>(f, d). registro_de f p d st) xs) = remdups xs"
  by (simp only: dias_del_rango_def vista_de_pares)

lemma registros_del_dia_pares:
  "registros_del_dia (map (\<lambda>(f, d). registro_de f p d st) xs) f = count_list (map fst xs) f"
proof -
  have "registros_del_dia (map (\<lambda>(f, d). registro_de f p d st) xs) f
          = count_list (map fecha (map (\<lambda>(f, d). registro_de f p d st) xs)) f"
    by (simp only: registros_del_dia_def count_list_map_filter)
  then show ?thesis by (simp only: vista_de_pares)
qed

lemma promedio_diario_pares:
  "promedio_diario (map (\<lambda>(f, d). registro_de f p d st) xs)
     = real (length xs) / real (length (remdups (map fst xs)))"
  by (simp only: promedio_diario_def vista_de_pares length_map)

lemma dias_del_rango_domingos:
  "dias_del_rango ejemplo_domingos =
     [(1, ''Monday''), (2, ''Tuesday''), (3, ''Wednesday''), (4, ''Thursday''),
      (5, ''Friday''), (6, ''Saturday''), (7, ''Sunday''), (8, ''Monday''),
      (9, ''Tuesday''), (10, ''Wednesday''), (11, ''Thursday''), (12, ''Friday''),
      (13, ''Saturday''), (14, ''Sunday''), (15, ''Monday''), (16, ''Tuesday''),
      (17, ''Wednesday''), (18, ''Thursday''), (19, ''Friday''), (20, ''Saturday''),
      (21, ''Sunday''), (22, ''Monday''), (23, ''Tuesday''), (24, ''Wednesday''),
      (25, ''Thursday''), (26, ''Friday''), (27, ''Saturday''), (28, ''Sunday'')]"
  unfolding ejemplo_domingos_def dias_del_rango_pares by simp

lemma promedio_diario_domingos: "promedio_diario ejemplo_domingos = 13 / 7"
  unfolding ejemplo_domingos_def promedio_diario_pares by simp

lemma umbral_85_domingos: "umbral_85 ejemplo_domingos = 7109253697491997 / 4503599627370496"
  unfolding umbral_85_def promedio_diario_domingos by (simp add: doble_calculo)

lemma magnitud_domingos:
  "magnitud_caida ejemplo_domingos 1 = 6495576385630523 / 140737488355328"
  unfolding magnitud_caida_def promedio_diario_domingos by (simp add: doble_calculo)

lemma bajo_umbral_domingos:
  "filter (\<lambda>(f, d). bajo_umbral ejemplo_domingos f) (dias_del_rango ejemplo_domingos)
     = [(7, ''Sunday''), (14, ''Sunday''), (21, ''Sunday''), (28, ''Sunday'')]"
  unfolding dias_del_rango_domingos bajo_umbral_def umbral_85_domingos
  unfolding ejemplo_domingos_def registros_del_dia_pares
  by simp

lemma veces_bajo_filtrado:
  "veces_bajo fs d
     = length (filter (\<lambda>(f, d'). d' = d) (filter (\<lambda>(f, d). bajo_umbral fs f) (dias_del_rango fs)))"
  by (simp add: veces_bajo_def case_prod_unfold conj_commute)

lemma veces_bajo_domingos:
  "veces_bajo ejemplo_domingos ''Sunday'' = 4"
  "d \<noteq> ''Sunday'' \<Longrightarrow> veces_bajo ejemplo_domingos d = 0"
  unfolding veces_bajo_filtrado bajo_umbral_domingos by auto

lemma registros_domingos:
  assumes "(f, ''Sunday'') \<in> set (dias_del_rango ejemplo_domingos)"
  shows "registros_del_dia ejemplo_domingos f = 1"
proof -
  from assms have "f \<in> {7, 14, 21, 28}"
    unfolding dias_del_rango_domingos by auto
  then show ?thesis
    unfolding ejemplo_domingos_def registros_del_dia_pares by auto
qed

text \<open>A count that is the exact product.  With 1260 records on 17 days the daily mean is
  1260 / 17, and 0.85 times it is 63; the threshold that the script computes is the binary64
  value next above 63, so that a day of 63 records is taken as a day below the threshold.\<close>

lemma umbral_sobre_el_producto:
  "doble (doble (1260 / 17) * doble 0.85) = 63 + 1 / 2 ^ 47"
  "(0.85 :: real) * (1260 / 17) = 63"
  by (simp_all add: doble_calculo)

text \<open>The threshold of the peaks can differ in the other direction.  With 40 records on 23
  days, 1.15 times the daily mean is 2, and the threshold computed is the binary64 value
  next below 2, so that a day of 2 records is taken as a day above the threshold.\<close>

lemma umbral_bajo_el_producto:
  "doble (doble (40 / 23) * doble 1.15) = 2 - 1 / 2 ^ 52"
  "(1.15 :: real) * (40 / 23) = 2"
  by (simp_all add: doble_calculo)

lemma remdups_replicate_append:
  "remdups (replicate n x @ ys)
     = (if n = 0 \<or> x \<in> set ys then remdups ys else x # remdups ys)"
  by (induction n) auto

lemma pares_de_conteos:
  "map (\<lambda>r. (fecha r, dia_semana r)) (vista_de_conteos xs)
     = concat (map (\<lambda>x. replicate (snd (snd x)) (fst x, fst (snd x))) xs)"
  unfolding vista_de_conteos_def
  by (induction xs) (auto simp: registro_de_def)

lemma fechas_de_conteos:
  "map fecha (vista_de_conteos xs) = concat (map (\<lambda>x. replicate (snd (snd x)) (fst x)) xs)"
  unfolding vista_de_conteos_def
  by (induction xs) (auto simp: registro_de_def)

lemma length_de_conteos:
  "length (vista_de_conteos xs) = sum_list (map (\<lambda>x. snd (snd x)) xs)"
  unfolding vista_de_conteos_def
  by (induction xs) auto

lemma set_bloques: "set (concat (map (\<lambda>x. replicate (c x) (g x)) xs)) \<subseteq> g ` set xs"
  by (induction xs) auto

lemma remdups_bloques:
  "distinct (map g xs) \<Longrightarrow> \<forall>x \<in> set xs. 0 < c x \<Longrightarrow>
     remdups (concat (map (\<lambda>x. replicate (c x) (g x)) xs)) = map g xs"
proof (induction xs)
  case Nil
  then show ?case by simp
next
  case (Cons a xs)
  from Cons.prems have n: "0 < c a" and nin: "g a \<notin> g ` set xs"
    and dis: "distinct (map g xs)" and pos: "\<forall>x \<in> set xs. 0 < c x"
    by auto
  from nin set_bloques[of c g xs]
  have "g a \<notin> set (concat (map (\<lambda>x. replicate (c x) (g x)) xs))" by blast
  with n Cons.IH[OF dis pos] show ?case
    by (simp add: remdups_replicate_append)
qed

lemma count_list_replicate: "count_list (replicate n x) y = (if x = y then n else 0)"
  by (induction n) auto

lemma count_bloques:
  "count_list (concat (map (\<lambda>x. replicate (c x) (g x)) xs)) k
     = sum_list (map (\<lambda>x. if g x = k then c x else 0) xs)"
  by (induction xs) (auto simp: count_list_replicate)

lemma dias_del_rango_borde:
  "dias_del_rango ejemplo_borde =
     [(1, ''Monday''), (2, ''Tuesday''), (3, ''Wednesday''), (4, ''Thursday''),
      (5, ''Friday''), (6, ''Saturday''), (7, ''Sunday''), (8, ''Monday''),
      (9, ''Tuesday''), (10, ''Wednesday''), (11, ''Thursday''), (12, ''Friday''),
      (13, ''Saturday''), (14, ''Sunday''), (15, ''Monday''), (16, ''Tuesday''),
      (17, ''Wednesday'')]"
  unfolding dias_del_rango_def ejemplo_borde_def pares_de_conteos
  by (subst remdups_bloques) simp_all

lemma registros_del_dia_borde:
  "registros_del_dia ejemplo_borde f
     = sum_list (map (\<lambda>x. if fst x = f then snd (snd x) else 0)
         [(1, ''Monday'', 76), (2, ''Tuesday'', 76), (3, ''Wednesday'', 76), (4, ''Thursday'', 76),
          (5, ''Friday'', 76), (6, ''Saturday'', 76), (7, ''Sunday'', 63), (8, ''Monday'', 76),
          (9, ''Tuesday'', 76), (10, ''Wednesday'', 76), (11, ''Thursday'', 75),
          (12, ''Friday'', 75), (13, ''Saturday'', 75), (14, ''Sunday'', 63), (15, ''Monday'', 75),
          (16, ''Tuesday'', 75), (17, ''Wednesday'', 75)])"
proof -
  have "registros_del_dia ejemplo_borde f = count_list (map fecha ejemplo_borde) f"
    by (simp only: registros_del_dia_def count_list_map_filter)
  then show ?thesis
    unfolding ejemplo_borde_def fechas_de_conteos count_bloques .
qed

lemma length_borde: "length ejemplo_borde = 1260"
  unfolding ejemplo_borde_def length_de_conteos by simp

lemma promedio_diario_borde: "promedio_diario ejemplo_borde = 1260 / 17"
proof -
  have "length (remdups (map fecha ejemplo_borde)) = 17"
    unfolding ejemplo_borde_def fechas_de_conteos
    by (subst remdups_bloques) simp_all
  then show ?thesis
    by (simp add: promedio_diario_def length_borde)
qed

lemma umbral_85_borde: "umbral_85 ejemplo_borde = 63 + 1 / 2 ^ 47"
  unfolding umbral_85_def promedio_diario_borde by (rule umbral_sobre_el_producto(1))

lemma bajo_umbral_borde:
  "filter (\<lambda>(f, d). bajo_umbral ejemplo_borde f) (dias_del_rango ejemplo_borde)
     = [(7, ''Sunday''), (14, ''Sunday'')]"
  unfolding dias_del_rango_borde bajo_umbral_def umbral_85_borde registros_del_dia_borde
  by simp

lemma veces_bajo_borde:
  "veces_bajo ejemplo_borde ''Sunday'' = 2"
  "d \<noteq> ''Sunday'' \<Longrightarrow> veces_bajo ejemplo_borde d = 0"
  unfolding veces_bajo_filtrado bajo_umbral_borde by auto

lemma registros_domingos_borde:
  assumes "(f, ''Sunday'') \<in> set (dias_del_rango ejemplo_borde)"
  shows "registros_del_dia ejemplo_borde f = 63"
proof -
  from assms have "f \<in> {7, 14}"
    unfolding dias_del_rango_borde by auto
  then show ?thesis
    unfolding registros_del_dia_borde by auto
qed

lemma magnitud_borde:
  "magnitud_caida ejemplo_borde 63 = 2111062325329921 / 140737488355328"
  unfolding magnitud_caida_def promedio_diario_borde by (simp add: doble_calculo)

section \<open>The drop pattern: the claim\<close>

text \<open>
  Claim C1, as the script has it.  For every view with at least one record (and fewer
  than \<open>2 ^ 53\<close>) and a day-of-week column, the drop-pattern detector ends without a fault.

  Its threshold is 0.85 times the overall daily mean computed in binary64, which differs
  from the exact product by at most the mean over \<open>2 ^ 51\<close>; the days it takes are those
  whose count is strictly below the threshold.  In a view of fewer than \<open>2 ^ 51 / 20\<close>
  records these are the days whose count is strictly below 0.85 times the mean, together
  with the days whose count is 0.85 times the mean exactly when the computed threshold lies
  above that product.

  A reported pattern names a day of week that is most frequent among those days (no day of
  week has more days below the threshold), with its number of days below the threshold, its
  number of days in range, their ratio times 100 as the consistency, which is at least 50
  (the days below the threshold are at least half of the days in range), the mean of the
  counts of its days below the threshold, which is below the threshold, and the magnitude,
  the percent by which that mean is below the overall daily mean.  When nothing is reported,
  either no day is below the threshold or a most frequent day of week has fewer than half of
  its days below it.  So for a day of week that is strictly the most frequent one among
  the days below the threshold, a pattern is reported for it if and only if its consistency
  is at least 50 percent.

  In particular, when Sunday is strictly the most frequent day of week among the days below
  the threshold and every Sunday in range has the same count s, a Sunday drop pattern is
  reported with consistency 100, mean s and magnitude (mean - s) / mean * 100 in binary64,
  where mean is the overall daily mean; the magnitude is 50 when s is half the overall
  daily mean.
\<close>

theorem drop_pattern:
  "fs \<noteq> [] \<Longrightarrow> length fs < 2 ^ 53 \<Longrightarrow>
     (umbral_caida fs = umbral_85 fs
      \<and> \<bar>umbral_85 fs - 0.85 * promedio_diario fs\<bar> \<le> promedio_diario fs / 2 ^ 51
      \<and> (20 * length fs < 2 ^ 51 \<longrightarrow>
            (\<forall>f. bajo_umbral fs f \<longleftrightarrow>
                   real (registros_del_dia fs f) < 0.85 * promedio_diario fs
                   \<or> (real (registros_del_dia fs f) = 0.85 * promedio_diario fs
                      \<and> 0.85 * promedio_diario fs < umbral_85 fs)))
      \<and> (\<forall>f n. (f, n) \<in> set (dias_con_caida fs)
                 \<longleftrightarrow> f \<in> fecha ` set fs \<and> n = registros_del_dia fs f \<and> bajo_umbral fs f))
     \<and> (\<exists>r. patron_caidas fs = Inr r)
     \<and> (\<forall>p. patron_caidas fs = Inr (Some p) \<longrightarrow>
           0 < veces_bajo fs (p_dia p) \<and> (\<forall>d. veces_bajo fs d \<le> veces_bajo fs (p_dia p))
           \<and> p_cantidad p = veces_bajo fs (p_dia p)
           \<and> p_total_dias_tipo p = veces_total fs (p_dia p)
           \<and> p_consistencia p = consistencia_dia fs (p_dia p)
           \<and> veces_total fs (p_dia p) \<le> 2 * veces_bajo fs (p_dia p)
           \<and> p_promedio p < umbral_85 fs
           \<and> p_magnitud p = magnitud_caida fs (p_promedio p))
     \<and> (patron_caidas fs = Inr None \<longrightarrow>
           (\<forall>d. veces_bajo fs d = 0)
           \<or> (\<exists>d. 0 < veces_bajo fs d \<and> (\<forall>d'. veces_bajo fs d' \<le> veces_bajo fs d)
                  \<and> 2 * veces_bajo fs d < veces_total fs d))
     \<and> (\<forall>d. (\<forall>d'. d' \<noteq> d \<longrightarrow> veces_bajo fs d' < veces_bajo fs d) \<longrightarrow>
           ((\<exists>p. patron_caidas fs = Inr (Some p) \<and> p_dia p = d)
              \<longleftrightarrow> 50 \<le> consistencia_dia fs d)
           \<and> (50 \<le> consistencia_dia fs d \<longleftrightarrow> veces_total fs d \<le> 2 * veces_bajo fs d))
     \<and> (\<forall>s. (\<forall>d'. d' \<noteq> ''Sunday'' \<longrightarrow> veces_bajo fs d' < veces_bajo fs ''Sunday'')
              \<and> (\<forall>f. (f, ''Sunday'') \<in> set (dias_del_rango fs) \<longrightarrow> registros_del_dia fs f = s)
           \<longrightarrow> (\<exists>p. patron_caidas fs = Inr (Some p) \<and> p_dia p = ''Sunday''
                  \<and> p_consistencia p = 100
                  \<and> p_promedio p = real s
                  \<and> p_magnitud p = magnitud_caida fs (real s)
                  \<and> (2 * real s = promedio_diario fs \<longrightarrow> p_magnitud p = 50)))"
proof -
  assume ne: "fs \<noteq> []" and lt: "length fs < 2 ^ 53"
  have f0: "umbral_caida fs = umbral_85 fs
      \<and> \<bar>umbral_85 fs - 0.85 * promedio_diario fs\<bar> \<le> promedio_diario fs / 2 ^ 51
      \<and> (20 * length fs < 2 ^ 51 \<longrightarrow>
            (\<forall>f. bajo_umbral fs f \<longleftrightarrow>
                   real (registros_del_dia fs f) < 0.85 * promedio_diario fs
                   \<or> (real (registros_del_dia fs f) = 0.85 * promedio_diario fs
                      \<and> 0.85 * promedio_diario fs < umbral_85 fs)))
      \<and> (\<forall>f n. (f, n) \<in> set (dias_con_caida fs)
                 \<longleftrightarrow> f \<in> fecha ` set fs \<and> n = registros_del_dia fs f \<and> bajo_umbral fs f)"
  proof (rule conjI, rule umbral_caida_eq, rule conjI, rule umbral_85_error[OF ne], rule conjI)
    show "20 * length fs < 2 ^ 51 \<longrightarrow>
            (\<forall>f. bajo_umbral fs f \<longleftrightarrow>
                   real (registros_del_dia fs f) < 0.85 * promedio_diario fs
                   \<or> (real (registros_del_dia fs f) = 0.85 * promedio_diario fs
                      \<and> 0.85 * promedio_diario fs < umbral_85 fs))"
    proof (rule impI, rule allI)
      fix f
      assume "20 * length fs < 2 ^ 51"
      with ne show "bajo_umbral fs f \<longleftrightarrow>
                   real (registros_del_dia fs f) < 0.85 * promedio_diario fs
                   \<or> (real (registros_del_dia fs f) = 0.85 * promedio_diario fs
                      \<and> 0.85 * promedio_diario fs < umbral_85 fs)"
        by (rule bajo_umbral_exacto)
    qed
    show "\<forall>f n. (f, n) \<in> set (dias_con_caida fs)
                 \<longleftrightarrow> f \<in> fecha ` set fs \<and> n = registros_del_dia fs f \<and> bajo_umbral fs f"
      by (intro allI) (rule caidas_props)
  qed
  have f1: "\<exists>r. patron_caidas fs = Inr r" using ne lt by (rule patron_caidas_total)
  have f2: "\<forall>p. patron_caidas fs = Inr (Some p) \<longrightarrow>
           0 < veces_bajo fs (p_dia p) \<and> (\<forall>d. veces_bajo fs d \<le> veces_bajo fs (p_dia p))
           \<and> p_cantidad p = veces_bajo fs (p_dia p)
           \<and> p_total_dias_tipo p = veces_total fs (p_dia p)
           \<and> p_consistencia p = consistencia_dia fs (p_dia p)
           \<and> veces_total fs (p_dia p) \<le> 2 * veces_bajo fs (p_dia p)
           \<and> p_promedio p < umbral_85 fs
           \<and> p_magnitud p = magnitud_caida fs (p_promedio p)"
  proof (rule allI, rule impI)
    fix p
    assume "patron_caidas fs = Inr (Some p)"
    with ne lt show "0 < veces_bajo fs (p_dia p) \<and> (\<forall>d. veces_bajo fs d \<le> veces_bajo fs (p_dia p))
           \<and> p_cantidad p = veces_bajo fs (p_dia p)
           \<and> p_total_dias_tipo p = veces_total fs (p_dia p)
           \<and> p_consistencia p = consistencia_dia fs (p_dia p)
           \<and> veces_total fs (p_dia p) \<le> 2 * veces_bajo fs (p_dia p)
           \<and> p_promedio p < umbral_85 fs
           \<and> p_magnitud p = magnitud_caida fs (p_promedio p)"
      by (rule patron_caidas_informado)
  qed
  have f3: "patron_caidas fs = Inr None \<longrightarrow>
           (\<forall>d. veces_bajo fs d = 0)
           \<or> (\<exists>d. 0 < veces_bajo fs d \<and> (\<forall>d'. veces_bajo fs d' \<le> veces_bajo fs d)
                  \<and> 2 * veces_bajo fs d < veces_total fs d)"
  proof (rule impI)
    assume "patron_caidas fs = Inr None"
    with ne lt show "(\<forall>d. veces_bajo fs d = 0)
           \<or> (\<exists>d. 0 < veces_bajo fs d \<and> (\<forall>d'. veces_bajo fs d' \<le> veces_bajo fs d)
                  \<and> 2 * veces_bajo fs d < veces_total fs d)"
      by (rule patron_caidas_callado)
  qed
  have f4: "\<forall>d. (\<forall>d'. d' \<noteq> d \<longrightarrow> veces_bajo fs d' < veces_bajo fs d) \<longrightarrow>
           ((\<exists>p. patron_caidas fs = Inr (Some p) \<and> p_dia p = d)
              \<longleftrightarrow> 50 \<le> consistencia_dia fs d)
           \<and> (50 \<le> consistencia_dia fs d \<longleftrightarrow> veces_total fs d \<le> 2 * veces_bajo fs d)"
  proof (rule allI, rule impI)
    fix d
    assume u: "\<forall>d'. d' \<noteq> d \<longrightarrow> veces_bajo fs d' < veces_bajo fs d"
    have "d @ ''x'' \<noteq> d" by simp
    with u have "veces_bajo fs (d @ ''x'') < veces_bajo fs d" by blast
    then have "0 < veces_bajo fs d" by simp
    with veces_bajo_le_total[of fs d] have tot: "0 < veces_total fs d" by simp
    have a: "(\<exists>p. patron_caidas fs = Inr (Some p) \<and> p_dia p = d)
              \<longleftrightarrow> veces_total fs d \<le> 2 * veces_bajo fs d"
      by (rule patron_caidas_unico[OF ne lt]) (use u in simp)
    note b = consistencia_dia_iff[OF tot lt]
    show "((\<exists>p. patron_caidas fs = Inr (Some p) \<and> p_dia p = d)
              \<longleftrightarrow> 50 \<le> consistencia_dia fs d)
           \<and> (50 \<le> consistencia_dia fs d \<longleftrightarrow> veces_total fs d \<le> 2 * veces_bajo fs d)"
      unfolding a b by simp
  qed
  have f5: "\<forall>s. (\<forall>d'. d' \<noteq> ''Sunday'' \<longrightarrow> veces_bajo fs d' < veces_bajo fs ''Sunday'')
              \<and> (\<forall>f. (f, ''Sunday'') \<in> set (dias_del_rango fs) \<longrightarrow> registros_del_dia fs f = s)
           \<longrightarrow> (\<exists>p. patron_caidas fs = Inr (Some p) \<and> p_dia p = ''Sunday''
                  \<and> p_consistencia p = 100
                  \<and> p_promedio p = real s
                  \<and> p_magnitud p = magnitud_caida fs (real s)
                  \<and> (2 * real s = promedio_diario fs \<longrightarrow> p_magnitud p = 50))"
  proof (rule allI, rule impI)
    fix s
    assume h: "(\<forall>d'. d' \<noteq> ''Sunday'' \<longrightarrow> veces_bajo fs d' < veces_bajo fs ''Sunday'')
              \<and> (\<forall>f. (f, ''Sunday'') \<in> set (dias_del_rango fs) \<longrightarrow> registros_del_dia fs f = s)"
    show "\<exists>p. patron_caidas fs = Inr (Some p) \<and> p_dia p = ''Sunday''
                  \<and> p_consistencia p = 100
                  \<and> p_promedio p = real s
                  \<and> p_magnitud p = magnitud_caida fs (real s)
                  \<and> (2 * real s = promedio_diario fs \<longrightarrow> p_magnitud p = 50)"
      by (rule patron_caidas_dia_unico[OF ne lt]) (use h in simp_all)
  qed
  show ?thesis
    by (rule conjI, rule f0, rule conjI, rule f1, rule conjI, rule f2, rule conjI, rule f3,
        rule conjI, rule f4, rule f5)
qed

text \<open>Two views.  In the first example view every Sunday has 1 record and every other
  day 2: the Sunday pattern is reported with a magnitude of 46.15384615384615.  In the
  fourth the two Sundays have 63 records each, which is 0.85 times the daily mean exactly;
  the threshold computed is 63.00000000000001, both Sundays are below it and the Sunday
  pattern is reported, with a magnitude of 15.000000000000007.\<close>

theorem drop_pattern_witness:
  "ejemplo_domingos \<noteq> [] \<and> length ejemplo_domingos = 52
   \<and> veces_bajo ejemplo_domingos ''Sunday'' = 4 \<and> veces_total ejemplo_domingos ''Sunday'' = 4
   \<and> (\<exists>p. patron_caidas ejemplo_domingos = Inr (Some p) \<and> p_dia p = ''Sunday''
          \<and> p_consistencia p = 100 \<and> p_promedio p = 1
          \<and> p_magnitud p = 6495576385630523 / 140737488355328)
   \<and> length ejemplo_borde = 1260
   \<and> 0.85 * promedio_diario ejemplo_borde = 63
   \<and> registros_del_dia ejemplo_borde 7 = 63 \<and> registros_del_dia ejemplo_borde 14 = 63
   \<and> umbral_caida ejemplo_borde = 63 + 1 / 2 ^ 47
   \<and> bajo_umbral ejemplo_borde 7 \<and> bajo_umbral ejemplo_borde 14
   \<and> (\<exists>p. patron_caidas ejemplo_borde = Inr (Some p) \<and> p_dia p = ''Sunday''
          \<and> p_consistencia p = 100 \<and> p_promedio p = 63
          \<and> p_magnitud p = 2111062325329921 / 140737488355328)"
proof -
  have ne: "ejemplo_domingos \<noteq> []" by (simp add: ejemplo_domingos_def)
  have len: "length ejemplo_domingos = 52" by (simp add: ejemplo_domingos_def)
  have lt: "length ejemplo_domingos < 2 ^ 53" unfolding len by simp
  have h: "(\<forall>d'. d' \<noteq> ''Sunday'' \<longrightarrow>
              veces_bajo ejemplo_domingos d' < veces_bajo ejemplo_domingos ''Sunday'')
           \<and> (\<forall>f. (f, ''Sunday'') \<in> set (dias_del_rango ejemplo_domingos) \<longrightarrow>
                 registros_del_dia ejemplo_domingos f = 1)"
    by (simp add: veces_bajo_domingos registros_domingos)
  have t: "veces_total ejemplo_domingos ''Sunday'' = 4"
    unfolding veces_total_def dias_del_rango_domingos by simp
  note d = drop_pattern[OF ne lt, THEN conjunct2, THEN conjunct2, THEN conjunct2, THEN conjunct2,
      THEN conjunct2, THEN spec, of 1, THEN mp, OF h]
  then obtain p where "patron_caidas ejemplo_domingos = Inr (Some p)" "p_dia p = ''Sunday''"
    "p_consistencia p = 100" "p_promedio p = real 1"
    "p_magnitud p = magnitud_caida ejemplo_domingos (real 1)"
    by (elim exE conjE)
  then have "patron_caidas ejemplo_domingos = Inr (Some p) \<and> p_dia p = ''Sunday''
          \<and> p_consistencia p = 100 \<and> p_promedio p = 1
          \<and> p_magnitud p = 6495576385630523 / 140737488355328"
    by (simp add: magnitud_domingos)
  then have e: "\<exists>p. patron_caidas ejemplo_domingos = Inr (Some p) \<and> p_dia p = ''Sunday''
          \<and> p_consistencia p = 100 \<and> p_promedio p = 1
          \<and> p_magnitud p = 6495576385630523 / 140737488355328" ..
  have vb: "veces_bajo ejemplo_domingos ''Sunday'' = 4" by (rule veces_bajo_domingos(1))
  have neb: "ejemplo_borde \<noteq> []" using length_borde by auto
  have ltb: "length ejemplo_borde < 2 ^ 53" unfolding length_borde by simp
  have hb: "(\<forall>d'. d' \<noteq> ''Sunday'' \<longrightarrow>
              veces_bajo ejemplo_borde d' < veces_bajo ejemplo_borde ''Sunday'')
           \<and> (\<forall>f. (f, ''Sunday'') \<in> set (dias_del_rango ejemplo_borde) \<longrightarrow>
                 registros_del_dia ejemplo_borde f = 63)"
    by (simp add: veces_bajo_borde registros_domingos_borde)
  note db = drop_pattern[OF neb ltb, THEN conjunct2, THEN conjunct2, THEN conjunct2,
      THEN conjunct2, THEN conjunct2, THEN spec, of 63, THEN mp, OF hb]
  then obtain q where "patron_caidas ejemplo_borde = Inr (Some q)" "p_dia q = ''Sunday''"
    "p_consistencia q = 100" "p_promedio q = real 63"
    "p_magnitud q = magnitud_caida ejemplo_borde (real 63)"
    by (elim exE conjE)
  then have "patron_caidas ejemplo_borde = Inr (Some q) \<and> p_dia q = ''Sunday''
          \<and> p_consistencia q = 100 \<and> p_promedio q = 63
          \<and> p_magnitud q = 2111062325329921 / 140737488355328"
    by (simp add: magnitud_borde)
  then have eb: "\<exists>p. patron_caidas ejemplo_borde = Inr (Some p) \<and> p_dia p = ''Sunday''
          \<and> p_consistencia p = 100 \<and> p_promedio p = 63
          \<and> p_magnitud p = 2111062325329921 / 140737488355328" ..
  have a: "0.85 * promedio_diario ejemplo_borde = 63"
    unfolding promedio_diario_borde by simp
  have b: "registros_del_dia ejemplo_borde 7 = 63" "registros_del_dia ejemplo_borde 14 = 63"
    unfolding registros_del_dia_borde by simp_all
  have u: "umbral_caida ejemplo_borde = 63 + 1 / 2 ^ 47"
    using drop_pattern[OF neb ltb, THEN conjunct1, THEN conjunct1] umbral_85_borde by simp
  have c: "bajo_umbral ejemplo_borde 7" "bajo_umbral ejemplo_borde 14"
    unfolding bajo_umbral_def umbral_85_borde b by simp_all
  from ne len vb t e length_borde a b u c eb show ?thesis by (intro conjI)
qed

text \<open>The claim as stated fails.  In the second and the third example view there are four
  Sundays, each with half the mean of the other days (second view) or half the mean of all
  days (third view); yet the pattern reported is for Monday, of which five days are below
  the threshold, and no Sunday pattern is reported.\<close>

theorem monday_drop_counterexample:
  "map snd (filter (\<lambda>((f, d), n). d = ''Sunday'') (registros_dia_completo ejemplo_lunes))
     = [1, 1, 1, 1]
   \<and> media (map snd (filter (\<lambda>((f, d), n). d \<noteq> ''Sunday'') (registros_dia_completo ejemplo_lunes)))
     = 2
   \<and> patron_caidas ejemplo_lunes =
     Inr (Some \<lparr>p_dia = ''Monday'', p_cantidad = 5, p_total_dias_tipo = 5, p_consistencia = 100,
            p_fechas = [1, 8, 15, 22, 29], p_promedio = 1,
            p_magnitud = 5277655813324801 / 140737488355328\<rparr>)
   \<and> map snd (filter (\<lambda>((f, d), n). d = ''Sunday'') (registros_dia_completo ejemplo_lunes_b))
     = [1, 1, 1, 1]
   \<and> media (map snd (registros_dia ejemplo_lunes_b)) = 2
   \<and> patron_caidas ejemplo_lunes_b =
     Inr (Some \<lparr>p_dia = ''Monday'', p_cantidad = 5, p_total_dias_tipo = 5, p_consistencia = 100,
            p_fechas = [1, 8, 15, 22, 29], p_promedio = 1, p_magnitud = 50\<rparr>)"
  using domingos_lunes domingos_lunes_b patron_caidas_lunes patron_caidas_lunes_b
  by (intro conjI)

end
